theory Spec2Isabelle
  imports Complex_Main "HOL-Library.Word"
begin

unbundle bit_operations_syntax

section \<open>Conventions of the embedding\<close>

text \<open>
  The three firmwares (soil moisture, forest fire, water quality) are Arduino sketches:
  global variables mutated by \<^verbatim>\<open>void\<close> functions that the main loop calls once per
  sampling period. Each sketch is embedded as a record of its globals and one HOL function
  per C function, taking the state and returning the updated one.

  \<^item> A C \<^verbatim>\<open>float\<close> is modelled by a \<^typ>\<open>real\<close>: comparisons against the thresholds are
    those of the code, arithmetic is exact (rounding is not modelled). A reading of the DHT22
    driver is a \<^typ>\<open>real option\<close>, \<^term>\<open>None\<close> standing for NaN, the driver's
    failure value.
  \<^item> The alert counters are C \<^verbatim>\<open>int\<close> on a 32-bit target: \<^typ>\<open>32 word\<close>,
    incremented with wrap-around and compared as signed values.
  \<^item> Raw ADC readings and indicator counts are \<^typ>\<open>int\<close>: the code only converts and
    compares them, and counts at most five indicators.
  \<^item> Serial logging, WiFi and MQTT session handling are left out. Publishing reads the
    state and does not change it; for the water sketch, whose telemetry a property is
    about, what a pass publishes is the value returned by the publishing function,
    \<^term>\<open>None\<close> when the client is not connected.
  \<^item> One pass of a sketch is the body of the branch of \<^verbatim>\<open>loop()\<close> that runs when
    \<^verbatim>\<open>SENSOR_INTERVAL\<close> has elapsed; \<^verbatim>\<open>millis()\<close> has one value during a pass.
\<close>

type_synonym cint = "32 word"

definition ADC_MAX :: int where
  "ADC_MAX = 4095"

text \<open>
  Modelled from the spec: \<^verbatim>\<open>constrain\<close> is the Arduino core macro, which is not part of
  the repository; the specification says that a calibrated result is always clamped to
  \<^verbatim>\<open>[physicalMin, physicalMax]\<close>. The definition is the macro's
  \<^verbatim>\<open>((amt)<(low)?(low):((amt)>(high)?(high):(amt)))\<close>.
\<close>

definition constrain :: "real \<Rightarrow> real \<Rightarrow> real \<Rightarrow> real" where
  "constrain amt low high = (if amt < low then low else if amt > high then high else amt)"

section \<open>Signal conditioning: the calibration functions\<close>

subsection \<open>Soil moisture sketch\<close>

definition calibrateMoisture :: "int \<Rightarrow> real" where
  "calibrateMoisture adcValue =
     (let moisture = 100.0 - (real_of_int adcValue / real_of_int ADC_MAX * 100.0)
      in constrain moisture 0 100)"

text \<open>The two-point pH calibration is the same text in the soil and the water sketch.\<close>

definition calibratePH :: "int \<Rightarrow> real" where
  "calibratePH adcValue =
     (let voltage = real_of_int adcValue / real_of_int ADC_MAX * 3.3;
          pH4_voltage = 2.0;
          pH7_voltage = 1.5;
          voltsPerPH = (pH4_voltage - pH7_voltage) / (4.0 - 7.0);
          pH = 7.0 - ((voltage - pH7_voltage) / voltsPerPH)
      in constrain pH 0 14)"

subsection \<open>Water quality sketch\<close>

definition calibrateTurbidity :: "int \<Rightarrow> real" where
  "calibrateTurbidity rawValue =
     (let ntu = real_of_int rawValue / real_of_int ADC_MAX * 40.0
      in constrain ntu 0 40)"

definition calibrateDissolvedOxygen :: "int \<Rightarrow> real \<Rightarrow> real" where
  "calibrateDissolvedOxygen rawValue temperature =
     (let voltage = real_of_int rawValue / real_of_int ADC_MAX * 3.3;
          do_measured = (voltage / 3.3) * 15.0;
          do_compensated = do_measured * (1.0 + 0.0236 * (temperature - 20.0))
      in constrain do_compensated 0 15)"

definition calibrateConductivity :: "int \<Rightarrow> real" where
  "calibrateConductivity rawValue =
     (let voltage = real_of_int rawValue / real_of_int ADC_MAX * 3.3;
          conductivity = (voltage / 3.3) * 3000.0
      in constrain conductivity 0 3000)"

subsection \<open>Fire detection sketch\<close>

definition convertMQ2ToPPM :: "int \<Rightarrow> real" where
  "convertMQ2ToPPM rawValue =
     (let voltage = real_of_int rawValue / real_of_int ADC_MAX * 3.3;
          ppm = (voltage / 3.3) * 500.0
      in constrain ppm 0 500)"

definition convertMQ7ToPPM :: "int \<Rightarrow> real" where
  "convertMQ7ToPPM rawValue =
     (let voltage = real_of_int rawValue / real_of_int ADC_MAX * 3.3;
          ppm = (voltage / 3.3) * 100.0
      in constrain ppm 0 100)"


section \<open>Soil moisture sketch\<close>

text \<open>Source: \<^verbatim>\<open>wokwi/soil-moisture/Soil Moisture with thingsboard.ino\<close>.\<close>

definition MOTOR_RUNTIME :: "32 word" where
  "MOTOR_RUNTIME = 300000"

definition MOISTURE_THRESHOLD_LOW :: real where
  "MOISTURE_THRESHOLD_LOW = 30.0"

definition MOISTURE_THRESHOLD_HIGH :: real where
  "MOISTURE_THRESHOLD_HIGH = 35.0"

definition TEMP_HEAT_STRESS :: real where
  "TEMP_HEAT_STRESS = 35.0"

definition HUMIDITY_HEAT_STRESS :: real where
  "HUMIDITY_HEAT_STRESS = 40.0"

definition PH_MIN :: real where
  "PH_MIN = 6.0"

definition PH_MAX :: real where
  "PH_MAX = 7.5"

definition BUFFER_SIZE :: nat where
  "BUFFER_SIZE = 2"

text \<open>\<^verbatim>\<open>struct SensorData\<close>; field names shared with the other sketches carry the suffix
  \<open>_soil\<close>.\<close>

record SensorData =
  temperature_soil :: real
  humidity_soil :: real
  soilMoisture :: real
  pH_soil :: real
  moistureFiltered :: real
  tempFiltered :: real
  humidityFiltered :: real
  irrigationAlert :: bool
  heatStressAlert :: bool
  phAlert :: bool
  motorStatus :: bool
  timestamp_soil :: "32 word"

text \<open>The globals of the sketch, and the three output pins it drives.\<close>

record soil_state =
  moistureBuffer :: "real list"
  tempBuffer :: "real list"
  humidityBuffer :: "real list"
  bufferIndex :: nat
  lowMoistureCount :: cint
  heatStressCount :: cint
  phImbalanceCount :: cint
  irrigationAlertActive :: bool
  heatStressAlertActive :: bool
  phImbalanceAlertActive :: bool
  motorRunning :: bool
  motorStartTime :: "32 word"
  currentData_soil :: SensorData
  MOTOR_PIN :: bool
  ALERT_LED_PIN :: bool
  BUZZER_PIN_soil :: bool

text \<open>What the drivers hand to one pass of the sampling branch: the two DHT22 readings
  (\<^term>\<open>None\<close> is NaN), the two \<^verbatim>\<open>analogRead\<close> values and the value of
  \<^verbatim>\<open>millis()\<close> during the pass.\<close>

record soil_sample =
  dht_humidity_soil :: "real option"
  dht_temperature_soil :: "real option"
  moistureRaw :: int
  phRaw :: int
  millis_soil :: "32 word"

definition init_soil :: soil_state where
  "init_soil =
     \<lparr> moistureBuffer = replicate BUFFER_SIZE 0,
       tempBuffer = replicate BUFFER_SIZE 0,
       humidityBuffer = replicate BUFFER_SIZE 0,
       bufferIndex = 0,
       lowMoistureCount = 0,
       heatStressCount = 0,
       phImbalanceCount = 0,
       irrigationAlertActive = False,
       heatStressAlertActive = False,
       phImbalanceAlertActive = False,
       motorRunning = False,
       motorStartTime = 0,
       currentData_soil =
         \<lparr> temperature_soil = 0, humidity_soil = 0, soilMoisture = 0, pH_soil = 0,
           moistureFiltered = 0, tempFiltered = 0, humidityFiltered = 0,
           irrigationAlert = False, heatStressAlert = False, phAlert = False,
           motorStatus = False, timestamp_soil = 0 \<rparr>,
       MOTOR_PIN = False,
       ALERT_LED_PIN = False,
       BUZZER_PIN_soil = False \<rparr>"

definition updateMovingAverage :: "real \<Rightarrow> real \<Rightarrow> real \<Rightarrow> soil_state \<Rightarrow> soil_state" where
  "updateMovingAverage moisture temp humidity s =
     s\<lparr> moistureBuffer := (moistureBuffer s)[bufferIndex s := moisture],
        tempBuffer := (tempBuffer s)[bufferIndex s := temp],
        humidityBuffer := (humidityBuffer s)[bufferIndex s := humidity],
        bufferIndex := (bufferIndex s + 1) mod BUFFER_SIZE \<rparr>"

text \<open>The summing loop \<^verbatim>\<open>for (int i = 0; i < BUFFER_SIZE; i++) sum += buf[i]\<close>, shared by the
  three getters.\<close>

definition buffer_sum :: "real list \<Rightarrow> real" where
  "buffer_sum buf = fold (\<lambda>i sum. sum + buf ! i) [0..<BUFFER_SIZE] 0"

definition getFilteredMoisture :: "soil_state \<Rightarrow> real" where
  "getFilteredMoisture s = buffer_sum (moistureBuffer s) / real BUFFER_SIZE"

definition getFilteredTemp :: "soil_state \<Rightarrow> real" where
  "getFilteredTemp s = buffer_sum (tempBuffer s) / real BUFFER_SIZE"

definition getFilteredHumidity :: "soil_state \<Rightarrow> real" where
  "getFilteredHumidity s = buffer_sum (humidityBuffer s) / real BUFFER_SIZE"

text \<open>\<^verbatim>\<open>readSensors\<close> returns before anything is stored when either DHT22 reading is NaN.\<close>

definition readSensors_soil :: "soil_sample \<Rightarrow> soil_state \<Rightarrow> soil_state" where
  "readSensors_soil smp s =
     (case (dht_humidity_soil smp, dht_temperature_soil smp) of
        (Some humidity, Some temperature) \<Rightarrow>
          (let moisture = calibrateMoisture (moistureRaw smp);
               ph = calibratePH (phRaw smp);
               s1 = updateMovingAverage moisture temperature humidity s
           in s1\<lparr> currentData_soil := (currentData_soil s1)
                 \<lparr> temperature_soil := temperature,
                   humidity_soil := humidity,
                   soilMoisture := moisture,
                   pH_soil := ph,
                   moistureFiltered := getFilteredMoisture s1,
                   tempFiltered := getFilteredTemp s1,
                   humidityFiltered := getFilteredHumidity s1,
                   timestamp_soil := millis_soil smp \<rparr> \<rparr>)
      | _ \<Rightarrow> s)"

text \<open>\<^verbatim>\<open>checkAlertConditions\<close>, one definition per alert block of the function.\<close>

definition checkAlert_lowMoisture :: "soil_state \<Rightarrow> soil_state" where
  "checkAlert_lowMoisture s =
     (let filteredMoisture = getFilteredMoisture s in
      if filteredMoisture < MOISTURE_THRESHOLD_LOW then
        (let s1 = s\<lparr> lowMoistureCount := lowMoistureCount s + 1 \<rparr> in
         if 3 \<le>s lowMoistureCount s1 then
           (let s2 = (if \<not> irrigationAlertActive s1
                      then s1\<lparr> irrigationAlertActive := True \<rparr> else s1)
            in s2\<lparr> currentData_soil := (currentData_soil s2)\<lparr> irrigationAlert := True \<rparr> \<rparr>)
         else s1)
      else if filteredMoisture > MOISTURE_THRESHOLD_HIGH then
        s\<lparr> lowMoistureCount := 0,
           irrigationAlertActive := False,
           currentData_soil := (currentData_soil s)\<lparr> irrigationAlert := False \<rparr> \<rparr>
      else s\<lparr> lowMoistureCount := lowMoistureCount s + 1 \<rparr>)"

definition checkAlert_heatStress :: "soil_state \<Rightarrow> soil_state" where
  "checkAlert_heatStress s =
     (let filteredTemp = getFilteredTemp s;
          filteredHumidity = getFilteredHumidity s in
      if filteredTemp > TEMP_HEAT_STRESS \<and> filteredHumidity < HUMIDITY_HEAT_STRESS then
        (let s1 = s\<lparr> heatStressCount := heatStressCount s + 1 \<rparr> in
         if 2 \<le>s heatStressCount s1 then
           (let s2 = (if \<not> heatStressAlertActive s1
                      then s1\<lparr> heatStressAlertActive := True \<rparr> else s1)
            in s2\<lparr> currentData_soil := (currentData_soil s2)\<lparr> heatStressAlert := True \<rparr> \<rparr>)
         else s1)
      else
        s\<lparr> heatStressCount := 0,
           heatStressAlertActive := False,
           currentData_soil := (currentData_soil s)\<lparr> heatStressAlert := False \<rparr> \<rparr>)"

definition checkAlert_phImbalance :: "soil_state \<Rightarrow> soil_state" where
  "checkAlert_phImbalance s =
     (if pH_soil (currentData_soil s) < PH_MIN \<or> pH_soil (currentData_soil s) > PH_MAX then
        (let s1 = s\<lparr> phImbalanceCount := phImbalanceCount s + 1 \<rparr> in
         if 5 \<le>s phImbalanceCount s1 then
           (let s2 = (if \<not> phImbalanceAlertActive s1
                      then s1\<lparr> phImbalanceAlertActive := True \<rparr> else s1)
            in s2\<lparr> currentData_soil := (currentData_soil s2)\<lparr> phAlert := True \<rparr> \<rparr>)
         else s1)
      else
        s\<lparr> phImbalanceCount := 0,
           phImbalanceAlertActive := False,
           currentData_soil := (currentData_soil s)\<lparr> phAlert := False \<rparr> \<rparr>)"

definition checkAlertConditions :: "soil_state \<Rightarrow> soil_state" where
  "checkAlertConditions s =
     checkAlert_phImbalance (checkAlert_heatStress (checkAlert_lowMoisture s))"

definition controlAlerts :: "soil_state \<Rightarrow> soil_state" where
  "controlAlerts s =
     (let anyAlertActive =
            (irrigationAlertActive s \<or> heatStressAlertActive s \<or> phImbalanceAlertActive s) in
      if anyAlertActive then s\<lparr> ALERT_LED_PIN := True, BUZZER_PIN_soil := True \<rparr>
      else s\<lparr> ALERT_LED_PIN := False, BUZZER_PIN_soil := False \<rparr>)"

definition controlMotor :: "32 word \<Rightarrow> soil_state \<Rightarrow> soil_state" where
  "controlMotor currentTime s =
     (let filteredMoisture = getFilteredMoisture s;
          s1 = (if irrigationAlertActive s \<and> \<not> motorRunning s then
                  s\<lparr> MOTOR_PIN := True, motorRunning := True, motorStartTime := currentTime,
                     currentData_soil := (currentData_soil s)\<lparr> motorStatus := True \<rparr> \<rparr>
                else s);
          s2 = (if motorRunning s1 then
                  (let motorElapsedTime = currentTime - motorStartTime s1 in
                   if MOTOR_RUNTIME \<le> motorElapsedTime then
                     s1\<lparr> MOTOR_PIN := False, motorRunning := False,
                        currentData_soil := (currentData_soil s1)\<lparr> motorStatus := False \<rparr> \<rparr>
                   else s1)
                else s1)
      in if motorRunning s2 \<and> \<not> irrigationAlertActive s2
            \<and> filteredMoisture \<ge> MOISTURE_THRESHOLD_HIGH then
           s2\<lparr> MOTOR_PIN := False, motorRunning := False,
              currentData_soil := (currentData_soil s2)\<lparr> motorStatus := False \<rparr> \<rparr>
         else s2)"

text \<open>The sampling branch of \<^verbatim>\<open>loop()\<close>, run once per \<^verbatim>\<open>SENSOR_INTERVAL\<close>; publishing reads
  the state and does not change it.\<close>

definition loop_soil :: "soil_sample \<Rightarrow> soil_state \<Rightarrow> soil_state" where
  "loop_soil smp s =
     controlMotor (millis_soil smp)
       (controlAlerts (checkAlertConditions (readSensors_soil smp s)))"

text \<open>A sequence of sampling passes, oldest first.\<close>

definition run_soil :: "soil_sample list \<Rightarrow> soil_state \<Rightarrow> soil_state" where
  "run_soil smps s = fold loop_soil smps s"


section \<open>Fire detection sketch\<close>

text \<open>Source: \<^verbatim>\<open>wokwi/fire-detection/Fire Detection with thingsboard.ino\<close>.\<close>

definition TEMP_THRESHOLD :: real where
  "TEMP_THRESHOLD = 40.0"

definition HUMIDITY_THRESHOLD :: real where
  "HUMIDITY_THRESHOLD = 30.0"

definition GAS_BASELINE_INCREASE :: int where
  "GAS_BASELINE_INCREASE = 20"

definition MQ2_BASELINE :: int where
  "MQ2_BASELINE = 50"

definition MQ7_BASELINE :: int where
  "MQ7_BASELINE = 50"

definition WINDOW_SIZE :: nat where
  "WINDOW_SIZE = 10"

record FireSensorData =
  temperature_fire :: real
  humidity_fire :: real
  mq2_raw :: int
  mq7_raw :: int
  mq2_ppm :: real
  mq7_ppm :: real
  smokeDetected :: bool
  tempRate :: real
  fireIndicators :: int
  alertLevel_fire :: int
  timestamp_fire :: "32 word"

record FireIndicators =
  tempHigh :: bool
  humidityLow :: bool
  mq2Elevated :: bool
  mq7Elevated :: bool
  smokePresent :: bool

record fire_state =
  tempWindow :: "real list"
  humidityWindow :: "real list"
  mq2Window :: "int list"
  mq7Window :: "int list"
  smokeWindow :: "bool list"
  windowIndex :: nat
  level1AlertCount :: cint
  level2AlertCount :: cint
  level3AlertCount :: cint
  level1AlertActive :: bool
  level2AlertActive :: bool
  level3AlertActive :: bool
  currentData_fire :: FireSensorData
  indicators_fire :: FireIndicators
  LED_LEVEL1_PIN :: bool
  LED_LEVEL2_PIN :: bool
  LED_LEVEL3_PIN :: bool
  BUZZER_PIN_fire :: bool

record fire_sample =
  dht_humidity_fire :: "real option"
  dht_temperature_fire :: "real option"
  mq2_adc :: int
  mq7_adc :: int
  smoke_pin :: bool
  millis_fire :: "32 word"

definition init_fire :: fire_state where
  "init_fire =
     \<lparr> tempWindow = replicate WINDOW_SIZE 0,
       humidityWindow = replicate WINDOW_SIZE 0,
       mq2Window = replicate WINDOW_SIZE 0,
       mq7Window = replicate WINDOW_SIZE 0,
       smokeWindow = replicate WINDOW_SIZE False,
       windowIndex = 0,
       level1AlertCount = 0,
       level2AlertCount = 0,
       level3AlertCount = 0,
       level1AlertActive = False,
       level2AlertActive = False,
       level3AlertActive = False,
       currentData_fire =
         \<lparr> temperature_fire = 0, humidity_fire = 0, mq2_raw = 0, mq7_raw = 0,
           mq2_ppm = 0, mq7_ppm = 0, smokeDetected = False, tempRate = 0,
           fireIndicators = 0, alertLevel_fire = 0, timestamp_fire = 0 \<rparr>,
       indicators_fire =
         \<lparr> tempHigh = False, humidityLow = False, mq2Elevated = False,
           mq7Elevated = False, smokePresent = False \<rparr>,
       LED_LEVEL1_PIN = False,
       LED_LEVEL2_PIN = False,
       LED_LEVEL3_PIN = False,
       BUZZER_PIN_fire = False \<rparr>"

definition updateSlidingWindow ::
  "real \<Rightarrow> real \<Rightarrow> int \<Rightarrow> int \<Rightarrow> bool \<Rightarrow> fire_state \<Rightarrow> fire_state" where
  "updateSlidingWindow temp humidity mq2 mq7 smoke s =
     s\<lparr> tempWindow := (tempWindow s)[windowIndex s := temp],
        humidityWindow := (humidityWindow s)[windowIndex s := humidity],
        mq2Window := (mq2Window s)[windowIndex s := mq2],
        mq7Window := (mq7Window s)[windowIndex s := mq7],
        smokeWindow := (smokeWindow s)[windowIndex s := smoke],
        windowIndex := (windowIndex s + 1) mod WINDOW_SIZE \<rparr>"

definition calculateTemperatureRateOfChange :: "fire_state \<Rightarrow> real" where
  "calculateTemperatureRateOfChange s =
     (if windowIndex s = 0 then 0
      else
        (let oldIndex = nat ((int (windowIndex s) - 10 + int WINDOW_SIZE) mod int WINDOW_SIZE);
             tempDifference = temperature_fire (currentData_fire s) - tempWindow s ! oldIndex;
             tempRate = tempDifference / 5.0
         in tempRate))"

definition readSensors_fire :: "fire_sample \<Rightarrow> fire_state \<Rightarrow> fire_state" where
  "readSensors_fire smp s =
     (case (dht_humidity_fire smp, dht_temperature_fire smp) of
        (Some humidity, Some temperature) \<Rightarrow>
          (let mq2 = mq2_adc smp;
               mq2ppm = convertMQ2ToPPM mq2;
               mq7 = mq7_adc smp;
               mq7ppm = convertMQ7ToPPM mq7;
               smoke = smoke_pin smp;
               s1 = updateSlidingWindow temperature humidity mq2 mq7 smoke s;
               s2 = s1\<lparr> currentData_fire := (currentData_fire s1)
                      \<lparr> temperature_fire := temperature,
                        humidity_fire := humidity,
                        mq2_raw := mq2,
                        mq7_raw := mq7,
                        mq2_ppm := mq2ppm,
                        mq7_ppm := mq7ppm,
                        smokeDetected := smoke \<rparr> \<rparr>
           in s2\<lparr> currentData_fire := (currentData_fire s2)
                 \<lparr> tempRate := calculateTemperatureRateOfChange s2,
                   timestamp_fire := millis_fire smp \<rparr> \<rparr>)
      | _ \<Rightarrow> s)"

definition evaluateFireIndicators :: "fire_state \<Rightarrow> fire_state" where
  "evaluateFireIndicators s =
     (let d = currentData_fire s;
          ind = \<lparr> tempHigh = (temperature_fire d > TEMP_THRESHOLD),
                  humidityLow = (humidity_fire d < HUMIDITY_THRESHOLD),
                  mq2Elevated = (mq2_raw d > MQ2_BASELINE + GAS_BASELINE_INCREASE),
                  mq7Elevated = (mq7_raw d > MQ7_BASELINE + GAS_BASELINE_INCREASE),
                  smokePresent = smokeDetected d \<rparr>;
          n = 0
              + (if tempHigh ind then 1 else 0)
              + (if humidityLow ind then 1 else 0)
              + (if mq2Elevated ind then 1 else 0)
              + (if mq7Elevated ind then 1 else 0)
              + (if smokePresent ind then 1 else 0)
      in s\<lparr> indicators_fire := ind, currentData_fire := d\<lparr> fireIndicators := n \<rparr> \<rparr>)"

text \<open>\<^verbatim>\<open>checkFireAlertLevels\<close>, one definition per block of the function, run in the order
  of the source after \<^verbatim>\<open>evaluateFireIndicators\<close>.\<close>

definition checkFire_level1 :: "fire_state \<Rightarrow> fire_state" where
  "checkFire_level1 s =
     (let ind = indicators_fire s in
      if (tempHigh ind \<or> humidityLow ind \<or> mq2Elevated ind \<or> mq7Elevated ind)
         \<and> fireIndicators (currentData_fire s) \<ge> 2 then
        (let s1 = s\<lparr> level1AlertCount := level1AlertCount s + 1 \<rparr> in
         if 5 \<le>s level1AlertCount s1 then
           (let s2 = (if \<not> level1AlertActive s1
                      then s1\<lparr> level1AlertActive := True \<rparr> else s1)
            in s2\<lparr> currentData_fire := (currentData_fire s2)\<lparr> alertLevel_fire := 1 \<rparr> \<rparr>)
         else s1)
      else s\<lparr> level1AlertCount := 0, level1AlertActive := False \<rparr>)"

definition checkFire_level2 :: "fire_state \<Rightarrow> fire_state" where
  "checkFire_level2 s =
     (if fireIndicators (currentData_fire s) \<ge> 3 then
        (let s1 = s\<lparr> level2AlertCount := level2AlertCount s + 1 \<rparr> in
         if 2 \<le>s level2AlertCount s1 then
           (let s2 = (if \<not> level2AlertActive s1
                      then s1\<lparr> level2AlertActive := True \<rparr> else s1)
            in s2\<lparr> currentData_fire := (currentData_fire s2)\<lparr> alertLevel_fire := 2 \<rparr>,
                  level1AlertActive := True \<rparr>)
         else s1)
      else s\<lparr> level2AlertCount := 0, level2AlertActive := False \<rparr>)"

definition checkFire_level3 :: "fire_state \<Rightarrow> fire_state" where
  "checkFire_level3 s =
     (if fireIndicators (currentData_fire s) \<ge> 4 then
        (let s1 = s\<lparr> level3AlertCount := level3AlertCount s + 1 \<rparr> in
         if 1 \<le>s level3AlertCount s1 then
           (let s2 = (if \<not> level3AlertActive s1
                      then s1\<lparr> level3AlertActive := True \<rparr> else s1)
            in s2\<lparr> currentData_fire := (currentData_fire s2)\<lparr> alertLevel_fire := 3 \<rparr>,
                  level1AlertActive := True,
                  level2AlertActive := True \<rparr>)
         else s1)
      else s\<lparr> level3AlertCount := 0, level3AlertActive := False \<rparr>)"

definition checkFire_reset :: "fire_state \<Rightarrow> fire_state" where
  "checkFire_reset s =
     (if fireIndicators (currentData_fire s) < 2 then
        s\<lparr> level1AlertActive := False,
           level2AlertActive := False,
           level3AlertActive := False,
           currentData_fire := (currentData_fire s)\<lparr> alertLevel_fire := 0 \<rparr> \<rparr>
      else s)"

definition checkFireAlertLevels :: "fire_state \<Rightarrow> fire_state" where
  "checkFireAlertLevels s =
     checkFire_reset (checkFire_level3 (checkFire_level2 (checkFire_level1
       (evaluateFireIndicators s))))"

definition controlAlertLEDs :: "fire_state \<Rightarrow> fire_state" where
  "controlAlertLEDs s =
     (if level3AlertActive s then
        s\<lparr> LED_LEVEL3_PIN := True, LED_LEVEL2_PIN := True, LED_LEVEL1_PIN := True \<rparr>
      else if level2AlertActive s then
        s\<lparr> LED_LEVEL3_PIN := False, LED_LEVEL2_PIN := True, LED_LEVEL1_PIN := True \<rparr>
      else if level1AlertActive s then
        s\<lparr> LED_LEVEL3_PIN := False, LED_LEVEL2_PIN := False, LED_LEVEL1_PIN := True \<rparr>
      else
        s\<lparr> LED_LEVEL3_PIN := False, LED_LEVEL2_PIN := False, LED_LEVEL1_PIN := False \<rparr>)"

definition controlBuzzer_fire :: "fire_state \<Rightarrow> fire_state" where
  "controlBuzzer_fire s =
     (if level3AlertActive s then s\<lparr> BUZZER_PIN_fire := True \<rparr>
      else if level2AlertActive s then s\<lparr> BUZZER_PIN_fire := True \<rparr>
      else if level1AlertActive s then s\<lparr> BUZZER_PIN_fire := True \<rparr>
      else s\<lparr> BUZZER_PIN_fire := False \<rparr>)"

text \<open>The sampling branch of \<^verbatim>\<open>loop()\<close>, run once per \<^verbatim>\<open>SENSOR_INTERVAL\<close>; publishing reads
  the state and does not change it.\<close>

definition loop_fire :: "fire_sample \<Rightarrow> fire_state \<Rightarrow> fire_state" where
  "loop_fire smp s =
     controlBuzzer_fire (controlAlertLEDs (checkFireAlertLevels (readSensors_fire smp s)))"

text \<open>A sequence of sampling passes, oldest first.\<close>

definition run_fire :: "fire_sample list \<Rightarrow> fire_state \<Rightarrow> fire_state" where
  "run_fire smps s = fold loop_fire smps s"


section \<open>Water quality sketch\<close>

text \<open>Source: the third sketch of the repository (\<^verbatim>\<open>unnamed/part_000\<close>).\<close>

definition PH_OPTIMAL_MIN :: real where
  "PH_OPTIMAL_MIN = 6.5"

definition PH_OPTIMAL_MAX :: real where
  "PH_OPTIMAL_MAX = 8.5"

definition PH_CRITICAL_MIN :: real where
  "PH_CRITICAL_MIN = 4.0"

definition PH_CRITICAL_MAX :: real where
  "PH_CRITICAL_MAX = 10.0"

definition TURBIDITY_NORMAL :: real where
  "TURBIDITY_NORMAL = 5.0"

definition TURBIDITY_CRITICAL :: real where
  "TURBIDITY_CRITICAL = 20.0"

definition DO_OPTIMAL :: real where
  "DO_OPTIMAL = 7.0"

definition DO_CRITICAL :: real where
  "DO_CRITICAL = 3.0"

definition CONDUCTIVITY_NORMAL :: real where
  "CONDUCTIVITY_NORMAL = 500.0"

definition CONDUCTIVITY_CRITICAL :: real where
  "CONDUCTIVITY_CRITICAL = 2000.0"

definition BASELINE_READINGS :: nat where
  "BASELINE_READINGS = 32"

record WaterQualityData =
  pH_water :: real
  turbidity :: real
  dissolvedOxygen :: real
  conductivity :: real
  waterTemp :: real
  airTemp :: real
  humidity_water :: real
  wqi :: real
  qualityRating :: int
  alertLevel_water :: int
  contaminationLevel :: int
  timestamp_water :: "32 word"

record QualityIndicators =
  ph_abnormal :: bool
  turbidity_high :: bool
  do_low :: bool
  conductivity_high :: bool

text \<open>The globals of the sketch and its four output pins. \<^verbatim>\<open>baselineCounter\<close> indexes the
  baseline arrays and is a \<^typ>\<open>nat\<close>; started from \<open>init_water\<close> it stays below
  \<^verbatim>\<open>BASELINE_READINGS\<close> whenever a slot is written.\<close>

record water_state =
  baselineCounter :: nat
  baselineComplete :: bool
  ph_baseline :: "real list"
  turbidity_baseline :: "real list"
  do_baseline :: "real list"
  conductivity_baseline :: "real list"
  ph_baseline_avg :: real
  turbidity_baseline_avg :: real
  do_baseline_avg :: real
  conductivity_baseline_avg :: real
  cautionAlertCount :: cint
  criticalAlertCount :: cint
  contaminationDetectionCount :: cint
  cautionAlertActive :: bool
  criticalAlertActive :: bool
  contaminationDetected :: bool
  currentData_water :: WaterQualityData
  indicators_water :: QualityIndicators
  LED_NORMAL_PIN :: bool
  LED_CAUTION_PIN :: bool
  LED_CRITICAL_PIN :: bool
  BUZZER_PIN_water :: bool

record water_sample =
  dht_airTemp :: "real option"
  dht_humidity_water :: "real option"
  ph_adc :: int
  turbidity_adc :: int
  do_adc :: int
  conductivity_adc :: int
  millis_water :: "32 word"

text \<open>The JSON document of \<^verbatim>\<open>publishDataToThingsBoard\<close>, one field per key.\<close>

record water_telemetry =
  tb_pH :: real
  tb_turbidity_ntu :: real
  tb_dissolved_oxygen_mg_L :: real
  tb_conductivity_uS_cm :: real
  tb_water_temperature :: real
  tb_air_temperature :: real
  tb_humidity :: real
  tb_water_quality_index :: real
  tb_quality_rating :: int
  tb_alert_level :: int
  tb_caution_active :: bool
  tb_critical_active :: bool
  tb_baseline_complete :: bool

definition init_water :: water_state where
  "init_water =
     \<lparr> baselineCounter = 0,
       baselineComplete = False,
       ph_baseline = replicate BASELINE_READINGS 0,
       turbidity_baseline = replicate BASELINE_READINGS 0,
       do_baseline = replicate BASELINE_READINGS 0,
       conductivity_baseline = replicate BASELINE_READINGS 0,
       ph_baseline_avg = 7.0,
       turbidity_baseline_avg = 2.0,
       do_baseline_avg = 7.0,
       conductivity_baseline_avg = 300.0,
       cautionAlertCount = 0,
       criticalAlertCount = 0,
       contaminationDetectionCount = 0,
       cautionAlertActive = False,
       criticalAlertActive = False,
       contaminationDetected = False,
       currentData_water =
         \<lparr> pH_water = 0, turbidity = 0, dissolvedOxygen = 0, conductivity = 0,
           waterTemp = 0, airTemp = 0, humidity_water = 0, wqi = 0, qualityRating = 0,
           alertLevel_water = 0, contaminationLevel = 0, timestamp_water = 0 \<rparr>,
       indicators_water =
         \<lparr> ph_abnormal = False, turbidity_high = False, do_low = False,
           conductivity_high = False \<rparr>,
       LED_NORMAL_PIN = False,
       LED_CAUTION_PIN = False,
       LED_CRITICAL_PIN = False,
       BUZZER_PIN_water = False \<rparr>"

definition readSensors_water :: "water_sample \<Rightarrow> water_state \<Rightarrow> water_state" where
  "readSensors_water smp s =
     (case (dht_airTemp smp, dht_humidity_water smp) of
        (Some airTemp', Some humidity) \<Rightarrow>
          (let waterTemp' = airTemp' + 2.0;
               pH = calibratePH (ph_adc smp);
               turbidity' = calibrateTurbidity (turbidity_adc smp);
               dissolvedOxygen' = calibrateDissolvedOxygen (do_adc smp) waterTemp';
               conductivity' = calibrateConductivity (conductivity_adc smp)
           in s\<lparr> currentData_water := (currentData_water s)
                \<lparr> pH_water := pH,
                  turbidity := turbidity',
                  dissolvedOxygen := dissolvedOxygen',
                  conductivity := conductivity',
                  waterTemp := waterTemp',
                  airTemp := airTemp',
                  humidity_water := humidity,
                  timestamp_water := millis_water smp \<rparr> \<rparr>)
      | _ \<Rightarrow> s)"

text \<open>The summing loop over one baseline array,
  \<^verbatim>\<open>for (int i = 0; i < BASELINE_READINGS; i++) sum += arr[i]\<close>.\<close>

definition baseline_sum :: "real list \<Rightarrow> real" where
  "baseline_sum arr = fold (\<lambda>i sum. sum + arr ! i) [0..<BASELINE_READINGS] 0"

definition updateBaselineCharacterization :: "water_state \<Rightarrow> water_state" where
  "updateBaselineCharacterization s =
     (if baselineComplete s then s
      else
        (let d = currentData_water s;
             s1 = s\<lparr> ph_baseline := (ph_baseline s)[baselineCounter s := pH_water d],
                     turbidity_baseline :=
                       (turbidity_baseline s)[baselineCounter s := turbidity d],
                     do_baseline := (do_baseline s)[baselineCounter s := dissolvedOxygen d],
                     conductivity_baseline :=
                       (conductivity_baseline s)[baselineCounter s := conductivity d],
                     baselineCounter := baselineCounter s + 1 \<rparr>
         in if baselineCounter s1 \<ge> BASELINE_READINGS then
              s1\<lparr> ph_baseline_avg := baseline_sum (ph_baseline s1) / real BASELINE_READINGS,
                 turbidity_baseline_avg :=
                   baseline_sum (turbidity_baseline s1) / real BASELINE_READINGS,
                 do_baseline_avg := baseline_sum (do_baseline s1) / real BASELINE_READINGS,
                 conductivity_baseline_avg :=
                   baseline_sum (conductivity_baseline s1) / real BASELINE_READINGS,
                 baselineComplete := True \<rparr>
            else s1))"

definition evaluateQualityIndicators :: "water_state \<Rightarrow> water_state" where
  "evaluateQualityIndicators s =
     (let d = currentData_water s in
      s\<lparr> indicators_water :=
           \<lparr> ph_abnormal = (pH_water d < PH_OPTIMAL_MIN \<or> pH_water d > PH_OPTIMAL_MAX),
             turbidity_high = (turbidity d > TURBIDITY_NORMAL),
             do_low = (dissolvedOxygen d < DO_OPTIMAL),
             conductivity_high = (conductivity d > CONDUCTIVITY_NORMAL) \<rparr> \<rparr>)"

text \<open>The local \<^verbatim>\<open>activeIndicators\<close> of \<^verbatim>\<open>checkContaminationEvent\<close>.\<close>

definition activeIndicators :: "water_state \<Rightarrow> int" where
  "activeIndicators s =
     (let ind = indicators_water s in
      0 + (if ph_abnormal ind then 1 else 0)
        + (if turbidity_high ind then 1 else 0)
        + (if do_low ind then 1 else 0)
        + (if conductivity_high ind then 1 else 0))"

text \<open>\<^verbatim>\<open>checkContaminationEvent\<close>, one definition per block of the function.\<close>

definition checkContamination_caution :: "water_state \<Rightarrow> water_state" where
  "checkContamination_caution s =
     (if activeIndicators s \<ge> 1 then
        (let s1 = s\<lparr> cautionAlertCount := cautionAlertCount s + 1 \<rparr> in
         if 2 \<le>s cautionAlertCount s1 then
           (let s2 = (if \<not> cautionAlertActive s1
                      then s1\<lparr> cautionAlertActive := True \<rparr> else s1)
            in s2\<lparr> currentData_water := (currentData_water s2)\<lparr> alertLevel_water := 1 \<rparr>,
                  contaminationDetectionCount := contaminationDetectionCount s2 + 1 \<rparr>)
         else s1)
      else s\<lparr> cautionAlertCount := 0, cautionAlertActive := False \<rparr>)"

definition checkContamination_critical :: "water_state \<Rightarrow> water_state" where
  "checkContamination_critical s =
     (let d = currentData_water s in
      if (pH_water d < PH_CRITICAL_MIN \<or> pH_water d > PH_CRITICAL_MAX)
         \<or> turbidity d > TURBIDITY_CRITICAL
         \<or> dissolvedOxygen d < DO_CRITICAL
         \<or> conductivity d > CONDUCTIVITY_CRITICAL then
        (let s1 = s\<lparr> criticalAlertCount := criticalAlertCount s + 1 \<rparr> in
         if 1 \<le>s criticalAlertCount s1 then
           (let s2 = (if \<not> criticalAlertActive s1
                      then s1\<lparr> criticalAlertActive := True \<rparr> else s1)
            in s2\<lparr> currentData_water := (currentData_water s2)\<lparr> alertLevel_water := 2 \<rparr>,
                  contaminationDetected := True \<rparr>)
         else s1)
      else s\<lparr> criticalAlertCount := 0, criticalAlertActive := False,
              contaminationDetected := False \<rparr>)"

definition checkContamination_noAlert :: "water_state \<Rightarrow> water_state" where
  "checkContamination_noAlert s =
     (if activeIndicators s = 0 then
        s\<lparr> cautionAlertActive := False,
           criticalAlertActive := False,
           currentData_water := (currentData_water s)\<lparr> alertLevel_water := 0 \<rparr> \<rparr>
      else s)"

definition checkContaminationEvent :: "water_state \<Rightarrow> water_state" where
  "checkContaminationEvent s =
     (if \<not> baselineComplete s then s
      else checkContamination_noAlert (checkContamination_critical
             (checkContamination_caution (evaluateQualityIndicators s))))"

definition calculateWaterQualityIndex :: "water_state \<Rightarrow> water_state" where
  "calculateWaterQualityIndex s =
     (let d = currentData_water s;
          w_ph = 4.0;
          w_turbidity = 5.0;
          w_do = 5.0;
          w_conductivity = 3.0;
          total_weight = w_ph + w_turbidity + w_do + w_conductivity;
          q_ph = constrain (100.0 - (\<bar>pH_water d - 7.0\<bar> * 20.0)) 0 100;
          q_turbidity = constrain (100.0 - (turbidity d * 5.0)) 0 100;
          q_do = constrain ((dissolvedOxygen d / DO_OPTIMAL) * 100.0) 0 100;
          q_conductivity = constrain (100.0 - (conductivity d / 30.0)) 0 100;
          wqi' = (w_ph * q_ph + w_turbidity * q_turbidity
                  + w_do * q_do + w_conductivity * q_conductivity) / total_weight;
          rating = (if wqi' \<ge> 90 then 0
                    else if wqi' \<ge> 70 then 1
                    else if wqi' \<ge> 50 then 2
                    else if wqi' \<ge> 25 then 3
                    else 4)
      in s\<lparr> currentData_water := d\<lparr> wqi := wqi', qualityRating := rating \<rparr> \<rparr>)"

definition controlStatusLEDs :: "water_state \<Rightarrow> water_state" where
  "controlStatusLEDs s =
     (if criticalAlertActive s then
        s\<lparr> LED_CRITICAL_PIN := True, LED_CAUTION_PIN := True, LED_NORMAL_PIN := False \<rparr>
      else if cautionAlertActive s then
        s\<lparr> LED_CRITICAL_PIN := False, LED_CAUTION_PIN := True, LED_NORMAL_PIN := False \<rparr>
      else
        s\<lparr> LED_CRITICAL_PIN := False, LED_CAUTION_PIN := False, LED_NORMAL_PIN := True \<rparr>)"

definition controlBuzzer_water :: "water_state \<Rightarrow> water_state" where
  "controlBuzzer_water s =
     (if criticalAlertActive s then s\<lparr> BUZZER_PIN_water := True \<rparr>
      else if cautionAlertActive s then s\<lparr> BUZZER_PIN_water := True \<rparr>
      else s\<lparr> BUZZER_PIN_water := False \<rparr>)"

text \<open>\<^verbatim>\<open>publishDataToThingsBoard\<close>: nothing is sent when the MQTT client is not connected.\<close>

definition publishDataToThingsBoard :: "bool \<Rightarrow> water_state \<Rightarrow> water_telemetry option" where
  "publishDataToThingsBoard client_connected s =
     (if \<not> client_connected then None
      else
        (let d = currentData_water s in
         Some \<lparr> tb_pH = pH_water d,
                tb_turbidity_ntu = turbidity d,
                tb_dissolved_oxygen_mg_L = dissolvedOxygen d,
                tb_conductivity_uS_cm = conductivity d,
                tb_water_temperature = waterTemp d,
                tb_air_temperature = airTemp d,
                tb_humidity = humidity_water d,
                tb_water_quality_index = wqi d,
                tb_quality_rating = qualityRating d,
                tb_alert_level = alertLevel_water d,
                tb_caution_active = cautionAlertActive s,
                tb_critical_active = criticalAlertActive s,
                tb_baseline_complete = baselineComplete s \<rparr>))"

text \<open>The sampling branch of \<^verbatim>\<open>loop()\<close>, run once per \<^verbatim>\<open>SENSOR_INTERVAL\<close>: the new state
  and what the pass publishes. The first argument of a pass says whether the MQTT client is
  connected when the pass publishes.\<close>

definition loop_water ::
  "bool \<times> water_sample \<Rightarrow> water_state \<Rightarrow> water_state \<times> water_telemetry option" where
  "loop_water inp s =
     (let s1 = readSensors_water (snd inp) s;
          s2 = (if \<not> baselineComplete s1 then updateBaselineCharacterization s1
                else controlBuzzer_water (controlStatusLEDs
                       (calculateWaterQualityIndex (checkContaminationEvent s1))))
      in (s2, publishDataToThingsBoard (fst inp) s2))"

text \<open>A sequence of sampling passes, oldest first: the state after the last pass.\<close>

definition run_water :: "(bool \<times> water_sample) list \<Rightarrow> water_state \<Rightarrow> water_state" where
  "run_water inps s = fold (\<lambda>inp st. fst (loop_water inp st)) inps s"

section \<open>Notions used to state the properties\<close>

text \<open>The arithmetic mean of a list of values.\<close>

definition arith_mean :: "real list \<Rightarrow> real" where
  "arith_mean xs = sum_list xs / real (length xs)"

text \<open>The last \<open>k\<close> elements of a list, all of it when it is shorter.\<close>

definition last_pushes :: "nat \<Rightarrow> 'a list \<Rightarrow> 'a list" where
  "last_pushes k xs = drop (length xs - k) xs"

text \<open>A sequence of pushes into the moving-average filter of the soil sketch, oldest first:
  each is one call \<^verbatim>\<open>updateMovingAverage(moisture, temp, humidity)\<close>.\<close>

definition push_all :: "(real \<times> real \<times> real) list \<Rightarrow> soil_state \<Rightarrow> soil_state" where
  "push_all xs s = fold (\<lambda>(m, t, h). updateMovingAverage m t h) xs s"

text \<open>One push into the baseline tracker of the water sketch: the pass stores the four
  calibrated values in \<^verbatim>\<open>currentData\<close> and calls \<^verbatim>\<open>updateBaselineCharacterization\<close>.\<close>

record water_reading =
  r_pH :: real
  r_turbidity :: real
  r_dissolvedOxygen :: real
  r_conductivity :: real

definition baseline_push :: "water_reading \<Rightarrow> water_state \<Rightarrow> water_state" where
  "baseline_push r s =
     updateBaselineCharacterization
       (s\<lparr> currentData_water := (currentData_water s)
            \<lparr> pH_water := r_pH r,
              turbidity := r_turbidity r,
              dissolvedOxygen := r_dissolvedOxygen r,
              conductivity := r_conductivity r \<rparr> \<rparr>)"

definition baseline_pushes :: "water_reading list \<Rightarrow> water_state \<Rightarrow> water_state" where
  "baseline_pushes rs s = fold baseline_push rs s"

text \<open>The tracker is still filling: the readings pushed so far occupy the first slots of
  the four arrays, the other slots hold their initial zero.\<close>

definition filling :: "water_reading list \<Rightarrow> water_state \<Rightarrow> bool" where
  "filling rs s \<longleftrightarrow>
     baselineCounter s = length rs \<and> \<not> baselineComplete s
     \<and> ph_baseline s = map r_pH rs @ replicate (BASELINE_READINGS - length rs) 0
     \<and> turbidity_baseline s = map r_turbidity rs @ replicate (BASELINE_READINGS - length rs) 0
     \<and> do_baseline s = map r_dissolvedOxygen rs @ replicate (BASELINE_READINGS - length rs) 0
     \<and> conductivity_baseline s
         = map r_conductivity rs @ replicate (BASELINE_READINGS - length rs) 0"

text \<open>The debounce rule of the specification for one tier, given its threshold and whether
  the tier's entry predicate holds on this tick: a qualifying tick increments the count and
  activates the tier once the count has reached the threshold, any other tick resets the
  count and deactivates the tier. A tier is the pair of its count and its active flag.\<close>

definition spec_debounce :: "cint \<Rightarrow> bool \<Rightarrow> cint \<times> bool \<Rightarrow> cint \<times> bool" where
  "spec_debounce debounceThreshold qualifies tier =
     (if qualifies
      then (fst tier + 1, snd tier \<or> debounceThreshold \<le>s fst tier + 1)
      else (0, False))"

text \<open>The number of active fire indicators that \<^verbatim>\<open>evaluateFireIndicators\<close> computes from
  the current sensor data.\<close>

definition fire_count :: "fire_state \<Rightarrow> int" where
  "fire_count s = fireIndicators (currentData_fire (evaluateFireIndicators s))"

text \<open>Two passes of the fire sketch used as concrete inputs: all five indicators active,
  and only temperature and humidity active.\<close>

definition fire_all_indicators :: fire_sample where
  "fire_all_indicators =
     \<lparr> dht_humidity_fire = Some 20, dht_temperature_fire = Some 45,
       mq2_adc = 100, mq7_adc = 100, smoke_pin = True, millis_fire = 30000 \<rparr>"

definition fire_two_indicators :: fire_sample where
  "fire_two_indicators =
     \<lparr> dht_humidity_fire = Some 20, dht_temperature_fire = Some 45,
       mq2_adc = 10, mq7_adc = 10, smoke_pin = False, millis_fire = 60000 \<rparr>"

text \<open>The condition of the first \<^verbatim>\<open>if\<close> of \<^verbatim>\<open>checkFireAlertLevels\<close>, tier 1's entry
  predicate.\<close>

definition level1_entry :: "fire_state \<Rightarrow> bool" where
  "level1_entry s \<longleftrightarrow>
     (tempHigh (indicators_fire s) \<or> humidityLow (indicators_fire s)
      \<or> mq2Elevated (indicators_fire s) \<or> mq7Elevated (indicators_fire s))
     \<and> fireIndicators (currentData_fire s) \<ge> 2"

text \<open>Three passes of the soil sketch used as concrete inputs: a reading of 66.7 % moisture
  (raw 1365), a reading of 0 % (raw 4095), both with valid DHT22 values and a neutral pH,
  and a pass whose DHT22 read failed.\<close>

definition soil_moist_pass :: soil_sample where
  "soil_moist_pass =
     \<lparr> dht_humidity_soil = Some 50, dht_temperature_soil = Some 25,
       moistureRaw = 1365, phRaw = 1861, millis_soil = 60000 \<rparr>"

definition soil_dry_pass :: soil_sample where
  "soil_dry_pass =
     \<lparr> dht_humidity_soil = Some 50, dht_temperature_soil = Some 25,
       moistureRaw = 4095, phRaw = 1861, millis_soil = 120000 \<rparr>"

definition soil_nan_pass :: soil_sample where
  "soil_nan_pass =
     \<lparr> dht_humidity_soil = None, dht_temperature_soil = Some 25,
       moistureRaw = 1365, phRaw = 1861, millis_soil = 60000 \<rparr>"

text \<open>The number of active water-quality indicators of a pass, as
  \<^verbatim>\<open>checkContaminationEvent\<close> counts them after \<^verbatim>\<open>evaluateQualityIndicators\<close>.\<close>

definition water_count :: "water_state \<Rightarrow> int" where
  "water_count s = activeIndicators (evaluateQualityIndicators s)"

text \<open>The condition of the critical block of \<^verbatim>\<open>checkContaminationEvent\<close>, the critical
  tier's entry predicate.\<close>

definition critical_entry :: "water_state \<Rightarrow> bool" where
  "critical_entry s \<longleftrightarrow>
     (pH_water (currentData_water s) < PH_CRITICAL_MIN
      \<or> pH_water (currentData_water s) > PH_CRITICAL_MAX)
     \<or> turbidity (currentData_water s) > TURBIDITY_CRITICAL
     \<or> dissolvedOxygen (currentData_water s) < DO_CRITICAL
     \<or> conductivity (currentData_water s) > CONDUCTIVITY_CRITICAL"

text \<open>Nothing of the alert evaluation, the quality index or the outputs has been written:
  the fields hold the values of \<open>init_water\<close>.\<close>

definition alerts_untouched :: "water_state \<Rightarrow> bool" where
  "alerts_untouched s \<longleftrightarrow>
     alertLevel_water (currentData_water s) = 0
     \<and> wqi (currentData_water s) = 0
     \<and> qualityRating (currentData_water s) = 0
     \<and> cautionAlertCount s = 0 \<and> criticalAlertCount s = 0
     \<and> contaminationDetectionCount s = 0
     \<and> \<not> cautionAlertActive s \<and> \<not> criticalAlertActive s \<and> \<not> contaminationDetected s
     \<and> \<not> LED_NORMAL_PIN s \<and> \<not> LED_CAUTION_PIN s \<and> \<not> LED_CRITICAL_PIN s
     \<and> \<not> BUZZER_PIN_water s"

text \<open>Two passes of the water sketch used as concrete inputs, both with the MQTT client
  connected: a reading with pH 0, inside the critical band, and a pass whose DHT22 read
  failed.\<close>

definition water_critical_pass :: "bool \<times> water_sample" where
  "water_critical_pass =
     (True, \<lparr> dht_airTemp = Some 25, dht_humidity_water = Some 50, ph_adc = 0,
              turbidity_adc = 0, do_adc = 4095, conductivity_adc = 0,
              millis_water = 45000 \<rparr>)"

definition water_nan_pass :: "bool \<times> water_sample" where
  "water_nan_pass =
     (True, \<lparr> dht_airTemp = None, dht_humidity_water = Some 50, ph_adc = 0,
              turbidity_adc = 0, do_adc = 4095, conductivity_adc = 0,
              millis_water = 45000 \<rparr>)"

text \<open>A pass of the fire sketch whose DHT22 read failed.\<close>

definition fire_nan_pass :: fire_sample where
  "fire_nan_pass =
     \<lparr> dht_humidity_fire = Some 20, dht_temperature_fire = None,
       mq2_adc = 100, mq7_adc = 100, smoke_pin = True, millis_fire = 30000 \<rparr>"

text \<open>A pass of the soil sketch with dry soil, heat stress and an acid pH reading.\<close>

definition soil_hot_pass :: soil_sample where
  "soil_hot_pass =
     \<lparr> dht_humidity_soil = Some 20, dht_temperature_soil = Some 40,
       moistureRaw = 4095, phRaw = 0, millis_soil = 60000 \<rparr>"

text \<open>The escalation latch of the fire sketch on one pass, from the state before the pass
  and the indicator count of the pass. In \<^verbatim>\<open>checkFireAlertLevels\<close> the block of level 3
  assigns \<^verbatim>\<open>level2AlertActive = true\<close> and \<^verbatim>\<open>level1AlertActive = true\<close>, and the
  block of level 2 assigns \<^verbatim>\<open>level1AlertActive = true\<close>, each when its own predicate
  holds and its own incremented count has reached its threshold. The latch sets the flag
  of a tier on a pass when one of these assignments to that flag is executed.\<close>

definition tier2_latched :: "fire_state \<Rightarrow> int \<Rightarrow> bool" where
  "tier2_latched s n \<longleftrightarrow> 4 \<le> n \<and> 1 \<le>s level3AlertCount s + 1"

definition tier1_latched :: "fire_state \<Rightarrow> int \<Rightarrow> bool" where
  "tier1_latched s n \<longleftrightarrow>
     (3 \<le> n \<and> 2 \<le>s level2AlertCount s + 1) \<or> (4 \<le> n \<and> 1 \<le>s level3AlertCount s + 1)"

text \<open>A pass of the fire sketch with three indicators active: temperature, humidity and
  MQ-2.\<close>

definition fire_three_indicators :: fire_sample where
  "fire_three_indicators =
     \<lparr> dht_humidity_fire = Some 20, dht_temperature_fire = Some 45,
       mq2_adc = 100, mq7_adc = 10, smoke_pin = False, millis_fire = 150000 \<rparr>"

text \<open>Consecutive qualifying passes: the condition \<open>q\<close> holds of every pass of the
  sequence, in the state the pass is run in.\<close>

fun every_pass :: "('i \<Rightarrow> 's \<Rightarrow> bool) \<Rightarrow> ('i \<Rightarrow> 's \<Rightarrow> 's) \<Rightarrow> 'i list \<Rightarrow> 's \<Rightarrow> bool" where
  "every_pass q step [] s = True"
| "every_pass q step (x # xs) s = (q x s \<and> every_pass q step xs (step x s))"

section \<open>Calibration bounds\<close>

lemma constrain_range:
  "low \<le> high \<Longrightarrow> low \<le> constrain amt low high \<and> constrain amt low high \<le> high"
  by (simp add: constrain_def)

text \<open>
  Claim C6. For every raw ADC input in \<open>[0, ADC_MAX]\<close> and every temperature, each
  calibration function returns a value inside its documented physical range: soil moisture
  in \<open>[0, 100]\<close>, pH in \<open>[0, 14]\<close>, dissolved oxygen in \<open>[0, 15]\<close>, MQ-2 ppm in
  \<open>[0, 500]\<close>, and likewise MQ-7 ppm in \<open>[0, 100]\<close>, turbidity in \<open>[0, 40]\<close> and
  conductivity in \<open>[0, 3000]\<close>. A value inside such a range is neither NaN nor infinite.
\<close>

theorem calibration_bounds:
  assumes "0 \<le> raw" and "raw \<le> ADC_MAX"
  shows "0 \<le> calibrateMoisture raw \<and> calibrateMoisture raw \<le> 100
       \<and> 0 \<le> calibratePH raw \<and> calibratePH raw \<le> 14
       \<and> 0 \<le> calibrateDissolvedOxygen raw temperature
       \<and> calibrateDissolvedOxygen raw temperature \<le> 15
       \<and> 0 \<le> convertMQ2ToPPM raw \<and> convertMQ2ToPPM raw \<le> 500
       \<and> 0 \<le> convertMQ7ToPPM raw \<and> convertMQ7ToPPM raw \<le> 100
       \<and> 0 \<le> calibrateTurbidity raw \<and> calibrateTurbidity raw \<le> 40
       \<and> 0 \<le> calibrateConductivity raw \<and> calibrateConductivity raw \<le> 3000"
  unfolding calibrateMoisture_def calibratePH_def calibrateDissolvedOxygen_def
    convertMQ2ToPPM_def convertMQ7ToPPM_def calibrateTurbidity_def calibrateConductivity_def
    Let_def
  using constrain_range by simp

theorem calibration_bounds_witness:
  "(0::int) \<le> 2048 \<and> 2048 \<le> ADC_MAX
   \<and> 0 \<le> calibrateMoisture 2048 \<and> calibrateMoisture 2048 \<le> 100
   \<and> 0 \<le> calibratePH 2048 \<and> calibratePH 2048 \<le> 14
   \<and> 0 \<le> calibrateDissolvedOxygen 2048 25 \<and> calibrateDissolvedOxygen 2048 25 \<le> 15
   \<and> 0 \<le> convertMQ2ToPPM 2048 \<and> convertMQ2ToPPM 2048 \<le> 500"
  using calibration_bounds [of 2048 25] by (simp add: ADC_MAX_def)

section \<open>Summing loops\<close>

lemma fold_nth_sum:
  "n \<le> length arr \<Longrightarrow> fold (\<lambda>i sum. sum + arr ! i) [0..<n] (a::real) = a + sum_list (take n arr)"
proof (induction n)
  case 0
  then show ?case by simp
next
  case (Suc n)
  then have "take (Suc n) arr = take n arr @ [arr ! n]"
    by (simp add: take_Suc_conv_app_nth)
  with Suc show ?case by simp
qed

lemma buffer_sum_eq: "length buf = BUFFER_SIZE \<Longrightarrow> buffer_sum buf = sum_list buf"
  by (simp add: buffer_sum_def fold_nth_sum)

lemma baseline_sum_eq: "length arr = BASELINE_READINGS \<Longrightarrow> baseline_sum arr = sum_list arr"
  by (simp add: baseline_sum_def fold_nth_sum)

section \<open>The moving-average filter of the soil sketch\<close>

lemma rotate_update_step:
  assumes "length buf = M" and "idx < M"
  shows "rotate (Suc idx mod M) (buf[idx := x]) = tl (rotate idx buf) @ [x]"
proof -
  have r: "rotate idx buf = drop idx buf @ take idx buf"
    using assms by (simp add: rotate_drop_take)
  have d: "drop idx buf = buf ! idx # drop (Suc idx) buf"
    using assms by (simp add: Cons_nth_drop_Suc)
  have u: "buf[idx := x] = take idx buf @ x # drop (Suc idx) buf"
    using assms by (simp add: upd_conv_take_nth_drop)
  have tl_eq: "tl (rotate idx buf) = drop (Suc idx) buf @ take idx buf"
    by (simp add: r d)
  show ?thesis
  proof (cases "Suc idx < M")
    case True
    then have "rotate (Suc idx mod M) (buf[idx := x])
               = drop (Suc idx) (buf[idx := x]) @ take (Suc idx) (buf[idx := x])"
      using assms by (simp add: rotate_drop_take)
    also have "\<dots> = drop (Suc idx) buf @ take idx buf @ [x]"
      using assms by (simp add: take_Suc_conv_app_nth)
    finally show ?thesis by (simp add: tl_eq)
  next
    case False
    with assms have e: "Suc idx = M" by simp
    then have "drop (Suc idx) buf = []" using assms by simp
    then show ?thesis using e assms by (simp add: tl_eq u)
  qed
qed

lemma last_pushes_snoc:
  "0 < k \<Longrightarrow> k \<le> length xs \<Longrightarrow> last_pushes k (xs @ [x]) = tl (last_pushes k xs) @ [x]"
  by (simp add: last_pushes_def drop_Suc Suc_diff_le tl_drop)

lemma sum_last_pushes_pad:
  "sum_list (last_pushes k (replicate k (0::real) @ xs)) = sum_list (last_pushes k xs)"
  by (simp add: last_pushes_def sum_list_replicate)

lemma push_all_snoc: "push_all (xs @ [(m, t, h)]) s = updateMovingAverage m t h (push_all xs s)"
  by (simp add: push_all_def)

lemma BUFFER_SIZE_pos: "0 < BUFFER_SIZE"
  by (simp add: BUFFER_SIZE_def)

lemma push_all_inv:
  "bufferIndex (push_all xs init_soil) < BUFFER_SIZE
   \<and> length (moistureBuffer (push_all xs init_soil)) = BUFFER_SIZE
   \<and> length (tempBuffer (push_all xs init_soil)) = BUFFER_SIZE
   \<and> length (humidityBuffer (push_all xs init_soil)) = BUFFER_SIZE
   \<and> rotate (bufferIndex (push_all xs init_soil)) (moistureBuffer (push_all xs init_soil))
       = last_pushes BUFFER_SIZE (replicate BUFFER_SIZE 0 @ map fst xs)
   \<and> rotate (bufferIndex (push_all xs init_soil)) (tempBuffer (push_all xs init_soil))
       = last_pushes BUFFER_SIZE (replicate BUFFER_SIZE 0 @ map (fst \<circ> snd) xs)
   \<and> rotate (bufferIndex (push_all xs init_soil)) (humidityBuffer (push_all xs init_soil))
       = last_pushes BUFFER_SIZE (replicate BUFFER_SIZE 0 @ map (snd \<circ> snd) xs)"
proof (induction xs rule: rev_induct)
  case Nil
  then show ?case
    using BUFFER_SIZE_pos by (simp add: push_all_def init_soil_def last_pushes_def)
next
  case (snoc x xs)
  obtain m t h where x: "x = (m, t, h)" by (cases x) auto
  let ?s = "push_all xs init_soil"
  have step: "push_all (xs @ [x]) init_soil = updateMovingAverage m t h ?s"
    by (simp add: x push_all_snoc)
  have lp: "\<And>ys y. last_pushes BUFFER_SIZE (replicate BUFFER_SIZE (0::real) @ ys @ [y])
            = tl (last_pushes BUFFER_SIZE (replicate BUFFER_SIZE 0 @ ys)) @ [y]"
    using last_pushes_snoc [of BUFFER_SIZE "replicate BUFFER_SIZE (0::real) @ _"] BUFFER_SIZE_pos
    by simp
  from snoc show ?case
    unfolding step
    by (simp add: updateMovingAverage_def rotate_update_step lp x)
qed

lemma sum_list_rotate_real: "sum_list (rotate n xs) = sum_list (xs :: real list)"
proof (cases "xs = []")
  case True then show ?thesis by simp
next
  case False
  have "sum_list (rotate n xs) = sum_list (drop (n mod length xs) xs) + sum_list (take (n mod length xs) xs)"
    by (simp add: rotate_drop_take)
  also have "\<dots> = sum_list (take (n mod length xs) xs @ drop (n mod length xs) xs)"
    by (simp only: sum_list_append add.commute)
  finally show ?thesis by simp
qed

lemma buffer_mean_last_pushes:
  assumes "length buf = BUFFER_SIZE"
    and "rotate idx buf = last_pushes BUFFER_SIZE (replicate BUFFER_SIZE 0 @ ys)"
  shows "buffer_sum buf / real BUFFER_SIZE
         = sum_list (last_pushes BUFFER_SIZE ys) / real BUFFER_SIZE"
proof -
  have "buffer_sum buf = sum_list (rotate idx buf)"
    using assms(1) by (simp add: buffer_sum_eq sum_list_rotate_real)
  also have "\<dots> = sum_list (last_pushes BUFFER_SIZE ys)"
    by (simp add: assms(2) sum_last_pushes_pad)
  finally show ?thesis by simp
qed

lemma arith_mean_full_window:
  "BUFFER_SIZE \<le> length ys
   \<Longrightarrow> arith_mean (last_pushes BUFFER_SIZE ys)
       = sum_list (last_pushes BUFFER_SIZE ys) / real BUFFER_SIZE"
  by (simp add: arith_mean_def last_pushes_def)

text \<open>
  Claim C4, as amended. The filter always divides by its capacity \<open>M = BUFFER_SIZE\<close>:
  after any sequence of pushes the exposed value is the sum of the last
  \<open>min M pushes\<close> values divided by \<open>M\<close> (slots not yet written count as 0), for each of
  the three buffers; once at least \<open>M\<close> values were pushed it is the arithmetic mean of
  the last \<open>M\<close> of them, the oldest slot being overwritten circularly.
\<close>

theorem moving_average_window:
  "getFilteredMoisture (push_all xs init_soil)
     = sum_list (last_pushes BUFFER_SIZE (map fst xs)) / real BUFFER_SIZE
   \<and> getFilteredTemp (push_all xs init_soil)
     = sum_list (last_pushes BUFFER_SIZE (map (fst \<circ> snd) xs)) / real BUFFER_SIZE
   \<and> getFilteredHumidity (push_all xs init_soil)
     = sum_list (last_pushes BUFFER_SIZE (map (snd \<circ> snd) xs)) / real BUFFER_SIZE
   \<and> (BUFFER_SIZE \<le> length xs \<longrightarrow>
        getFilteredMoisture (push_all xs init_soil)
          = arith_mean (last_pushes BUFFER_SIZE (map fst xs))
      \<and> getFilteredTemp (push_all xs init_soil)
          = arith_mean (last_pushes BUFFER_SIZE (map (fst \<circ> snd) xs))
      \<and> getFilteredHumidity (push_all xs init_soil)
          = arith_mean (last_pushes BUFFER_SIZE (map (snd \<circ> snd) xs)))"
proof -
  let ?s = "push_all xs init_soil"
  have m: "getFilteredMoisture ?s
           = sum_list (last_pushes BUFFER_SIZE (map fst xs)) / real BUFFER_SIZE"
    unfolding getFilteredMoisture_def
    using push_all_inv [of xs]
    by (intro buffer_mean_last_pushes [where idx = "bufferIndex (push_all xs init_soil)"]) simp_all
  have t: "getFilteredTemp ?s
           = sum_list (last_pushes BUFFER_SIZE (map (fst \<circ> snd) xs)) / real BUFFER_SIZE"
    unfolding getFilteredTemp_def
    using push_all_inv [of xs]
    by (intro buffer_mean_last_pushes [where idx = "bufferIndex (push_all xs init_soil)"]) simp_all
  have h: "getFilteredHumidity ?s
           = sum_list (last_pushes BUFFER_SIZE (map (snd \<circ> snd) xs)) / real BUFFER_SIZE"
    unfolding getFilteredHumidity_def
    using push_all_inv [of xs]
    by (intro buffer_mean_last_pushes [where idx = "bufferIndex (push_all xs init_soil)"]) simp_all
  show ?thesis
    unfolding m t h by (simp add: arith_mean_full_window)
qed

theorem moving_average_window_witness:
  "BUFFER_SIZE \<le> length [(50::real, 20::real, 60::real), (40, 22, 58), (10, 24, 56)]
   \<and> getFilteredMoisture (push_all [(50, 20, 60), (40, 22, 58), (10, 24, 56)] init_soil) = 25
   \<and> getFilteredTemp (push_all [(50, 20, 60), (40, 22, 58), (10, 24, 56)] init_soil) = 23
   \<and> getFilteredHumidity (push_all [(50, 20, 60), (40, 22, 58), (10, 24, 56)] init_soil) = 57"
  using moving_average_window [of "[(50, 20, 60), (40, 22, 58), (10, 24, 56)]"]
  by (simp add: BUFFER_SIZE_def last_pushes_def arith_mean_def)

text \<open>After a single push of 50 the filter exposes 25, not the mean 50 of the one sample
  held.\<close>

theorem moving_average_partial_counterexample:
  "getFilteredMoisture (push_all [(50, 20, 60)] init_soil)
   \<noteq> arith_mean (last_pushes (min BUFFER_SIZE (length [(50::real, 20::real, 60::real)]))
                (map fst [(50::real, 20::real, 60::real)]))"
  by (simp add: getFilteredMoisture_def push_all_def updateMovingAverage_def init_soil_def
      buffer_sum_def BUFFER_SIZE_def numeral_2_eq_2 upt_rec arith_mean_def last_pushes_def)

section \<open>Baseline characterization of the water sketch\<close>

lemma update_pad:
  assumes "n = length xs" and "n < N"
  shows "(xs @ replicate (N - n) (0::real))[n := v] = (xs @ [v]) @ replicate (N - Suc n) 0"
proof -
  from assms have "N - n = Suc (N - Suc n)" by simp
  then have "replicate (N - n) (0::real) = 0 # replicate (N - Suc n) 0"
    by (simp only: replicate_Suc)
  then show ?thesis using assms by (simp add: list_update_append)
qed

lemma filling_init: "filling [] init_water"
  by (simp add: filling_def init_water_def)

lemma filling_step:
  assumes "filling rs s" and "Suc (length rs) < BASELINE_READINGS"
  shows "filling (rs @ [r]) (baseline_push r s)"
  using assms
  by (simp add: filling_def baseline_push_def updateBaselineCharacterization_def Let_def update_pad)

lemma filling_pushes:
  "length rs < BASELINE_READINGS \<Longrightarrow> filling rs (baseline_pushes rs init_water)"
proof (induction rs rule: rev_induct)
  case Nil
  then show ?case by (simp add: baseline_pushes_def filling_init)
next
  case (snoc r rs)
  then have "filling rs (baseline_pushes rs init_water)" by simp
  then have "filling (rs @ [r]) (baseline_push r (baseline_pushes rs init_water))"
    using snoc.prems by (intro filling_step) simp_all
  then show ?case by (simp add: baseline_pushes_def)
qed

lemma filling_last:
  assumes "filling rs s" and "Suc (length rs) = BASELINE_READINGS"
  shows "baselineComplete (baseline_push r s)
       \<and> ph_baseline_avg (baseline_push r s) = arith_mean (map r_pH (rs @ [r]))
       \<and> turbidity_baseline_avg (baseline_push r s) = arith_mean (map r_turbidity (rs @ [r]))
       \<and> do_baseline_avg (baseline_push r s) = arith_mean (map r_dissolvedOxygen (rs @ [r]))
       \<and> conductivity_baseline_avg (baseline_push r s) = arith_mean (map r_conductivity (rs @ [r]))"
proof -
  have n: "length rs < BASELINE_READINGS" "BASELINE_READINGS - Suc (length rs) = 0"
    using assms(2) by simp_all
  have len: "length (map f rs @ [v]) = BASELINE_READINGS" for f :: "water_reading \<Rightarrow> real" and v
    using assms(2) by simp
  show ?thesis
    using assms(1) n assms(2)[symmetric]
    by (simp add: filling_def baseline_push_def updateBaselineCharacterization_def Let_def
        update_pad baseline_sum_eq len arith_mean_def)
qed

lemma complete_push: "baselineComplete s \<Longrightarrow>
   baselineComplete (baseline_push r s)
   \<and> ph_baseline_avg (baseline_push r s) = ph_baseline_avg s
   \<and> turbidity_baseline_avg (baseline_push r s) = turbidity_baseline_avg s
   \<and> do_baseline_avg (baseline_push r s) = do_baseline_avg s
   \<and> conductivity_baseline_avg (baseline_push r s) = conductivity_baseline_avg s
   \<and> ph_baseline (baseline_push r s) = ph_baseline s
   \<and> turbidity_baseline (baseline_push r s) = turbidity_baseline s
   \<and> do_baseline (baseline_push r s) = do_baseline s
   \<and> conductivity_baseline (baseline_push r s) = conductivity_baseline s
   \<and> baselineCounter (baseline_push r s) = baselineCounter s"
  by (simp add: baseline_push_def updateBaselineCharacterization_def)

lemma complete_pushes: "baselineComplete s \<Longrightarrow>
   baselineComplete (baseline_pushes further s)
   \<and> ph_baseline_avg (baseline_pushes further s) = ph_baseline_avg s
   \<and> turbidity_baseline_avg (baseline_pushes further s) = turbidity_baseline_avg s
   \<and> do_baseline_avg (baseline_pushes further s) = do_baseline_avg s
   \<and> conductivity_baseline_avg (baseline_pushes further s) = conductivity_baseline_avg s
   \<and> ph_baseline (baseline_pushes further s) = ph_baseline s
   \<and> turbidity_baseline (baseline_pushes further s) = turbidity_baseline s
   \<and> do_baseline (baseline_pushes further s) = do_baseline s
   \<and> conductivity_baseline (baseline_pushes further s) = conductivity_baseline s
   \<and> baselineCounter (baseline_pushes further s) = baselineCounter s"
proof (induction further arbitrary: s)
  case Nil
  then show ?case by (simp add: baseline_pushes_def)
next
  case (Cons r further)
  from complete_push [OF Cons.prems, of r] Cons.IH [of "baseline_push r s"]
  show ?case by (simp add: baseline_pushes_def)
qed

text \<open>
  Claim C5. Started from the initial state, after exactly \<open>BASELINE_READINGS = 32\<close> pushed
  readings the baseline mean of each of the four parameters is the arithmetic mean of the
  32 values pushed and the tracker is complete; after any further pushes it is still
  complete with the same four means, and \<^verbatim>\<open>updateBaselineCharacterization\<close> leaves the
  state as it is.
\<close>

theorem baseline_freeze:
  assumes "length rs = BASELINE_READINGS"
  shows "baselineComplete (baseline_pushes rs init_water)
       \<and> ph_baseline_avg (baseline_pushes rs init_water) = arith_mean (map r_pH rs)
       \<and> turbidity_baseline_avg (baseline_pushes rs init_water) = arith_mean (map r_turbidity rs)
       \<and> do_baseline_avg (baseline_pushes rs init_water) = arith_mean (map r_dissolvedOxygen rs)
       \<and> conductivity_baseline_avg (baseline_pushes rs init_water)
           = arith_mean (map r_conductivity rs)
       \<and> baselineComplete (baseline_pushes (rs @ further) init_water)
       \<and> ph_baseline_avg (baseline_pushes (rs @ further) init_water) = arith_mean (map r_pH rs)
       \<and> turbidity_baseline_avg (baseline_pushes (rs @ further) init_water)
           = arith_mean (map r_turbidity rs)
       \<and> do_baseline_avg (baseline_pushes (rs @ further) init_water)
           = arith_mean (map r_dissolvedOxygen rs)
       \<and> conductivity_baseline_avg (baseline_pushes (rs @ further) init_water)
           = arith_mean (map r_conductivity rs)
       \<and> updateBaselineCharacterization (baseline_pushes (rs @ further) init_water)
           = baseline_pushes (rs @ further) init_water"
proof -
  from assms obtain rs' r where rs: "rs = rs' @ [r]"
    by (cases rs rule: rev_cases) (auto simp: BASELINE_READINGS_def)
  with assms have l: "Suc (length rs') = BASELINE_READINGS" by simp
  then have "filling rs' (baseline_pushes rs' init_water)"
    by (intro filling_pushes) simp
  from filling_last [OF this l, of r]
  have full: "baselineComplete (baseline_pushes rs init_water)
       \<and> ph_baseline_avg (baseline_pushes rs init_water) = arith_mean (map r_pH rs)
       \<and> turbidity_baseline_avg (baseline_pushes rs init_water) = arith_mean (map r_turbidity rs)
       \<and> do_baseline_avg (baseline_pushes rs init_water) = arith_mean (map r_dissolvedOxygen rs)
       \<and> conductivity_baseline_avg (baseline_pushes rs init_water)
           = arith_mean (map r_conductivity rs)"
    by (simp add: rs baseline_pushes_def)
  have split: "baseline_pushes (rs @ further) init_water
               = baseline_pushes further (baseline_pushes rs init_water)"
    by (simp add: baseline_pushes_def)
  from full complete_pushes [of "baseline_pushes rs init_water" further]
  show ?thesis
    unfolding split by (simp add: updateBaselineCharacterization_def)
qed

theorem baseline_freeze_witness:
  "length (replicate 16 \<lparr> r_pH = 6.5, r_turbidity = 2, r_dissolvedOxygen = 8, r_conductivity = 300 \<rparr>
           @ replicate 16 \<lparr> r_pH = 7.5, r_turbidity = 4, r_dissolvedOxygen = 6, r_conductivity = 500 \<rparr>)
     = BASELINE_READINGS
   \<and> baselineComplete (baseline_pushes
        (replicate 16 \<lparr> r_pH = 6.5, r_turbidity = 2, r_dissolvedOxygen = 8, r_conductivity = 300 \<rparr>
         @ replicate 16 \<lparr> r_pH = 7.5, r_turbidity = 4, r_dissolvedOxygen = 6, r_conductivity = 500 \<rparr>)
        init_water)
   \<and> ph_baseline_avg (baseline_pushes
        (replicate 16 \<lparr> r_pH = 6.5, r_turbidity = 2, r_dissolvedOxygen = 8, r_conductivity = 300 \<rparr>
         @ replicate 16 \<lparr> r_pH = 7.5, r_turbidity = 4, r_dissolvedOxygen = 6, r_conductivity = 500 \<rparr>)
        init_water) = 7
   \<and> ph_baseline_avg (baseline_pushes
        ((replicate 16 \<lparr> r_pH = 6.5, r_turbidity = 2, r_dissolvedOxygen = 8, r_conductivity = 300 \<rparr>
          @ replicate 16 \<lparr> r_pH = 7.5, r_turbidity = 4, r_dissolvedOxygen = 6, r_conductivity = 500 \<rparr>)
         @ [\<lparr> r_pH = 3, r_turbidity = 30, r_dissolvedOxygen = 1, r_conductivity = 2500 \<rparr>])
        init_water) = 7"
  using baseline_freeze
    [of "replicate 16 \<lparr> r_pH = 6.5, r_turbidity = 2, r_dissolvedOxygen = 8, r_conductivity = 300 \<rparr>
         @ replicate 16 \<lparr> r_pH = 7.5, r_turbidity = 4, r_dissolvedOxygen = 6, r_conductivity = 500 \<rparr>"
        "[\<lparr> r_pH = 3, r_turbidity = 30, r_dissolvedOxygen = 1, r_conductivity = 2500 \<rparr>]"]
  by (simp add: BASELINE_READINGS_def arith_mean_def sum_list_replicate)

section \<open>The alert levels of the fire sketch\<close>

lemma evaluateFireIndicators_keeps [simp]:
  "level1AlertCount (evaluateFireIndicators s) = level1AlertCount s"
  "level2AlertCount (evaluateFireIndicators s) = level2AlertCount s"
  "level3AlertCount (evaluateFireIndicators s) = level3AlertCount s"
  "level1AlertActive (evaluateFireIndicators s) = level1AlertActive s"
  "level2AlertActive (evaluateFireIndicators s) = level2AlertActive s"
  "level3AlertActive (evaluateFireIndicators s) = level3AlertActive s"
  "alertLevel_fire (currentData_fire (evaluateFireIndicators s))
     = alertLevel_fire (currentData_fire s)"
  by (simp_all add: evaluateFireIndicators_def Let_def)

text \<open>Tier 1's entry predicate asks for one of the four non-smoke indicators and a count of
  at least 2; a count of 2 already needs one of the four.\<close>

lemma level1_entry_evaluate [simp]:
  "level1_entry (evaluateFireIndicators s) \<longleftrightarrow> 2 \<le> fire_count s"
  by (simp add: level1_entry_def fire_count_def evaluateFireIndicators_def Let_def)

lemma level1_block [simp]:
  "level1AlertCount (checkFire_level1 e) = (if level1_entry e then level1AlertCount e + 1 else 0)"
  "level1AlertActive (checkFire_level1 e) \<longleftrightarrow>
     level1_entry e \<and> (level1AlertActive e \<or> 5 \<le>s level1AlertCount e + 1)"
  "alertLevel_fire (currentData_fire (checkFire_level1 e))
     = (if level1_entry e \<and> 5 \<le>s level1AlertCount e + 1 then 1
        else alertLevel_fire (currentData_fire e))"
  "level2AlertCount (checkFire_level1 e) = level2AlertCount e"
  "level3AlertCount (checkFire_level1 e) = level3AlertCount e"
  "level2AlertActive (checkFire_level1 e) = level2AlertActive e"
  "level3AlertActive (checkFire_level1 e) = level3AlertActive e"
  "fireIndicators (currentData_fire (checkFire_level1 e)) = fireIndicators (currentData_fire e)"
  by (auto simp add: checkFire_level1_def level1_entry_def Let_def)

lemma level2_block [simp]:
  "level2AlertCount (checkFire_level2 e)
     = (if 3 \<le> fireIndicators (currentData_fire e) then level2AlertCount e + 1 else 0)"
  "level2AlertActive (checkFire_level2 e) \<longleftrightarrow>
     3 \<le> fireIndicators (currentData_fire e)
     \<and> (level2AlertActive e \<or> 2 \<le>s level2AlertCount e + 1)"
  "level1AlertActive (checkFire_level2 e) \<longleftrightarrow>
     level1AlertActive e
     \<or> (3 \<le> fireIndicators (currentData_fire e) \<and> 2 \<le>s level2AlertCount e + 1)"
  "alertLevel_fire (currentData_fire (checkFire_level2 e))
     = (if 3 \<le> fireIndicators (currentData_fire e) \<and> 2 \<le>s level2AlertCount e + 1 then 2
        else alertLevel_fire (currentData_fire e))"
  "level1AlertCount (checkFire_level2 e) = level1AlertCount e"
  "level3AlertCount (checkFire_level2 e) = level3AlertCount e"
  "level3AlertActive (checkFire_level2 e) = level3AlertActive e"
  "fireIndicators (currentData_fire (checkFire_level2 e)) = fireIndicators (currentData_fire e)"
  unfolding checkFire_level2_def by (auto simp add: Let_def)

lemma level3_block [simp]:
  "level3AlertCount (checkFire_level3 e)
     = (if 4 \<le> fireIndicators (currentData_fire e) then level3AlertCount e + 1 else 0)"
  "level3AlertActive (checkFire_level3 e) \<longleftrightarrow>
     4 \<le> fireIndicators (currentData_fire e)
     \<and> (level3AlertActive e \<or> 1 \<le>s level3AlertCount e + 1)"
  "level1AlertActive (checkFire_level3 e) \<longleftrightarrow>
     level1AlertActive e
     \<or> (4 \<le> fireIndicators (currentData_fire e) \<and> 1 \<le>s level3AlertCount e + 1)"
  "level2AlertActive (checkFire_level3 e) \<longleftrightarrow>
     level2AlertActive e
     \<or> (4 \<le> fireIndicators (currentData_fire e) \<and> 1 \<le>s level3AlertCount e + 1)"
  "alertLevel_fire (currentData_fire (checkFire_level3 e))
     = (if 4 \<le> fireIndicators (currentData_fire e) \<and> 1 \<le>s level3AlertCount e + 1 then 3
        else alertLevel_fire (currentData_fire e))"
  "level1AlertCount (checkFire_level3 e) = level1AlertCount e"
  "level2AlertCount (checkFire_level3 e) = level2AlertCount e"
  "fireIndicators (currentData_fire (checkFire_level3 e)) = fireIndicators (currentData_fire e)"
  unfolding checkFire_level3_def by (auto simp add: Let_def)

lemma reset_block [simp]:
  "level1AlertActive (checkFire_reset e) \<longleftrightarrow>
     2 \<le> fireIndicators (currentData_fire e) \<and> level1AlertActive e"
  "level2AlertActive (checkFire_reset e) \<longleftrightarrow>
     2 \<le> fireIndicators (currentData_fire e) \<and> level2AlertActive e"
  "level3AlertActive (checkFire_reset e) \<longleftrightarrow>
     2 \<le> fireIndicators (currentData_fire e) \<and> level3AlertActive e"
  "alertLevel_fire (currentData_fire (checkFire_reset e))
     = (if fireIndicators (currentData_fire e) < 2 then 0
        else alertLevel_fire (currentData_fire e))"
  "level1AlertCount (checkFire_reset e) = level1AlertCount e"
  "level2AlertCount (checkFire_reset e) = level2AlertCount e"
  "level3AlertCount (checkFire_reset e) = level3AlertCount e"
  "fireIndicators (currentData_fire (checkFire_reset e)) = fireIndicators (currentData_fire e)"
  unfolding checkFire_reset_def by auto

lemma check_fireIndicators:
  "fireIndicators (currentData_fire (checkFireAlertLevels s)) = fire_count s"
  by (simp add: checkFireAlertLevels_def fire_count_def)

lemma check_count1:
  "level1AlertCount (checkFireAlertLevels s)
     = (if 2 \<le> fire_count s then level1AlertCount s + 1 else 0)"
  by (simp add: checkFireAlertLevels_def)

lemma check_count2:
  "level2AlertCount (checkFireAlertLevels s)
     = (if 3 \<le> fire_count s then level2AlertCount s + 1 else 0)"
  by (simp add: checkFireAlertLevels_def fire_count_def)

lemma check_count3:
  "level3AlertCount (checkFireAlertLevels s)
     = (if 4 \<le> fire_count s then level3AlertCount s + 1 else 0)"
  by (simp add: checkFireAlertLevels_def fire_count_def)

lemma check_active3:
  "level3AlertActive (checkFireAlertLevels s) \<longleftrightarrow>
     4 \<le> fire_count s \<and> (level3AlertActive s \<or> 1 \<le>s level3AlertCount s + 1)"
  by (auto simp add: checkFireAlertLevels_def fire_count_def)

lemma check_active2:
  "level2AlertActive (checkFireAlertLevels s) \<longleftrightarrow>
     3 \<le> fire_count s
     \<and> (level2AlertActive s \<or> 2 \<le>s level2AlertCount s + 1
        \<or> (4 \<le> fire_count s \<and> 1 \<le>s level3AlertCount s + 1))"
  by (auto simp add: checkFireAlertLevels_def fire_count_def)

lemma check_active1:
  "level1AlertActive (checkFireAlertLevels s) \<longleftrightarrow>
     2 \<le> fire_count s
     \<and> (level1AlertActive s \<or> 5 \<le>s level1AlertCount s + 1
        \<or> (3 \<le> fire_count s \<and> 2 \<le>s level2AlertCount s + 1)
        \<or> (4 \<le> fire_count s \<and> 1 \<le>s level3AlertCount s + 1))"
  using level1_entry_evaluate [of s]
  by (auto simp add: checkFireAlertLevels_def fire_count_def simp del: level1_entry_evaluate)

lemma check_alertLevel:
  "alertLevel_fire (currentData_fire (checkFireAlertLevels s))
     = (if fire_count s < 2 then 0
        else if 4 \<le> fire_count s \<and> 1 \<le>s level3AlertCount s + 1 then 3
        else if 3 \<le> fire_count s \<and> 2 \<le>s level2AlertCount s + 1 then 2
        else if 5 \<le>s level1AlertCount s + 1 then 1
        else alertLevel_fire (currentData_fire s))"
  using level1_entry_evaluate [of s]
  by (auto simp add: checkFireAlertLevels_def fire_count_def simp del: level1_entry_evaluate)
lemma readSensors_fire_keeps [simp]:
  "level1AlertCount (readSensors_fire smp s) = level1AlertCount s"
  "level2AlertCount (readSensors_fire smp s) = level2AlertCount s"
  "level3AlertCount (readSensors_fire smp s) = level3AlertCount s"
  "level1AlertActive (readSensors_fire smp s) = level1AlertActive s"
  "level2AlertActive (readSensors_fire smp s) = level2AlertActive s"
  "level3AlertActive (readSensors_fire smp s) = level3AlertActive s"
  "alertLevel_fire (currentData_fire (readSensors_fire smp s))
     = alertLevel_fire (currentData_fire s)"
  by (simp_all add: readSensors_fire_def updateSlidingWindow_def Let_def split: option.splits)

lemma control_fire_keeps [simp]:
  "level1AlertCount (controlBuzzer_fire (controlAlertLEDs s)) = level1AlertCount s"
  "level2AlertCount (controlBuzzer_fire (controlAlertLEDs s)) = level2AlertCount s"
  "level3AlertCount (controlBuzzer_fire (controlAlertLEDs s)) = level3AlertCount s"
  "level1AlertActive (controlBuzzer_fire (controlAlertLEDs s)) = level1AlertActive s"
  "level2AlertActive (controlBuzzer_fire (controlAlertLEDs s)) = level2AlertActive s"
  "level3AlertActive (controlBuzzer_fire (controlAlertLEDs s)) = level3AlertActive s"
  "currentData_fire (controlBuzzer_fire (controlAlertLEDs s)) = currentData_fire s"
  by (simp_all add: controlBuzzer_fire_def controlAlertLEDs_def)

text \<open>One pass, field by field: the count of the pass is the one computed after
  \<^verbatim>\<open>readSensors\<close>.\<close>

lemma loop_fire_fields:
  "fireIndicators (currentData_fire (loop_fire smp s)) = fire_count (readSensors_fire smp s)"
  "level1AlertCount (loop_fire smp s)
     = (if 2 \<le> fire_count (readSensors_fire smp s) then level1AlertCount s + 1 else 0)"
  "level2AlertCount (loop_fire smp s)
     = (if 3 \<le> fire_count (readSensors_fire smp s) then level2AlertCount s + 1 else 0)"
  "level3AlertCount (loop_fire smp s)
     = (if 4 \<le> fire_count (readSensors_fire smp s) then level3AlertCount s + 1 else 0)"
  "level3AlertActive (loop_fire smp s) \<longleftrightarrow>
     4 \<le> fire_count (readSensors_fire smp s)
     \<and> (level3AlertActive s \<or> 1 \<le>s level3AlertCount s + 1)"
  "level2AlertActive (loop_fire smp s) \<longleftrightarrow>
     3 \<le> fire_count (readSensors_fire smp s)
     \<and> (level2AlertActive s \<or> 2 \<le>s level2AlertCount s + 1
        \<or> (4 \<le> fire_count (readSensors_fire smp s) \<and> 1 \<le>s level3AlertCount s + 1))"
  "level1AlertActive (loop_fire smp s) \<longleftrightarrow>
     2 \<le> fire_count (readSensors_fire smp s)
     \<and> (level1AlertActive s \<or> 5 \<le>s level1AlertCount s + 1
        \<or> (3 \<le> fire_count (readSensors_fire smp s) \<and> 2 \<le>s level2AlertCount s + 1)
        \<or> (4 \<le> fire_count (readSensors_fire smp s) \<and> 1 \<le>s level3AlertCount s + 1))"
  "alertLevel_fire (currentData_fire (loop_fire smp s))
     = (if fire_count (readSensors_fire smp s) < 2 then 0
        else if 4 \<le> fire_count (readSensors_fire smp s) \<and> 1 \<le>s level3AlertCount s + 1 then 3
        else if 3 \<le> fire_count (readSensors_fire smp s) \<and> 2 \<le>s level2AlertCount s + 1 then 2
        else if 5 \<le>s level1AlertCount s + 1 then 1
        else alertLevel_fire (currentData_fire s))"
  by (simp_all only: loop_fire_def control_fire_keeps check_fireIndicators check_count1
      check_count2 check_count3 check_active1 check_active2 check_active3 check_alertLevel
      readSensors_fire_keeps)

lemma fire_count_concrete:
  "fire_count (readSensors_fire fire_all_indicators s) = 5"
  "fire_count (readSensors_fire fire_two_indicators s) = 2"
  by (simp_all add: fire_count_def readSensors_fire_def evaluateFireIndicators_def
      updateSlidingWindow_def fire_all_indicators_def fire_two_indicators_def Let_def
      TEMP_THRESHOLD_def HUMIDITY_THRESHOLD_def MQ2_BASELINE_def MQ7_BASELINE_def
      GAS_BASELINE_INCREASE_def)

lemma run_fire_snoc: "run_fire (smps @ [smp]) s = loop_fire smp (run_fire smps s)"
  by (simp add: run_fire_def)

lemma run_fire_simps: "run_fire [] s = s" "run_fire (smp # smps) s = run_fire smps (loop_fire smp s)"
  by (simp_all add: run_fire_def)

text \<open>At the end of every pass an active tier has all lower tiers active.\<close>

lemma nesting_step:
  assumes "level3AlertActive s \<longrightarrow> level2AlertActive s"
    and "level2AlertActive s \<longrightarrow> level1AlertActive s"
  shows "(level3AlertActive (loop_fire smp s) \<longrightarrow> level2AlertActive (loop_fire smp s))
       \<and> (level2AlertActive (loop_fire smp s) \<longrightarrow> level1AlertActive (loop_fire smp s))"
  using assms by (auto simp add: loop_fire_fields)

lemma nesting_run:
  "(level3AlertActive (run_fire smps init_fire) \<longrightarrow> level2AlertActive (run_fire smps init_fire))
   \<and> (level2AlertActive (run_fire smps init_fire) \<longrightarrow> level1AlertActive (run_fire smps init_fire))"
proof (induction smps rule: rev_induct)
  case Nil
  then show ?case by (simp add: run_fire_simps init_fire_def)
next
  case (snoc smp smps)
  then show ?case
    unfolding run_fire_snoc by (intro nesting_step) simp_all
qed

text \<open>
  Claim C1, as amended. Along every sequence of passes of the fire sketch, at the end of
  each pass: an active tier has every lower tier active, whatever the lower tier's own
  count; tier 1, once active, stays active on every pass whose indicator count is at least
  2; tier 3 is inactive when the count of the pass is below 4 and tier 2 is inactive when
  it is below 3, so a higher tier is dropped on the first pass its own predicate is false
  and is not held until the count falls below 2; and on a pass whose count is below 2 all
  three tiers are inactive, their counters are 0 and the alert level is 0.
\<close>

theorem fire_escalation_latch:
  assumes "t = run_fire smps init_fire" and "t' = loop_fire smp t"
  shows "(level3AlertActive t' \<longrightarrow> level2AlertActive t' \<and> level1AlertActive t')
       \<and> (level2AlertActive t' \<longrightarrow> level1AlertActive t')
       \<and> (level1AlertActive t \<and> 2 \<le> fireIndicators (currentData_fire t')
            \<longrightarrow> level1AlertActive t')
       \<and> (fireIndicators (currentData_fire t') < 4 \<longrightarrow> \<not> level3AlertActive t')
       \<and> (fireIndicators (currentData_fire t') < 3
            \<longrightarrow> \<not> level2AlertActive t' \<and> \<not> level3AlertActive t')
       \<and> (fireIndicators (currentData_fire t') < 2
            \<longrightarrow> \<not> level1AlertActive t' \<and> \<not> level2AlertActive t' \<and> \<not> level3AlertActive t'
              \<and> level1AlertCount t' = 0 \<and> level2AlertCount t' = 0 \<and> level3AlertCount t' = 0
              \<and> alertLevel_fire (currentData_fire t') = 0)"
proof -
  have n: "(level3AlertActive t' \<longrightarrow> level2AlertActive t')
         \<and> (level2AlertActive t' \<longrightarrow> level1AlertActive t')"
    using nesting_run [of "smps @ [smp]"] by (simp add: assms run_fire_snoc)
  have rest: "(level1AlertActive t \<and> 2 \<le> fireIndicators (currentData_fire t')
            \<longrightarrow> level1AlertActive t')
       \<and> (fireIndicators (currentData_fire t') < 4 \<longrightarrow> \<not> level3AlertActive t')
       \<and> (fireIndicators (currentData_fire t') < 3
            \<longrightarrow> \<not> level2AlertActive t' \<and> \<not> level3AlertActive t')
       \<and> (fireIndicators (currentData_fire t') < 2
            \<longrightarrow> \<not> level1AlertActive t' \<and> \<not> level2AlertActive t' \<and> \<not> level3AlertActive t'
              \<and> level1AlertCount t' = 0 \<and> level2AlertCount t' = 0 \<and> level3AlertCount t' = 0
              \<and> alertLevel_fire (currentData_fire t') = 0)"
    unfolding assms(2) by (simp add: loop_fire_fields)
  from n rest show ?thesis by blast
qed

theorem fire_escalation_latch_witness:
  "level3AlertActive (run_fire [fire_all_indicators] init_fire)
   \<and> level2AlertActive (run_fire [fire_all_indicators] init_fire)
   \<and> level1AlertActive (run_fire [fire_all_indicators] init_fire)
   \<and> fireIndicators (currentData_fire
        (run_fire [fire_all_indicators, fire_two_indicators] init_fire)) = 2
   \<and> level1AlertActive (run_fire [fire_all_indicators, fire_two_indicators] init_fire)
   \<and> \<not> level2AlertActive (run_fire [fire_all_indicators, fire_two_indicators] init_fire)
   \<and> \<not> level3AlertActive (run_fire [fire_all_indicators, fire_two_indicators] init_fire)"
  using fire_escalation_latch [of init_fire "[]" "run_fire [fire_all_indicators] init_fire"
      fire_all_indicators]
    fire_escalation_latch [of "run_fire [fire_all_indicators] init_fire" "[fire_all_indicators]"
      "run_fire [fire_all_indicators, fire_two_indicators] init_fire" fire_two_indicators]
  by (simp add: run_fire_simps loop_fire_fields fire_count_concrete init_fire_def)

text \<open>Tier 3 is active after a pass with all indicators; the next pass counts two
  indicators, which is not below tier 1's threshold, and tier 2 is inactive after it.\<close>

theorem fire_latch_dropped_counterexample:
  "level3AlertActive (run_fire [fire_all_indicators] init_fire)
   \<and> level2AlertActive (run_fire [fire_all_indicators] init_fire)
   \<and> \<not> fireIndicators (currentData_fire
          (run_fire [fire_all_indicators, fire_two_indicators] init_fire)) < 2
   \<and> \<not> level2AlertActive (run_fire [fire_all_indicators, fire_two_indicators] init_fire)"
  by (simp add: run_fire_simps loop_fire_fields fire_count_concrete init_fire_def)

text \<open>
  Claim C3, at the input where the code departs from it. The derived alert level should be
  the index of the highest active tier. After a pass with all indicators followed by a pass
  with two indicators, tier 1 is the only active tier and the alert level field still
  holds 3: the field is written only when a tier's own count has reached its threshold or
  the count of the pass is below 2, and tier 1 is held active here with a count of 2.
\<close>

theorem fire_alertLevel_stale:
  "level1AlertActive (run_fire [fire_all_indicators, fire_two_indicators] init_fire)
   \<and> \<not> level2AlertActive (run_fire [fire_all_indicators, fire_two_indicators] init_fire)
   \<and> \<not> level3AlertActive (run_fire [fire_all_indicators, fire_two_indicators] init_fire)
   \<and> alertLevel_fire (currentData_fire
        (run_fire [fire_all_indicators, fire_two_indicators] init_fire)) = 3"
  by (simp add: run_fire_simps loop_fire_fields fire_count_concrete init_fire_def)

section \<open>The alerts of the soil sketch\<close>

lemma lowMoisture_block [simp]:
  "lowMoistureCount (checkAlert_lowMoisture s)
     = (if getFilteredMoisture s < MOISTURE_THRESHOLD_LOW then lowMoistureCount s + 1
        else if getFilteredMoisture s > MOISTURE_THRESHOLD_HIGH then 0
        else lowMoistureCount s + 1)"
  "irrigationAlertActive (checkAlert_lowMoisture s) \<longleftrightarrow>
     (if getFilteredMoisture s < MOISTURE_THRESHOLD_LOW
      then irrigationAlertActive s \<or> 3 \<le>s lowMoistureCount s + 1
      else if getFilteredMoisture s > MOISTURE_THRESHOLD_HIGH then False
      else irrigationAlertActive s)"
  "heatStressCount (checkAlert_lowMoisture s) = heatStressCount s"
  "heatStressAlertActive (checkAlert_lowMoisture s) = heatStressAlertActive s"
  "phImbalanceCount (checkAlert_lowMoisture s) = phImbalanceCount s"
  "phImbalanceAlertActive (checkAlert_lowMoisture s) = phImbalanceAlertActive s"
  "moistureBuffer (checkAlert_lowMoisture s) = moistureBuffer s"
  "tempBuffer (checkAlert_lowMoisture s) = tempBuffer s"
  "humidityBuffer (checkAlert_lowMoisture s) = humidityBuffer s"
  "bufferIndex (checkAlert_lowMoisture s) = bufferIndex s"
  "pH_soil (currentData_soil (checkAlert_lowMoisture s)) = pH_soil (currentData_soil s)"
  by (auto simp add: checkAlert_lowMoisture_def Let_def)

lemma heatStress_block [simp]:
  "heatStressCount (checkAlert_heatStress s)
     = (if getFilteredTemp s > TEMP_HEAT_STRESS \<and> getFilteredHumidity s < HUMIDITY_HEAT_STRESS
        then heatStressCount s + 1 else 0)"
  "heatStressAlertActive (checkAlert_heatStress s) \<longleftrightarrow>
     getFilteredTemp s > TEMP_HEAT_STRESS \<and> getFilteredHumidity s < HUMIDITY_HEAT_STRESS
     \<and> (heatStressAlertActive s \<or> 2 \<le>s heatStressCount s + 1)"
  "lowMoistureCount (checkAlert_heatStress s) = lowMoistureCount s"
  "irrigationAlertActive (checkAlert_heatStress s) = irrigationAlertActive s"
  "phImbalanceCount (checkAlert_heatStress s) = phImbalanceCount s"
  "phImbalanceAlertActive (checkAlert_heatStress s) = phImbalanceAlertActive s"
  "moistureBuffer (checkAlert_heatStress s) = moistureBuffer s"
  "tempBuffer (checkAlert_heatStress s) = tempBuffer s"
  "humidityBuffer (checkAlert_heatStress s) = humidityBuffer s"
  "bufferIndex (checkAlert_heatStress s) = bufferIndex s"
  "pH_soil (currentData_soil (checkAlert_heatStress s)) = pH_soil (currentData_soil s)"
  by (auto simp add: checkAlert_heatStress_def Let_def)

lemma phImbalance_block [simp]:
  "phImbalanceCount (checkAlert_phImbalance s)
     = (if pH_soil (currentData_soil s) < PH_MIN \<or> pH_soil (currentData_soil s) > PH_MAX
        then phImbalanceCount s + 1 else 0)"
  "phImbalanceAlertActive (checkAlert_phImbalance s) \<longleftrightarrow>
     (pH_soil (currentData_soil s) < PH_MIN \<or> pH_soil (currentData_soil s) > PH_MAX)
     \<and> (phImbalanceAlertActive s \<or> 5 \<le>s phImbalanceCount s + 1)"
  "lowMoistureCount (checkAlert_phImbalance s) = lowMoistureCount s"
  "irrigationAlertActive (checkAlert_phImbalance s) = irrigationAlertActive s"
  "heatStressCount (checkAlert_phImbalance s) = heatStressCount s"
  "heatStressAlertActive (checkAlert_phImbalance s) = heatStressAlertActive s"
  "moistureBuffer (checkAlert_phImbalance s) = moistureBuffer s"
  "tempBuffer (checkAlert_phImbalance s) = tempBuffer s"
  "humidityBuffer (checkAlert_phImbalance s) = humidityBuffer s"
  "bufferIndex (checkAlert_phImbalance s) = bufferIndex s"
  by (auto simp add: checkAlert_phImbalance_def Let_def)

lemma getFiltered_cong:
  "moistureBuffer s = moistureBuffer s' \<Longrightarrow> getFilteredMoisture s = getFilteredMoisture s'"
  "tempBuffer s = tempBuffer s' \<Longrightarrow> getFilteredTemp s = getFilteredTemp s'"
  "humidityBuffer s = humidityBuffer s' \<Longrightarrow> getFilteredHumidity s = getFilteredHumidity s'"
  by (simp_all add: getFilteredMoisture_def getFilteredTemp_def getFilteredHumidity_def)

lemma getFiltered_blocks [simp]:
  "getFilteredTemp (checkAlert_lowMoisture s) = getFilteredTemp s"
  "getFilteredHumidity (checkAlert_lowMoisture s) = getFilteredHumidity s"
  by (rule getFiltered_cong, simp)+

lemma checkAlertConditions_fields:
  "lowMoistureCount (checkAlertConditions s)
     = (if getFilteredMoisture s < MOISTURE_THRESHOLD_LOW then lowMoistureCount s + 1
        else if getFilteredMoisture s > MOISTURE_THRESHOLD_HIGH then 0
        else lowMoistureCount s + 1)"
  "irrigationAlertActive (checkAlertConditions s) \<longleftrightarrow>
     (if getFilteredMoisture s < MOISTURE_THRESHOLD_LOW
      then irrigationAlertActive s \<or> 3 \<le>s lowMoistureCount s + 1
      else if getFilteredMoisture s > MOISTURE_THRESHOLD_HIGH then False
      else irrigationAlertActive s)"
  "heatStressCount (checkAlertConditions s)
     = (if getFilteredTemp s > TEMP_HEAT_STRESS \<and> getFilteredHumidity s < HUMIDITY_HEAT_STRESS
        then heatStressCount s + 1 else 0)"
  "heatStressAlertActive (checkAlertConditions s) \<longleftrightarrow>
     getFilteredTemp s > TEMP_HEAT_STRESS \<and> getFilteredHumidity s < HUMIDITY_HEAT_STRESS
     \<and> (heatStressAlertActive s \<or> 2 \<le>s heatStressCount s + 1)"
  "phImbalanceCount (checkAlertConditions s)
     = (if pH_soil (currentData_soil s) < PH_MIN \<or> pH_soil (currentData_soil s) > PH_MAX
        then phImbalanceCount s + 1 else 0)"
  "phImbalanceAlertActive (checkAlertConditions s) \<longleftrightarrow>
     (pH_soil (currentData_soil s) < PH_MIN \<or> pH_soil (currentData_soil s) > PH_MAX)
     \<and> (phImbalanceAlertActive s \<or> 5 \<le>s phImbalanceCount s + 1)"
  "moistureBuffer (checkAlertConditions s) = moistureBuffer s"
  "tempBuffer (checkAlertConditions s) = tempBuffer s"
  "humidityBuffer (checkAlertConditions s) = humidityBuffer s"
  "bufferIndex (checkAlertConditions s) = bufferIndex s"
  by (simp_all add: checkAlertConditions_def)

lemma control_soil_keeps [simp]:
  "lowMoistureCount (controlMotor now (controlAlerts s)) = lowMoistureCount s"
  "irrigationAlertActive (controlMotor now (controlAlerts s)) = irrigationAlertActive s"
  "heatStressCount (controlMotor now (controlAlerts s)) = heatStressCount s"
  "heatStressAlertActive (controlMotor now (controlAlerts s)) = heatStressAlertActive s"
  "phImbalanceCount (controlMotor now (controlAlerts s)) = phImbalanceCount s"
  "phImbalanceAlertActive (controlMotor now (controlAlerts s)) = phImbalanceAlertActive s"
  "moistureBuffer (controlMotor now (controlAlerts s)) = moistureBuffer s"
  "tempBuffer (controlMotor now (controlAlerts s)) = tempBuffer s"
  "humidityBuffer (controlMotor now (controlAlerts s)) = humidityBuffer s"
  "bufferIndex (controlMotor now (controlAlerts s)) = bufferIndex s"
  by (simp_all add: controlMotor_def controlAlerts_def Let_def)

lemma readSensors_soil_keeps [simp]:
  "lowMoistureCount (readSensors_soil smp s) = lowMoistureCount s"
  "irrigationAlertActive (readSensors_soil smp s) = irrigationAlertActive s"
  "heatStressCount (readSensors_soil smp s) = heatStressCount s"
  "heatStressAlertActive (readSensors_soil smp s) = heatStressAlertActive s"
  "phImbalanceCount (readSensors_soil smp s) = phImbalanceCount s"
  "phImbalanceAlertActive (readSensors_soil smp s) = phImbalanceAlertActive s"
  by (simp_all add: readSensors_soil_def updateMovingAverage_def Let_def split: option.splits)

text \<open>One pass, field by field; the filtered values are those after \<^verbatim>\<open>readSensors\<close>.\<close>

lemma loop_soil_fields:
  "lowMoistureCount (loop_soil smp s)
     = (if getFilteredMoisture (readSensors_soil smp s) < MOISTURE_THRESHOLD_LOW
        then lowMoistureCount s + 1
        else if getFilteredMoisture (readSensors_soil smp s) > MOISTURE_THRESHOLD_HIGH then 0
        else lowMoistureCount s + 1)"
  "irrigationAlertActive (loop_soil smp s) \<longleftrightarrow>
     (if getFilteredMoisture (readSensors_soil smp s) < MOISTURE_THRESHOLD_LOW
      then irrigationAlertActive s \<or> 3 \<le>s lowMoistureCount s + 1
      else if getFilteredMoisture (readSensors_soil smp s) > MOISTURE_THRESHOLD_HIGH then False
      else irrigationAlertActive s)"
  "heatStressCount (loop_soil smp s)
     = (if getFilteredTemp (readSensors_soil smp s) > TEMP_HEAT_STRESS
           \<and> getFilteredHumidity (readSensors_soil smp s) < HUMIDITY_HEAT_STRESS
        then heatStressCount s + 1 else 0)"
  "heatStressAlertActive (loop_soil smp s) \<longleftrightarrow>
     getFilteredTemp (readSensors_soil smp s) > TEMP_HEAT_STRESS
     \<and> getFilteredHumidity (readSensors_soil smp s) < HUMIDITY_HEAT_STRESS
     \<and> (heatStressAlertActive s \<or> 2 \<le>s heatStressCount s + 1)"
  "phImbalanceCount (loop_soil smp s)
     = (if pH_soil (currentData_soil (readSensors_soil smp s)) < PH_MIN
           \<or> pH_soil (currentData_soil (readSensors_soil smp s)) > PH_MAX
        then phImbalanceCount s + 1 else 0)"
  "phImbalanceAlertActive (loop_soil smp s) \<longleftrightarrow>
     (pH_soil (currentData_soil (readSensors_soil smp s)) < PH_MIN
      \<or> pH_soil (currentData_soil (readSensors_soil smp s)) > PH_MAX)
     \<and> (phImbalanceAlertActive s \<or> 5 \<le>s phImbalanceCount s + 1)"
  "moistureBuffer (loop_soil smp s) = moistureBuffer (readSensors_soil smp s)"
  "tempBuffer (loop_soil smp s) = tempBuffer (readSensors_soil smp s)"
  "humidityBuffer (loop_soil smp s) = humidityBuffer (readSensors_soil smp s)"
  "bufferIndex (loop_soil smp s) = bufferIndex (readSensors_soil smp s)"
  by (simp_all only: loop_soil_def control_soil_keeps checkAlertConditions_fields
      readSensors_soil_keeps)

lemma run_soil_simps:
  "run_soil [] s = s" "run_soil (smp # smps) s = run_soil smps (loop_soil smp s)"
  by (simp_all add: run_soil_def)

lemma getFilteredMoisture_loop:
  "getFilteredMoisture (loop_soil smp s) = getFilteredMoisture (readSensors_soil smp s)"
  by (rule getFiltered_cong) (simp add: loop_soil_fields)

lemma readSensors_soil_valid_buffer:
  "dht_humidity_soil smp = Some h \<Longrightarrow> dht_temperature_soil smp = Some t \<Longrightarrow>
   moistureBuffer (readSensors_soil smp s)
     = (moistureBuffer s)[bufferIndex s := calibrateMoisture (moistureRaw smp)]
   \<and> bufferIndex (readSensors_soil smp s) = (bufferIndex s + 1) mod BUFFER_SIZE"
  by (simp add: readSensors_soil_def updateMovingAverage_def Let_def)

lemma calibrateMoisture_concrete:
  "calibrateMoisture 1365 = 200 / 3" "calibrateMoisture 4095 = 0"
  by (simp_all add: calibrateMoisture_def ADC_MAX_def constrain_def)

lemma soil_pass_buffers:
  "moistureBuffer (loop_soil soil_moist_pass s) = (moistureBuffer s)[bufferIndex s := 200 / 3]"
  "bufferIndex (loop_soil soil_moist_pass s) = (bufferIndex s + 1) mod BUFFER_SIZE"
  "moistureBuffer (loop_soil soil_dry_pass s) = (moistureBuffer s)[bufferIndex s := 0]"
  "bufferIndex (loop_soil soil_dry_pass s) = (bufferIndex s + 1) mod BUFFER_SIZE"
  using readSensors_soil_valid_buffer [of soil_moist_pass 50 25 s]
    readSensors_soil_valid_buffer [of soil_dry_pass 50 25 s]
  by (simp_all add: loop_soil_fields soil_moist_pass_def soil_dry_pass_def
      calibrateMoisture_concrete)

lemma buffer_sum_pair: "buffer_sum [a, b] = a + b"
  by (simp add: buffer_sum_def BUFFER_SIZE_def numeral_2_eq_2 upt_rec)

lemma soil_run_filtered:
  "getFilteredMoisture (run_soil [soil_moist_pass] init_soil) = 100 / 3"
  "getFilteredMoisture (run_soil [soil_moist_pass, soil_dry_pass] init_soil) = 100 / 3"
  "getFilteredMoisture (run_soil [soil_moist_pass, soil_dry_pass, soil_dry_pass] init_soil) = 0"
  by (simp_all add: run_soil_simps getFilteredMoisture_def soil_pass_buffers init_soil_def
      BUFFER_SIZE_def numeral_2_eq_2 buffer_sum_pair)

lemma soil_run_states:
  "lowMoistureCount (run_soil [soil_moist_pass] init_soil) = 1"
  "lowMoistureCount (run_soil [soil_moist_pass, soil_dry_pass] init_soil) = 2"
  "\<not> irrigationAlertActive (run_soil [soil_moist_pass, soil_dry_pass] init_soil)"
  "irrigationAlertActive (run_soil [soil_moist_pass, soil_dry_pass, soil_dry_pass] init_soil)"
  using soil_run_filtered
  by (simp_all add: run_soil_simps loop_soil_fields getFilteredMoisture_loop [symmetric]
      MOISTURE_THRESHOLD_LOW_def MOISTURE_THRESHOLD_HIGH_def init_soil_def)
text \<open>
  Claim C9, as amended. In the soil sketch, for every pass and with the filtered moisture of
  that pass: an active irrigation alert stays active as long as the filtered moisture does
  not strictly exceed \<open>MOISTURE_THRESHOLD_HIGH\<close> (35.0); a pass above 35.0 clears the alert
  and resets the low-moisture counter; on every pass at or below 35.0, in the band
  \<open>[30.0, 35.0]\<close> as well as below it, the counter is incremented; and an inactive alert
  becomes active exactly on a pass whose filtered moisture is below
  \<open>MOISTURE_THRESHOLD_LOW\<close> (30.0) and on which the counter reaches at least 3. Since the
  counter also counts the passes spent in the band, activation does not need three
  consecutive readings below 30.0.
\<close>

theorem irrigation_hysteresis:
  assumes "fm = getFilteredMoisture (readSensors_soil smp s)" and "s' = loop_soil smp s"
  shows "(irrigationAlertActive s \<and> fm \<le> MOISTURE_THRESHOLD_HIGH \<longrightarrow> irrigationAlertActive s')
       \<and> (MOISTURE_THRESHOLD_HIGH < fm \<longrightarrow> \<not> irrigationAlertActive s' \<and> lowMoistureCount s' = 0)
       \<and> (fm \<le> MOISTURE_THRESHOLD_HIGH \<longrightarrow> lowMoistureCount s' = lowMoistureCount s + 1)
       \<and> (\<not> irrigationAlertActive s \<longrightarrow>
            (irrigationAlertActive s' \<longleftrightarrow>
               fm < MOISTURE_THRESHOLD_LOW \<and> 3 \<le>s lowMoistureCount s + 1))"
  unfolding assms
  by (simp add: loop_soil_fields MOISTURE_THRESHOLD_LOW_def MOISTURE_THRESHOLD_HIGH_def)

theorem irrigation_hysteresis_witness:
  "\<not> irrigationAlertActive (run_soil [soil_moist_pass, soil_dry_pass] init_soil)
   \<and> getFilteredMoisture (run_soil [soil_moist_pass, soil_dry_pass, soil_dry_pass] init_soil)
       < MOISTURE_THRESHOLD_LOW
   \<and> irrigationAlertActive (run_soil [soil_moist_pass, soil_dry_pass, soil_dry_pass] init_soil)
   \<and> getFilteredMoisture
        (run_soil [soil_moist_pass, soil_dry_pass, soil_dry_pass, soil_moist_pass] init_soil)
       \<le> MOISTURE_THRESHOLD_HIGH
   \<and> irrigationAlertActive
        (run_soil [soil_moist_pass, soil_dry_pass, soil_dry_pass, soil_moist_pass] init_soil)"
proof -
  let ?s2 = "run_soil [soil_moist_pass, soil_dry_pass] init_soil"
  let ?s3 = "run_soil [soil_moist_pass, soil_dry_pass, soil_dry_pass] init_soil"
  let ?s4 = "run_soil [soil_moist_pass, soil_dry_pass, soil_dry_pass, soil_moist_pass] init_soil"
  have s3: "?s3 = loop_soil soil_dry_pass ?s2" and s4: "?s4 = loop_soil soil_moist_pass ?s3"
    by (simp_all add: run_soil_simps)
  have f4: "getFilteredMoisture ?s4 = 100 / 3"
    by (simp add: run_soil_simps getFilteredMoisture_def soil_pass_buffers init_soil_def
        BUFFER_SIZE_def numeral_2_eq_2 buffer_sum_pair)
  have a3: "irrigationAlertActive ?s3" and f3: "getFilteredMoisture ?s3 = 0"
    and a2: "\<not> irrigationAlertActive ?s2"
    by (simp_all add: soil_run_states soil_run_filtered)
  have "irrigationAlertActive ?s4"
    using irrigation_hysteresis [OF refl s4] a3 f4
    by (simp add: s4 [symmetric] getFilteredMoisture_loop [symmetric]
        MOISTURE_THRESHOLD_HIGH_def)
  with a2 a3 f3 f4 show ?thesis
    by (simp add: MOISTURE_THRESHOLD_LOW_def MOISTURE_THRESHOLD_HIGH_def)
qed

text \<open>The alert is active after three passes of which only the third had a filtered
  moisture below 30.0.\<close>

theorem irrigation_activation_counterexample:
  "\<not> getFilteredMoisture (run_soil [soil_moist_pass] init_soil) < MOISTURE_THRESHOLD_LOW
   \<and> \<not> getFilteredMoisture (run_soil [soil_moist_pass, soil_dry_pass] init_soil)
         < MOISTURE_THRESHOLD_LOW
   \<and> irrigationAlertActive (run_soil [soil_moist_pass, soil_dry_pass, soil_dry_pass] init_soil)"
  by (simp add: soil_run_states soil_run_filtered MOISTURE_THRESHOLD_LOW_def)

text \<open>A pass with a filtered moisture of 33.3, not below 30.0, leaves the low-moisture
  counter at 1.\<close>

theorem soil_counter_not_reset_counterexample:
  "\<not> getFilteredMoisture (run_soil [soil_moist_pass] init_soil) < MOISTURE_THRESHOLD_LOW
   \<and> lowMoistureCount (run_soil [soil_moist_pass] init_soil) \<noteq> 0"
  by (simp add: soil_run_states soil_run_filtered MOISTURE_THRESHOLD_LOW_def)

section \<open>The alert levels of the water sketch\<close>

lemma evaluateQualityIndicators_keeps [simp]:
  "cautionAlertCount (evaluateQualityIndicators s) = cautionAlertCount s"
  "criticalAlertCount (evaluateQualityIndicators s) = criticalAlertCount s"
  "cautionAlertActive (evaluateQualityIndicators s) = cautionAlertActive s"
  "criticalAlertActive (evaluateQualityIndicators s) = criticalAlertActive s"
  "currentData_water (evaluateQualityIndicators s) = currentData_water s"
  by (simp_all add: evaluateQualityIndicators_def Let_def)

lemma critical_entry_evaluate [simp]:
  "critical_entry (evaluateQualityIndicators s) = critical_entry s"
  by (simp add: critical_entry_def)

text \<open>Every critical band lies outside the optimal band of its parameter: a critical
  reading is also an active indicator.\<close>

lemma critical_is_indicator: "critical_entry s \<Longrightarrow> 1 \<le> water_count s"
  by (auto simp add: critical_entry_def water_count_def activeIndicators_def
      evaluateQualityIndicators_def Let_def PH_CRITICAL_MIN_def PH_CRITICAL_MAX_def
      PH_OPTIMAL_MIN_def PH_OPTIMAL_MAX_def TURBIDITY_CRITICAL_def TURBIDITY_NORMAL_def
      DO_CRITICAL_def DO_OPTIMAL_def CONDUCTIVITY_CRITICAL_def CONDUCTIVITY_NORMAL_def)

lemma water_count_nonneg: "0 \<le> water_count s"
  by (simp add: water_count_def activeIndicators_def Let_def)

lemma caution_block [simp]:
  "cautionAlertCount (checkContamination_caution e)
     = (if 1 \<le> activeIndicators e then cautionAlertCount e + 1 else 0)"
  "cautionAlertActive (checkContamination_caution e) \<longleftrightarrow>
     1 \<le> activeIndicators e \<and> (cautionAlertActive e \<or> 2 \<le>s cautionAlertCount e + 1)"
  "alertLevel_water (currentData_water (checkContamination_caution e))
     = (if 1 \<le> activeIndicators e \<and> 2 \<le>s cautionAlertCount e + 1 then 1
        else alertLevel_water (currentData_water e))"
  "criticalAlertCount (checkContamination_caution e) = criticalAlertCount e"
  "criticalAlertActive (checkContamination_caution e) = criticalAlertActive e"
  "activeIndicators (checkContamination_caution e) = activeIndicators e"
  "critical_entry (checkContamination_caution e) = critical_entry e"
  by (auto simp add: checkContamination_caution_def activeIndicators_def critical_entry_def
      Let_def)

lemma critical_block [simp]:
  "criticalAlertCount (checkContamination_critical e)
     = (if critical_entry e then criticalAlertCount e + 1 else 0)"
  "criticalAlertActive (checkContamination_critical e) \<longleftrightarrow>
     critical_entry e \<and> (criticalAlertActive e \<or> 1 \<le>s criticalAlertCount e + 1)"
  "alertLevel_water (currentData_water (checkContamination_critical e))
     = (if critical_entry e \<and> 1 \<le>s criticalAlertCount e + 1 then 2
        else alertLevel_water (currentData_water e))"
  "cautionAlertCount (checkContamination_critical e) = cautionAlertCount e"
  "cautionAlertActive (checkContamination_critical e) = cautionAlertActive e"
  "activeIndicators (checkContamination_critical e) = activeIndicators e"
  by (auto simp add: checkContamination_critical_def activeIndicators_def critical_entry_def
      Let_def)

lemma noAlert_block [simp]:
  "cautionAlertActive (checkContamination_noAlert e) \<longleftrightarrow>
     activeIndicators e \<noteq> 0 \<and> cautionAlertActive e"
  "criticalAlertActive (checkContamination_noAlert e) \<longleftrightarrow>
     activeIndicators e \<noteq> 0 \<and> criticalAlertActive e"
  "alertLevel_water (currentData_water (checkContamination_noAlert e))
     = (if activeIndicators e = 0 then 0 else alertLevel_water (currentData_water e))"
  "cautionAlertCount (checkContamination_noAlert e) = cautionAlertCount e"
  "criticalAlertCount (checkContamination_noAlert e) = criticalAlertCount e"
  by (auto simp add: checkContamination_noAlert_def)

lemma checkContaminationEvent_fields:
  assumes "baselineComplete s"
  shows "cautionAlertCount (checkContaminationEvent s)
           = (if 1 \<le> water_count s then cautionAlertCount s + 1 else 0)"
    and "cautionAlertActive (checkContaminationEvent s) \<longleftrightarrow>
           1 \<le> water_count s \<and> (cautionAlertActive s \<or> 2 \<le>s cautionAlertCount s + 1)"
    and "criticalAlertCount (checkContaminationEvent s)
           = (if critical_entry s then criticalAlertCount s + 1 else 0)"
    and "criticalAlertActive (checkContaminationEvent s) \<longleftrightarrow>
           critical_entry s \<and> (criticalAlertActive s \<or> 1 \<le>s criticalAlertCount s + 1)"
    and "alertLevel_water (currentData_water (checkContaminationEvent s))
           = (if water_count s = 0 then 0
              else if critical_entry s \<and> 1 \<le>s criticalAlertCount s + 1 then 2
              else if 2 \<le>s cautionAlertCount s + 1 then 1
              else alertLevel_water (currentData_water s))"
  using assms critical_is_indicator [of s] water_count_nonneg [of s]
  by (auto simp add: checkContaminationEvent_def water_count_def)

lemma normal_phase_keeps [simp]:
  "cautionAlertCount (controlBuzzer_water (controlStatusLEDs (calculateWaterQualityIndex s)))
     = cautionAlertCount s"
  "cautionAlertActive (controlBuzzer_water (controlStatusLEDs (calculateWaterQualityIndex s)))
     = cautionAlertActive s"
  "criticalAlertCount (controlBuzzer_water (controlStatusLEDs (calculateWaterQualityIndex s)))
     = criticalAlertCount s"
  "criticalAlertActive (controlBuzzer_water (controlStatusLEDs (calculateWaterQualityIndex s)))
     = criticalAlertActive s"
  "alertLevel_water (currentData_water
       (controlBuzzer_water (controlStatusLEDs (calculateWaterQualityIndex s))))
     = alertLevel_water (currentData_water s)"
  "baselineComplete (controlBuzzer_water (controlStatusLEDs (calculateWaterQualityIndex s)))
     = baselineComplete s"
  by (simp_all add: controlBuzzer_water_def controlStatusLEDs_def
      calculateWaterQualityIndex_def Let_def)

lemma readSensors_water_keeps [simp]:
  "cautionAlertCount (readSensors_water smp s) = cautionAlertCount s"
  "cautionAlertActive (readSensors_water smp s) = cautionAlertActive s"
  "criticalAlertCount (readSensors_water smp s) = criticalAlertCount s"
  "criticalAlertActive (readSensors_water smp s) = criticalAlertActive s"
  "contaminationDetectionCount (readSensors_water smp s) = contaminationDetectionCount s"
  "contaminationDetected (readSensors_water smp s) = contaminationDetected s"
  "alertLevel_water (currentData_water (readSensors_water smp s))
     = alertLevel_water (currentData_water s)"
  "wqi (currentData_water (readSensors_water smp s)) = wqi (currentData_water s)"
  "qualityRating (currentData_water (readSensors_water smp s))
     = qualityRating (currentData_water s)"
  "baselineComplete (readSensors_water smp s) = baselineComplete s"
  "baselineCounter (readSensors_water smp s) = baselineCounter s"
  "LED_NORMAL_PIN (readSensors_water smp s) = LED_NORMAL_PIN s"
  "LED_CAUTION_PIN (readSensors_water smp s) = LED_CAUTION_PIN s"
  "LED_CRITICAL_PIN (readSensors_water smp s) = LED_CRITICAL_PIN s"
  "BUZZER_PIN_water (readSensors_water smp s) = BUZZER_PIN_water s"
  by (simp_all add: readSensors_water_def Let_def split: option.splits)

lemma checkContaminationEvent_complete [simp]:
  "baselineComplete (checkContaminationEvent s) = baselineComplete s"
  by (simp add: checkContaminationEvent_def checkContamination_noAlert_def
      checkContamination_critical_def checkContamination_caution_def
      evaluateQualityIndicators_def Let_def)

text \<open>One pass of the normal phase, field by field.\<close>

lemma loop_water_fields:
  assumes "baselineComplete s"
  shows "cautionAlertCount (fst (loop_water inp s))
           = (if 1 \<le> water_count (readSensors_water (snd inp) s)
              then cautionAlertCount s + 1 else 0)"
    and "cautionAlertActive (fst (loop_water inp s)) \<longleftrightarrow>
           1 \<le> water_count (readSensors_water (snd inp) s)
           \<and> (cautionAlertActive s \<or> 2 \<le>s cautionAlertCount s + 1)"
    and "criticalAlertCount (fst (loop_water inp s))
           = (if critical_entry (readSensors_water (snd inp) s)
              then criticalAlertCount s + 1 else 0)"
    and "criticalAlertActive (fst (loop_water inp s)) \<longleftrightarrow>
           critical_entry (readSensors_water (snd inp) s)
           \<and> (criticalAlertActive s \<or> 1 \<le>s criticalAlertCount s + 1)"
    and "alertLevel_water (currentData_water (fst (loop_water inp s)))
           = (if water_count (readSensors_water (snd inp) s) = 0 then 0
              else if critical_entry (readSensors_water (snd inp) s)
                      \<and> 1 \<le>s criticalAlertCount s + 1 then 2
              else if 2 \<le>s cautionAlertCount s + 1 then 1
              else alertLevel_water (currentData_water s))"
    and "baselineComplete (fst (loop_water inp s))"
  using assms
  by (simp_all add: loop_water_def Let_def checkContaminationEvent_fields)
section \<open>The baseline phase of the water sketch\<close>

lemma run_water_snoc:
  "run_water (inps @ [inp]) s = fst (loop_water inp (run_water inps s))"
  by (simp add: run_water_def)

lemma updateBaseline_keeps [simp]:
  "alerts_untouched (updateBaselineCharacterization s) = alerts_untouched s"
  by (simp add: updateBaselineCharacterization_def alerts_untouched_def Let_def)

lemma readSensors_water_untouched [simp]:
  "alerts_untouched (readSensors_water smp s) = alerts_untouched s"
  by (simp add: alerts_untouched_def)

lemma updateBaseline_counter:
  assumes "\<not> baselineComplete s"
  shows "baselineCounter (updateBaselineCharacterization s) = Suc (baselineCounter s)"
    and "baselineComplete (updateBaselineCharacterization s)
           \<longleftrightarrow> BASELINE_READINGS \<le> Suc (baselineCounter s)"
  using assms by (simp_all add: updateBaselineCharacterization_def Let_def)

lemma baseline_pass_state:
  "\<not> baselineComplete s \<Longrightarrow>
     fst (loop_water inp s) = updateBaselineCharacterization (readSensors_water (snd inp) s)"
  by (simp add: loop_water_def Let_def)

lemma loop_water_out:
  "snd (loop_water inp s) = publishDataToThingsBoard (fst inp) (fst (loop_water inp s))"
  by (simp add: loop_water_def Let_def)

lemma baseline_pass:
  assumes "\<not> baselineComplete s"
  shows "alerts_untouched (fst (loop_water inp s)) = alerts_untouched s"
    and "baselineCounter (fst (loop_water inp s)) = Suc (baselineCounter s)"
    and "baselineComplete (fst (loop_water inp s))
           \<longleftrightarrow> BASELINE_READINGS \<le> Suc (baselineCounter s)"
  using assms by (simp_all add: baseline_pass_state updateBaseline_counter)

lemma baseline_run:
  "length inps < BASELINE_READINGS \<Longrightarrow>
     baselineCounter (run_water inps init_water) = length inps
     \<and> \<not> baselineComplete (run_water inps init_water)
     \<and> alerts_untouched (run_water inps init_water)"
proof (induction inps rule: rev_induct)
  case Nil
  then show ?case by (simp add: run_water_def init_water_def alerts_untouched_def)
next
  case (snoc inp inps)
  then have ih: "baselineCounter (run_water inps init_water) = length inps"
    "\<not> baselineComplete (run_water inps init_water)"
    "alerts_untouched (run_water inps init_water)"
    by simp_all
  from snoc.prems ih show ?case
    by (simp add: run_water_snoc baseline_pass)
qed

lemma published_fields:
  "map_option tb_baseline_complete (publishDataToThingsBoard c s)
     = (if c then Some (baselineComplete s) else None)"
  "map_option tb_alert_level (publishDataToThingsBoard c s)
     = (if c then Some (alertLevel_water (currentData_water s)) else None)"
  "map_option tb_water_quality_index (publishDataToThingsBoard c s)
     = (if c then Some (wqi (currentData_water s)) else None)"
  "map_option tb_caution_active (publishDataToThingsBoard c s)
     = (if c then Some (cautionAlertActive s) else None)"
  "map_option tb_critical_active (publishDataToThingsBoard c s)
     = (if c then Some (criticalAlertActive s) else None)"
  by (simp_all add: publishDataToThingsBoard_def Let_def)

lemma baseline_phase_pass:
  assumes "length inps < BASELINE_READINGS"
  shows "alerts_untouched (fst (loop_water inp (run_water inps init_water)))"
    and "baselineCounter (fst (loop_water inp (run_water inps init_water))) = Suc (length inps)"
    and "baselineComplete (fst (loop_water inp (run_water inps init_water)))
           \<longleftrightarrow> Suc (length inps) = BASELINE_READINGS"
    and "snd (loop_water inp (run_water inps init_water))
           = publishDataToThingsBoard (fst inp)
               (fst (loop_water inp (run_water inps init_water)))"
  using baseline_run [OF assms] assms by (auto simp add: baseline_pass loop_water_out)

text \<open>
  Claim C10, as amended. In the water sketch, on each of the first 32 passes
  (\<open>BASELINE_READINGS\<close>), whatever the readings: no alert evaluation, quality-index
  computation or LED/buzzer update has been performed when the pass ends, so the alert
  level, the quality index, the alert counters and flags and the four outputs still hold
  their initial values; the pass publishes its telemetry when the MQTT client is connected
  and nothing otherwise; the published alert level and quality index are 0 and both alert
  flags are false; and the published baseline-complete flag is false on the first 31
  passes and true on the 32nd, the pass that completes the baseline.
\<close>

theorem baseline_phase_no_alerts:
  assumes "length inps < BASELINE_READINGS"
    and "t = run_water inps init_water"
    and "t' = fst (loop_water inp t)" and "out = snd (loop_water inp t)"
  shows "alerts_untouched t'
       \<and> baselineCounter t' = Suc (length inps)
       \<and> (baselineComplete t' \<longleftrightarrow> Suc (length inps) = BASELINE_READINGS)
       \<and> out = publishDataToThingsBoard (fst inp) t'
       \<and> map_option tb_baseline_complete out
           = (if fst inp then Some (Suc (length inps) = BASELINE_READINGS) else None)
       \<and> map_option tb_alert_level out = (if fst inp then Some 0 else None)
       \<and> map_option tb_water_quality_index out = (if fst inp then Some 0 else None)
       \<and> map_option tb_caution_active out = (if fst inp then Some False else None)
       \<and> map_option tb_critical_active out = (if fst inp then Some False else None)"
proof -
  note p = baseline_phase_pass [OF assms(1), of inp, folded assms(2), folded assms(3)]
  have o: "out = publishDataToThingsBoard (fst inp) t'"
    using p(4) by (simp add: assms(4))
  from p(1) have u: "alertLevel_water (currentData_water t') = 0"
    "wqi (currentData_water t') = 0" "\<not> cautionAlertActive t'" "\<not> criticalAlertActive t'"
    by (simp_all add: alerts_untouched_def)
  show ?thesis
    using p(1,2,3) u by (simp add: o published_fields)
qed

lemma fst_water_passes: "fst water_critical_pass" "fst water_nan_pass"
  "dht_airTemp (snd water_nan_pass) = None"
  by (simp_all add: water_critical_pass_def water_nan_pass_def)

lemma water_critical_reading:
  "critical_entry (readSensors_water (snd water_critical_pass) s)"
  by (simp add: critical_entry_def readSensors_water_def water_critical_pass_def Let_def
      calibratePH_def constrain_def ADC_MAX_def PH_CRITICAL_MIN_def)

theorem baseline_phase_no_alerts_witness:
  "length ([] :: (bool \<times> water_sample) list) < BASELINE_READINGS
   \<and> critical_entry (readSensors_water (snd water_critical_pass) init_water)
   \<and> alerts_untouched (fst (loop_water water_critical_pass init_water))
   \<and> map_option tb_baseline_complete (snd (loop_water water_critical_pass init_water))
       = Some False
   \<and> map_option tb_alert_level (snd (loop_water water_critical_pass init_water)) = Some 0"
proof -
  have l: "length ([] :: (bool \<times> water_sample) list) < BASELINE_READINGS"
    by (simp add: BASELINE_READINGS_def)
  have r: "init_water = run_water [] init_water"
    by (simp add: run_water_def)
  note w = baseline_phase_no_alerts [OF l r refl refl, of water_critical_pass]
  from w have a: "alerts_untouched (fst (loop_water water_critical_pass init_water))"
    by blast
  from w have "map_option tb_baseline_complete (snd (loop_water water_critical_pass init_water))
       = (if fst water_critical_pass
          then Some (Suc (length ([] :: (bool \<times> water_sample) list)) = BASELINE_READINGS)
          else None)"
    by blast
  then have b: "map_option tb_baseline_complete
                  (snd (loop_water water_critical_pass init_water)) = Some False"
    by (simp add: fst_water_passes BASELINE_READINGS_def del: map_option_eq_Some)
  from w have "map_option tb_alert_level (snd (loop_water water_critical_pass init_water))
       = (if fst water_critical_pass then Some 0 else None)"
    by blast
  then have c: "map_option tb_alert_level
                  (snd (loop_water water_critical_pass init_water)) = Some 0"
    by (simp add: fst_water_passes del: map_option_eq_Some)
  from l a b c water_critical_reading [of init_water] show ?thesis
    by blast
qed

text \<open>The 32nd pass, still a pass of the baseline phase, publishes the baseline-complete
  flag as true.\<close>

theorem baseline_flag_counterexample:
  "length (replicate 31 water_critical_pass) < BASELINE_READINGS
   \<and> map_option tb_baseline_complete
       (snd (loop_water water_critical_pass
              (run_water (replicate 31 water_critical_pass) init_water))) = Some True"
proof -
  have l: "length (replicate 31 water_critical_pass) < BASELINE_READINGS"
    by (simp add: BASELINE_READINGS_def)
  show ?thesis
    using l baseline_phase_pass(3,4) [OF l, of water_critical_pass]
    by (simp add: published_fields BASELINE_READINGS_def fst_water_passes)
qed

section \<open>A failed DHT22 read\<close>

text \<open>
  Claim C7, as amended. On a pass where a DHT22 reading is NaN, in each of the three
  sketches \<^verbatim>\<open>readSensors\<close> returns before it stores anything: the current sensor record,
  the moving-average buffers and the sliding windows are the previous ones, so no NaN
  enters them. The rest of the pass is not skipped: it is what the pass always does, run on
  the previous values: the alert evaluation with its counters, and in the water sketch
  the baseline update during the baseline phase, the alert evaluation and the quality index
  afterwards.
\<close>

theorem nan_read_keeps_previous_values:
  "(dht_humidity_soil smp = None \<or> dht_temperature_soil smp = None \<longrightarrow>
      readSensors_soil smp s = s
      \<and> loop_soil smp s = controlMotor (millis_soil smp) (controlAlerts (checkAlertConditions s)))
   \<and> (dht_humidity_fire fsmp = None \<or> dht_temperature_fire fsmp = None \<longrightarrow>
      readSensors_fire fsmp f = f
      \<and> loop_fire fsmp f = controlBuzzer_fire (controlAlertLEDs (checkFireAlertLevels f)))
   \<and> (dht_airTemp (snd winp) = None \<or> dht_humidity_water (snd winp) = None \<longrightarrow>
      readSensors_water (snd winp) w = w
      \<and> fst (loop_water winp w)
          = (if \<not> baselineComplete w then updateBaselineCharacterization w
             else controlBuzzer_water (controlStatusLEDs
                    (calculateWaterQualityIndex (checkContaminationEvent w)))))"
  by (auto simp add: readSensors_soil_def loop_soil_def readSensors_fire_def loop_fire_def
      readSensors_water_def loop_water_def Let_def split: option.splits)

theorem nan_read_keeps_previous_values_witness:
  "dht_humidity_soil soil_nan_pass = None
   \<and> readSensors_soil soil_nan_pass init_soil = init_soil
   \<and> dht_temperature_fire fire_nan_pass = None
   \<and> readSensors_fire fire_nan_pass init_fire = init_fire
   \<and> dht_airTemp (snd water_nan_pass) = None
   \<and> readSensors_water (snd water_nan_pass) init_water = init_water"
  using nan_read_keeps_previous_values
    [of soil_nan_pass init_soil fire_nan_pass init_fire water_nan_pass init_water]
  by (simp add: soil_nan_pass_def fire_nan_pass_def water_nan_pass_def)

text \<open>On a pass with a failed read the soil sketch still evaluates its alerts (the
  low-moisture counter advances) and the water sketch still pushes into its baseline.\<close>

theorem nan_read_not_skipped_counterexample:
  "dht_humidity_soil soil_nan_pass = None
   \<and> lowMoistureCount init_soil = 0
   \<and> lowMoistureCount (loop_soil soil_nan_pass init_soil) = 1
   \<and> dht_airTemp (snd water_nan_pass) = None
   \<and> baselineCounter init_water = 0
   \<and> baselineCounter (fst (loop_water water_nan_pass init_water)) = 1"
proof -
  have r: "readSensors_soil soil_nan_pass init_soil = init_soil"
    by (simp add: readSensors_soil_def soil_nan_pass_def)
  have f: "getFilteredMoisture init_soil = 0"
    by (simp add: getFilteredMoisture_def init_soil_def BUFFER_SIZE_def numeral_2_eq_2
        buffer_sum_pair)
  have c: "lowMoistureCount init_soil = 0" "baselineCounter init_water = 0"
    "\<not> baselineComplete init_water"
    by (simp_all add: init_soil_def init_water_def)
  have n: "dht_humidity_soil soil_nan_pass = None"
    by (simp add: soil_nan_pass_def)
  show ?thesis
    using c n by (simp add: loop_soil_fields r f baseline_pass MOISTURE_THRESHOLD_LOW_def
        fst_water_passes)
qed

section \<open>The debounce rule\<close>

lemma thresholds_positive:
  "0 <s (1 :: cint)" "0 <s (2 :: cint)" "0 <s (3 :: cint)" "0 <s (5 :: cint)"
  by (simp_all add: word_sless_alt)

lemma sint_succ:
  fixes c d :: cint
  assumes "c <s d"
  shows "sint (c + 1) = sint c + 1"
proof -
  have lt: "sint c < sint d" using assms by (simp add: word_sless_alt)
  have "sint d < 2 ^ 31" using sint_lt [of d] by simp
  with lt have up: "sint c + 1 < 2 ^ 31" by simp
  have lo: "- (2 ^ 31) \<le> sint c + 1" using sint_ge [of c] by simp
  have "sint (c + 1) = signed_take_bit 31 (sint c + 1)"
    by (simp add: sint_word_ariths)
  also have "\<dots> = sint c + 1"
    using lo up by (simp add: signed_take_bit_int_eq_self)
  finally show ?thesis .
qed

text \<open>Below the threshold, the incremented count is at least the threshold exactly when it
  is the threshold.\<close>

lemma reaches_threshold:
  fixes c d :: cint
  assumes "c <s d"
  shows "d \<le>s c + 1 \<longleftrightarrow> c + 1 = d"
proof -
  have lt: "sint c < sint d" using assms by (simp add: word_sless_alt)
  have "d \<le>s c + 1 \<longleftrightarrow> sint d \<le> sint c + 1"
    by (simp add: word_sle_eq sint_succ [OF assms])
  also have "\<dots> \<longleftrightarrow> sint (c + 1) = sint d"
    using lt by (auto simp add: sint_succ [OF assms])
  also have "\<dots> \<longleftrightarrow> c + 1 = d"
    by (auto intro: signed_word_eqI)
  finally show ?thesis .
qed

text \<open>A tier that follows the debounce rule and is inactive after a tick has a count below
  its threshold; on the next tick it is active exactly if the tick qualifies and the count
  is then the threshold.\<close>

lemma debounce_inactive_below:
  fixes d :: cint
  assumes "0 <s d" and "(c1, a1) = spec_debounce d q1 (c0, a0)" and "\<not> a1"
  shows "c1 <s d"
  using assms by (auto simp add: spec_debounce_def split: if_splits)

lemma debounce_activation:
  fixes d :: cint
  assumes "c1 <s d" and "\<not> a1"
  shows "snd (spec_debounce d q2 (c1, a1)) \<longleftrightarrow> q2 \<and> fst (spec_debounce d q2 (c1, a1)) = d"
  using assms reaches_threshold [OF assms(1)] by (simp add: spec_debounce_def)

lemma tier_activation:
  fixes d :: cint
  assumes "0 <s d"
    and "(c1, a1) = spec_debounce d q1 (c0, a0)"
    and "(c2, a2) = spec_debounce d q2 (c1, a1)"
    and "\<not> a1"
  shows "a2 \<longleftrightarrow> q2 \<and> c2 = d"
proof -
  have "c1 <s d" by (rule debounce_inactive_below [OF assms(1,2,4)])
  from debounce_activation [OF this assms(4), of q2] assms(3) [symmetric]
  show ?thesis by simp
qed

lemma fire_tiers:
  "(level3AlertCount (loop_fire smp s), level3AlertActive (loop_fire smp s))
     = spec_debounce 1 (4 \<le> fire_count (readSensors_fire smp s))
         (level3AlertCount s, level3AlertActive s)"
  "fire_count (readSensors_fire smp s) < 4 \<Longrightarrow>
   (level2AlertCount (loop_fire smp s), level2AlertActive (loop_fire smp s))
     = spec_debounce 2 (3 \<le> fire_count (readSensors_fire smp s))
         (level2AlertCount s, level2AlertActive s)"
  "fire_count (readSensors_fire smp s) < 3 \<Longrightarrow>
   (level1AlertCount (loop_fire smp s), level1AlertActive (loop_fire smp s))
     = spec_debounce 5 (2 \<le> fire_count (readSensors_fire smp s))
         (level1AlertCount s, level1AlertActive s)"
  by (auto simp add: loop_fire_fields spec_debounce_def)

text \<open>Tiers 1 and 2 of the fire sketch on every pass: the count follows the rule, and the
  flag is the rule's flag or the latch.\<close>

lemma fire_tiers_latched:
  "(level2AlertCount (loop_fire smp s), level2AlertActive (loop_fire smp s))
     = (fst (spec_debounce 2 (3 \<le> fire_count (readSensors_fire smp s))
               (level2AlertCount s, level2AlertActive s)),
        snd (spec_debounce 2 (3 \<le> fire_count (readSensors_fire smp s))
               (level2AlertCount s, level2AlertActive s))
        \<or> tier2_latched s (fire_count (readSensors_fire smp s)))"
  "(level1AlertCount (loop_fire smp s), level1AlertActive (loop_fire smp s))
     = (fst (spec_debounce 5 (2 \<le> fire_count (readSensors_fire smp s))
               (level1AlertCount s, level1AlertActive s)),
        snd (spec_debounce 5 (2 \<le> fire_count (readSensors_fire smp s))
               (level1AlertCount s, level1AlertActive s))
        \<or> tier1_latched s (fire_count (readSensors_fire smp s)))"
  by (auto simp add: loop_fire_fields spec_debounce_def tier2_latched_def tier1_latched_def)

lemma fire_count_three:
  "fire_count (readSensors_fire fire_three_indicators s) = 3"
  by (simp add: fire_count_def readSensors_fire_def evaluateFireIndicators_def
      updateSlidingWindow_def fire_three_indicators_def Let_def
      TEMP_THRESHOLD_def HUMIDITY_THRESHOLD_def MQ2_BASELINE_def MQ7_BASELINE_def
      GAS_BASELINE_INCREASE_def)

text \<open>With or without the latch, an inactive tier of the fire sketch has a count below its
  threshold after a pass.\<close>

lemma fire_inactive_below:
  "\<not> level3AlertActive (loop_fire smp s) \<Longrightarrow> level3AlertCount (loop_fire smp s) <s 1"
  "\<not> level2AlertActive (loop_fire smp s) \<Longrightarrow> level2AlertCount (loop_fire smp s) <s 2"
  "\<not> level1AlertActive (loop_fire smp s) \<Longrightarrow> level1AlertCount (loop_fire smp s) <s 5"
  by (auto simp add: loop_fire_fields signed.not_le thresholds_positive split: if_splits)

lemma soil_tiers:
  "(heatStressCount (loop_soil smp s), heatStressAlertActive (loop_soil smp s))
     = spec_debounce 2
         (getFilteredTemp (readSensors_soil smp s) > TEMP_HEAT_STRESS
          \<and> getFilteredHumidity (readSensors_soil smp s) < HUMIDITY_HEAT_STRESS)
         (heatStressCount s, heatStressAlertActive s)"
  "(phImbalanceCount (loop_soil smp s), phImbalanceAlertActive (loop_soil smp s))
     = spec_debounce 5
         (pH_soil (currentData_soil (readSensors_soil smp s)) < PH_MIN
          \<or> pH_soil (currentData_soil (readSensors_soil smp s)) > PH_MAX)
         (phImbalanceCount s, phImbalanceAlertActive s)"
  "(lowMoistureCount (loop_soil smp s), irrigationAlertActive (loop_soil smp s))
     = (if getFilteredMoisture (readSensors_soil smp s) < MOISTURE_THRESHOLD_LOW
        then spec_debounce 3 True (lowMoistureCount s, irrigationAlertActive s)
        else if getFilteredMoisture (readSensors_soil smp s) > MOISTURE_THRESHOLD_HIGH
        then spec_debounce 3 False (lowMoistureCount s, irrigationAlertActive s)
        else (lowMoistureCount s + 1, irrigationAlertActive s))"
  by (auto simp add: loop_soil_fields spec_debounce_def)

lemma water_tiers:
  assumes "baselineComplete s"
  shows "(cautionAlertCount (fst (loop_water inp s)), cautionAlertActive (fst (loop_water inp s)))
           = spec_debounce 2 (1 \<le> water_count (readSensors_water (snd inp) s))
               (cautionAlertCount s, cautionAlertActive s)"
    and "(criticalAlertCount (fst (loop_water inp s)),
          criticalAlertActive (fst (loop_water inp s)))
           = spec_debounce 1 (critical_entry (readSensors_water (snd inp) s))
               (criticalAlertCount s, criticalAlertActive s)"
  by (auto simp add: loop_water_fields [OF assms] spec_debounce_def)

text \<open>
  Claim C2, as amended. With \<open>spec_debounce\<close> the debounce rule of the specification (a
  qualifying tick increments the count and activates the tier once the count has reached
  the threshold; any other tick resets the count to 0 and deactivates the tier at once):

  \<^item> every tier but the soil sketch's low-moisture alert follows the rule on every pass:
    tier 3 (threshold 1), tier 2 (threshold 2) and tier 1 (threshold 5) of the fire sketch,
    the last two on every pass on which the latch does not set their flag, whatever the
    number of indicators (on every pass their count follows the rule and their flag is the
    rule's flag or the latch; the latch sets no flag of a tier on a pass where no higher
    tier's predicate holds); the
    heat-stress (2) and pH (5) alerts of the soil sketch; the caution (2) and critical (1)
    tiers of the water sketch once the baseline is complete;
  \<^item> for each of them, a tier that is inactive after one pass is active after the next
    exactly if that pass qualifies and the count is then the threshold, or, for tiers 1 and
    2 of the fire sketch, if the latch sets its flag on that pass;
  \<^item> the low-moisture alert of the soil sketch (threshold 3) follows the rule with a
    qualifying tick when the filtered moisture is below \<open>MOISTURE_THRESHOLD_LOW\<close> (30.0)
    and with a disqualifying tick when it is above \<open>MOISTURE_THRESHOLD_HIGH\<close> (35.0); a
    tick in between increments the counter and leaves the alert as it is.
\<close>

theorem debounce_rule:
  assumes "s' = loop_fire fp s" and "s'' = loop_fire fq s'"
    and "n' = fire_count (readSensors_fire fp s)"
    and "n'' = fire_count (readSensors_fire fq s')"
    and "u' = loop_soil sp u" and "u'' = loop_soil sq u'"
    and "r' = readSensors_soil sp u" and "r'' = readSensors_soil sq u'"
    and "baselineComplete w"
    and "w' = fst (loop_water wp w)" and "w'' = fst (loop_water wq w')"
    and "x' = readSensors_water (snd wp) w" and "x'' = readSensors_water (snd wq) w'"
  shows "(level3AlertCount s', level3AlertActive s')
           = spec_debounce 1 (4 \<le> n') (level3AlertCount s, level3AlertActive s)
       \<and> (level2AlertCount s', level2AlertActive s')
           = (fst (spec_debounce 2 (3 \<le> n') (level2AlertCount s, level2AlertActive s)),
              snd (spec_debounce 2 (3 \<le> n') (level2AlertCount s, level2AlertActive s))
              \<or> tier2_latched s n')
       \<and> (level1AlertCount s', level1AlertActive s')
           = (fst (spec_debounce 5 (2 \<le> n') (level1AlertCount s, level1AlertActive s)),
              snd (spec_debounce 5 (2 \<le> n') (level1AlertCount s, level1AlertActive s))
              \<or> tier1_latched s n')
       \<and> (\<not> tier2_latched s n' \<longrightarrow> (level2AlertCount s', level2AlertActive s')
           = spec_debounce 2 (3 \<le> n') (level2AlertCount s, level2AlertActive s))
       \<and> (\<not> tier1_latched s n' \<longrightarrow> (level1AlertCount s', level1AlertActive s')
           = spec_debounce 5 (2 \<le> n') (level1AlertCount s, level1AlertActive s))
       \<and> (n' < 4 \<longrightarrow> \<not> tier2_latched s n')
       \<and> (n' < 3 \<longrightarrow> \<not> tier1_latched s n')
       \<and> (\<not> level3AlertActive s' \<longrightarrow>
            (level3AlertActive s'' \<longleftrightarrow> 4 \<le> n'' \<and> level3AlertCount s'' = 1))
       \<and> (\<not> level2AlertActive s' \<longrightarrow>
            (level2AlertActive s'' \<longleftrightarrow>
               (3 \<le> n'' \<and> level2AlertCount s'' = 2) \<or> tier2_latched s' n''))
       \<and> (\<not> level1AlertActive s' \<longrightarrow>
            (level1AlertActive s'' \<longleftrightarrow>
               (2 \<le> n'' \<and> level1AlertCount s'' = 5) \<or> tier1_latched s' n''))
       \<and> (\<not> level2AlertActive s' \<and> \<not> tier2_latched s' n'' \<longrightarrow>
            (level2AlertActive s'' \<longleftrightarrow> 3 \<le> n'' \<and> level2AlertCount s'' = 2))
       \<and> (\<not> level1AlertActive s' \<and> \<not> tier1_latched s' n'' \<longrightarrow>
            (level1AlertActive s'' \<longleftrightarrow> 2 \<le> n'' \<and> level1AlertCount s'' = 5))
       \<and> (heatStressCount u', heatStressAlertActive u')
           = spec_debounce 2
               (getFilteredTemp r' > TEMP_HEAT_STRESS
                \<and> getFilteredHumidity r' < HUMIDITY_HEAT_STRESS)
               (heatStressCount u, heatStressAlertActive u)
       \<and> (phImbalanceCount u', phImbalanceAlertActive u')
           = spec_debounce 5
               (pH_soil (currentData_soil r') < PH_MIN \<or> pH_soil (currentData_soil r') > PH_MAX)
               (phImbalanceCount u, phImbalanceAlertActive u)
       \<and> (\<not> heatStressAlertActive u' \<longrightarrow>
            (heatStressAlertActive u'' \<longleftrightarrow>
               (getFilteredTemp r'' > TEMP_HEAT_STRESS
                \<and> getFilteredHumidity r'' < HUMIDITY_HEAT_STRESS)
               \<and> heatStressCount u'' = 2))
       \<and> (\<not> phImbalanceAlertActive u' \<longrightarrow>
            (phImbalanceAlertActive u'' \<longleftrightarrow>
               (pH_soil (currentData_soil r'') < PH_MIN \<or> pH_soil (currentData_soil r'') > PH_MAX)
               \<and> phImbalanceCount u'' = 5))
       \<and> (lowMoistureCount u', irrigationAlertActive u')
           = (if getFilteredMoisture r' < MOISTURE_THRESHOLD_LOW
              then spec_debounce 3 True (lowMoistureCount u, irrigationAlertActive u)
              else if getFilteredMoisture r' > MOISTURE_THRESHOLD_HIGH
              then spec_debounce 3 False (lowMoistureCount u, irrigationAlertActive u)
              else (lowMoistureCount u + 1, irrigationAlertActive u))
       \<and> (cautionAlertCount w', cautionAlertActive w')
           = spec_debounce 2 (1 \<le> water_count x') (cautionAlertCount w, cautionAlertActive w)
       \<and> (criticalAlertCount w', criticalAlertActive w')
           = spec_debounce 1 (critical_entry x') (criticalAlertCount w, criticalAlertActive w)
       \<and> (\<not> cautionAlertActive w' \<longrightarrow>
            (cautionAlertActive w'' \<longleftrightarrow> 1 \<le> water_count x'' \<and> cautionAlertCount w'' = 2))
       \<and> (\<not> criticalAlertActive w' \<longrightarrow>
            (criticalAlertActive w'' \<longleftrightarrow> critical_entry x'' \<and> criticalAlertCount w'' = 1))"
proof -
  have f3: "(level3AlertCount s', level3AlertActive s')
           = spec_debounce 1 (4 \<le> n') (level3AlertCount s, level3AlertActive s)"
    unfolding assms by (rule fire_tiers)
  have e2: "(level2AlertCount s', level2AlertActive s')
           = (fst (spec_debounce 2 (3 \<le> n') (level2AlertCount s, level2AlertActive s)),
              snd (spec_debounce 2 (3 \<le> n') (level2AlertCount s, level2AlertActive s))
              \<or> tier2_latched s n')"
    unfolding assms by (rule fire_tiers_latched)
  have e1: "(level1AlertCount s', level1AlertActive s')
           = (fst (spec_debounce 5 (2 \<le> n') (level1AlertCount s, level1AlertActive s)),
              snd (spec_debounce 5 (2 \<le> n') (level1AlertCount s, level1AlertActive s))
              \<or> tier1_latched s n')"
    unfolding assms by (rule fire_tiers_latched)
  have f2: "\<not> tier2_latched s n' \<longrightarrow> (level2AlertCount s', level2AlertActive s')
           = spec_debounce 2 (3 \<le> n') (level2AlertCount s, level2AlertActive s)"
    using e2 by simp
  have f1: "\<not> tier1_latched s n' \<longrightarrow> (level1AlertCount s', level1AlertActive s')
           = spec_debounce 5 (2 \<le> n') (level1AlertCount s, level1AlertActive s)"
    using e1 by simp
  have l2: "n' < 4 \<longrightarrow> \<not> tier2_latched s n'"
    and l1: "n' < 3 \<longrightarrow> \<not> tier1_latched s n'"
    by (simp_all add: tier2_latched_def tier1_latched_def)
  have g3: "\<not> level3AlertActive s' \<longrightarrow>
            (level3AlertActive s'' \<longleftrightarrow> 4 \<le> n'' \<and> level3AlertCount s'' = 1)"
  proof
    assume i: "\<not> level3AlertActive s'"
    then have "level3AlertCount s' <s 1"
      unfolding assms by (rule fire_inactive_below)
    from debounce_activation [OF this i, of "4 \<le> n''"]
    show "level3AlertActive s'' \<longleftrightarrow> 4 \<le> n'' \<and> level3AlertCount s'' = 1"
      using fire_tiers(1) [of fq s', symmetric] by (simp add: assms(2,4))
  qed
  have x2: "\<not> level2AlertActive s' \<longrightarrow>
            (level2AlertActive s'' \<longleftrightarrow>
               (3 \<le> n'' \<and> level2AlertCount s'' = 2) \<or> tier2_latched s' n'')"
  proof
    assume i: "\<not> level2AlertActive s'"
    then have "level2AlertCount s' <s 2"
      unfolding assms by (rule fire_inactive_below)
    from debounce_activation [OF this i, of "3 \<le> n''"]
    show "level2AlertActive s'' \<longleftrightarrow>
            (3 \<le> n'' \<and> level2AlertCount s'' = 2) \<or> tier2_latched s' n''"
      using fire_tiers_latched(1) [of fq s'] by (simp add: assms(2,4))
  qed
  have x1: "\<not> level1AlertActive s' \<longrightarrow>
            (level1AlertActive s'' \<longleftrightarrow>
               (2 \<le> n'' \<and> level1AlertCount s'' = 5) \<or> tier1_latched s' n'')"
  proof
    assume i: "\<not> level1AlertActive s'"
    then have "level1AlertCount s' <s 5"
      unfolding assms by (rule fire_inactive_below)
    from debounce_activation [OF this i, of "2 \<le> n''"]
    show "level1AlertActive s'' \<longleftrightarrow>
            (2 \<le> n'' \<and> level1AlertCount s'' = 5) \<or> tier1_latched s' n''"
      using fire_tiers_latched(2) [of fq s'] by (simp add: assms(2,4))
  qed
  have g2: "\<not> level2AlertActive s' \<and> \<not> tier2_latched s' n'' \<longrightarrow>
            (level2AlertActive s'' \<longleftrightarrow> 3 \<le> n'' \<and> level2AlertCount s'' = 2)"
    using x2 by blast
  have g1: "\<not> level1AlertActive s' \<and> \<not> tier1_latched s' n'' \<longrightarrow>
            (level1AlertActive s'' \<longleftrightarrow> 2 \<le> n'' \<and> level1AlertCount s'' = 5)"
    using x1 by blast
  have h1: "(heatStressCount u', heatStressAlertActive u')
           = spec_debounce 2
               (getFilteredTemp r' > TEMP_HEAT_STRESS
                \<and> getFilteredHumidity r' < HUMIDITY_HEAT_STRESS)
               (heatStressCount u, heatStressAlertActive u)"
    unfolding assms by (rule soil_tiers)
  have h2: "(heatStressCount u'', heatStressAlertActive u'')
           = spec_debounce 2
               (getFilteredTemp r'' > TEMP_HEAT_STRESS
                \<and> getFilteredHumidity r'' < HUMIDITY_HEAT_STRESS)
               (heatStressCount u', heatStressAlertActive u')"
    unfolding assms(6,8) by (rule soil_tiers)
  have p1: "(phImbalanceCount u', phImbalanceAlertActive u')
           = spec_debounce 5
               (pH_soil (currentData_soil r') < PH_MIN \<or> pH_soil (currentData_soil r') > PH_MAX)
               (phImbalanceCount u, phImbalanceAlertActive u)"
    unfolding assms by (rule soil_tiers)
  have p2: "(phImbalanceCount u'', phImbalanceAlertActive u'')
           = spec_debounce 5
               (pH_soil (currentData_soil r'') < PH_MIN \<or> pH_soil (currentData_soil r'') > PH_MAX)
               (phImbalanceCount u', phImbalanceAlertActive u')"
    unfolding assms(6,8) by (rule soil_tiers)
  have m1: "(lowMoistureCount u', irrigationAlertActive u')
           = (if getFilteredMoisture r' < MOISTURE_THRESHOLD_LOW
              then spec_debounce 3 True (lowMoistureCount u, irrigationAlertActive u)
              else if getFilteredMoisture r' > MOISTURE_THRESHOLD_HIGH
              then spec_debounce 3 False (lowMoistureCount u, irrigationAlertActive u)
              else (lowMoistureCount u + 1, irrigationAlertActive u))"
    unfolding assms by (rule soil_tiers)
  have bc1: "baselineComplete w'"
    unfolding assms(10) by (rule loop_water_fields(6) [OF assms(9)])
  have c1: "(cautionAlertCount w', cautionAlertActive w')
           = spec_debounce 2 (1 \<le> water_count x') (cautionAlertCount w, cautionAlertActive w)"
    unfolding assms(10,12) by (rule water_tiers [OF assms(9)])
  have c2: "(cautionAlertCount w'', cautionAlertActive w'')
           = spec_debounce 2 (1 \<le> water_count x'') (cautionAlertCount w', cautionAlertActive w')"
    unfolding assms(11,13) by (rule water_tiers [OF bc1])
  have k1: "(criticalAlertCount w', criticalAlertActive w')
           = spec_debounce 1 (critical_entry x') (criticalAlertCount w, criticalAlertActive w)"
    unfolding assms(10,12) by (rule water_tiers [OF assms(9)])
  have k2: "(criticalAlertCount w'', criticalAlertActive w'')
           = spec_debounce 1 (critical_entry x'') (criticalAlertCount w', criticalAlertActive w')"
    unfolding assms(11,13) by (rule water_tiers [OF bc1])
  note act = tier_activation [OF thresholds_positive(2) h1 h2]
    tier_activation [OF thresholds_positive(4) p1 p2]
    tier_activation [OF thresholds_positive(2) c1 c2]
    tier_activation [OF thresholds_positive(1) k1 k2]
  show ?thesis
    using f3 e2 e1 f2 f1 l2 l1 g3 x2 x1 g2 g1 h1 p1 m1 c1 k1 act by blast
qed
lemma baseline_done:
  assumes "length inps = BASELINE_READINGS"
  shows "baselineComplete (run_water inps init_water)"
    and "alerts_untouched (run_water inps init_water)"
proof -
  from assms obtain ys y where inps: "inps = ys @ [y]"
    by (cases inps rule: rev_cases) (auto simp: BASELINE_READINGS_def)
  with assms have l: "length ys < BASELINE_READINGS" and e: "Suc (length ys) = BASELINE_READINGS"
    by simp_all
  show "baselineComplete (run_water inps init_water)"
    using baseline_phase_pass(3) [OF l, of y] e by (simp add: inps run_water_snoc)
  show "alerts_untouched (run_water inps init_water)"
    using baseline_phase_pass(1) [OF l, of y] by (simp add: inps run_water_snoc)
qed

lemma four_passes_two_indicators:
  "level1AlertCount
     (run_fire [fire_two_indicators, fire_two_indicators, fire_two_indicators,
                fire_two_indicators] init_fire) = 4"
  "level2AlertCount
     (run_fire [fire_two_indicators, fire_two_indicators, fire_two_indicators,
                fire_two_indicators] init_fire) = 0"
  "level3AlertCount
     (run_fire [fire_two_indicators, fire_two_indicators, fire_two_indicators,
                fire_two_indicators] init_fire) = 0"
  "\<not> level1AlertActive
       (run_fire [fire_two_indicators, fire_two_indicators, fire_two_indicators,
                  fire_two_indicators] init_fire)"
  "\<not> level2AlertActive
       (run_fire [fire_two_indicators, fire_two_indicators, fire_two_indicators,
                  fire_two_indicators] init_fire)"
proof -
  have i0: "level1AlertCount init_fire = 0" "level2AlertCount init_fire = 0"
    "level3AlertCount init_fire = 0" "\<not> level1AlertActive init_fire"
    "\<not> level2AlertActive init_fire" "\<not> level3AlertActive init_fire"
    by (simp_all add: init_fire_def)
  show "level1AlertCount
     (run_fire [fire_two_indicators, fire_two_indicators, fire_two_indicators,
                fire_two_indicators] init_fire) = 4"
    and "level2AlertCount
     (run_fire [fire_two_indicators, fire_two_indicators, fire_two_indicators,
                fire_two_indicators] init_fire) = 0"
    and "level3AlertCount
     (run_fire [fire_two_indicators, fire_two_indicators, fire_two_indicators,
                fire_two_indicators] init_fire) = 0"
    and "\<not> level1AlertActive
       (run_fire [fire_two_indicators, fire_two_indicators, fire_two_indicators,
                  fire_two_indicators] init_fire)"
    and "\<not> level2AlertActive
       (run_fire [fire_two_indicators, fire_two_indicators, fire_two_indicators,
                  fire_two_indicators] init_fire)"
    by (simp_all add: run_fire_simps loop_fire_fields fire_count_concrete i0 word_sle_eq)
qed

text \<open>The witness is the scenario of the specification with indicator counts 2, 2, 2, 2, 3:
  on the fifth pass, which counts three indicators and on which no latch sets the flag,
  tier 1 activates as its count reaches 5, and tier 2 is inactive.\<close>

theorem debounce_rule_witness:
  "baselineComplete (run_water (replicate 32 water_critical_pass) init_water)
   \<and> \<not> level1AlertActive
         (run_fire [fire_two_indicators, fire_two_indicators, fire_two_indicators,
                    fire_two_indicators] init_fire)
   \<and> fire_count (readSensors_fire fire_three_indicators
         (run_fire [fire_two_indicators, fire_two_indicators, fire_two_indicators,
                    fire_two_indicators] init_fire)) = 3
   \<and> \<not> tier1_latched
         (run_fire [fire_two_indicators, fire_two_indicators, fire_two_indicators,
                    fire_two_indicators] init_fire) 3
   \<and> level1AlertCount
       (run_fire [fire_two_indicators, fire_two_indicators, fire_two_indicators,
                  fire_two_indicators, fire_three_indicators] init_fire) = 5
   \<and> level1AlertActive
       (run_fire [fire_two_indicators, fire_two_indicators, fire_two_indicators,
                  fire_two_indicators, fire_three_indicators] init_fire)
   \<and> \<not> level2AlertActive
       (run_fire [fire_two_indicators, fire_two_indicators, fire_two_indicators,
                  fire_two_indicators, fire_three_indicators] init_fire)"
proof -
  let ?s3 = "run_fire [fire_two_indicators, fire_two_indicators, fire_two_indicators] init_fire"
  let ?s4 = "run_fire [fire_two_indicators, fire_two_indicators, fire_two_indicators,
                       fire_two_indicators] init_fire"
  let ?s5 = "run_fire [fire_two_indicators, fire_two_indicators, fire_two_indicators,
                       fire_two_indicators, fire_three_indicators] init_fire"
  have s4: "?s4 = loop_fire fire_two_indicators ?s3"
    and s5: "?s5 = loop_fire fire_three_indicators ?s4"
    by (simp_all add: run_fire_simps)
  have bc: "baselineComplete (run_water (replicate 32 water_critical_pass) init_water)"
    by (rule baseline_done) (simp add: BASELINE_READINGS_def)
  note t = debounce_rule [OF s4 s5 refl refl refl refl refl refl bc refl refl refl refl,
      where u = init_soil and sp = soil_dry_pass and sq = soil_dry_pass
        and wp = water_critical_pass and wq = water_critical_pass]
  have n: "fire_count (readSensors_fire fire_three_indicators ?s4) = 3"
    by (rule fire_count_three)
  have l: "\<not> tier1_latched ?s4 3"
    by (simp add: tier1_latched_def four_passes_two_indicators word_sle_eq)
  have i: "\<not> level1AlertActive ?s4"
    by (rule four_passes_two_indicators)
  have c: "level1AlertCount ?s5 = 5"
    by (simp add: s5 loop_fire_fields n four_passes_two_indicators)
  from t i l have "level1AlertActive ?s5 \<longleftrightarrow>
      2 \<le> fire_count (readSensors_fire fire_three_indicators ?s4) \<and> level1AlertCount ?s5 = 5"
    unfolding n by blast
  with c have a: "level1AlertActive ?s5"
    by (simp add: n)
  have b: "\<not> level2AlertActive ?s5"
    by (simp add: s5 loop_fire_fields n four_passes_two_indicators word_sle_eq)
  from bc i n l c a b show ?thesis by blast
qed

section \<open>The counters are not capped\<close>

lemma replicate_snoc: "replicate (Suc k) x = replicate k x @ [x]"
  by (simp add: replicate_append_same)

lemma fire_counts_grow:
  "level1AlertCount (run_fire (replicate k fire_all_indicators) init_fire) = of_nat k
   \<and> level2AlertCount (run_fire (replicate k fire_all_indicators) init_fire) = of_nat k
   \<and> level3AlertCount (run_fire (replicate k fire_all_indicators) init_fire) = of_nat k"
proof (induction k)
  case 0
  then show ?case by (simp add: run_fire_simps init_fire_def)
next
  case (Suc k)
  then show ?case
    unfolding replicate_snoc run_fire_snoc
    by (simp add: loop_fire_fields fire_count_concrete)
qed

lemma run_water_append:
  "run_water (xs @ ys) s = run_water ys (run_water xs s)"
  by (simp add: run_water_def)

lemma water_counts_grow:
  assumes "baselineComplete s"
  shows "baselineComplete (run_water (replicate k water_critical_pass) s)
       \<and> cautionAlertCount (run_water (replicate k water_critical_pass) s)
           = cautionAlertCount s + of_nat k
       \<and> criticalAlertCount (run_water (replicate k water_critical_pass) s)
           = criticalAlertCount s + of_nat k"
proof (induction k)
  case 0
  then show ?case using assms by (simp add: run_water_def)
next
  case (Suc k)
  let ?t = "run_water (replicate k water_critical_pass) s"
  from Suc have bc: "baselineComplete ?t" by simp
  have q: "critical_entry (readSensors_water (snd water_critical_pass) ?t)"
    by (rule water_critical_reading)
  then have "1 \<le> water_count (readSensors_water (snd water_critical_pass) ?t)"
    by (rule critical_is_indicator)
  with q Suc show ?case
    unfolding replicate_snoc run_water_snoc
    by (simp add: loop_water_fields [OF bc])
qed

text \<open>The soil sketch under a persistent dry, hot and acid reading: from the second pass
  on both slots of every buffer hold the reading.\<close>

lemma soil_hot_reading:
  "moistureBuffer (readSensors_soil soil_hot_pass s) = (moistureBuffer s)[bufferIndex s := 0]"
  "tempBuffer (readSensors_soil soil_hot_pass s) = (tempBuffer s)[bufferIndex s := 40]"
  "humidityBuffer (readSensors_soil soil_hot_pass s) = (humidityBuffer s)[bufferIndex s := 20]"
  "bufferIndex (readSensors_soil soil_hot_pass s) = (bufferIndex s + 1) mod BUFFER_SIZE"
  "pH_soil (currentData_soil (readSensors_soil soil_hot_pass s)) = 0"
  by (simp_all add: readSensors_soil_def updateMovingAverage_def soil_hot_pass_def Let_def
      calibrateMoisture_def calibratePH_def constrain_def ADC_MAX_def)

lemma soil_hot_first_two:
  "moistureBuffer (run_soil [soil_hot_pass, soil_hot_pass] init_soil) = [0, 0]"
  "tempBuffer (run_soil [soil_hot_pass, soil_hot_pass] init_soil) = [40, 40]"
  "humidityBuffer (run_soil [soil_hot_pass, soil_hot_pass] init_soil) = [20, 20]"
  "bufferIndex (run_soil [soil_hot_pass, soil_hot_pass] init_soil) < 2"
  "lowMoistureCount (run_soil [soil_hot_pass, soil_hot_pass] init_soil) = 2"
  "heatStressCount (run_soil [soil_hot_pass, soil_hot_pass] init_soil) = 1"
  "phImbalanceCount (run_soil [soil_hot_pass, soil_hot_pass] init_soil) = 2"
  by (simp_all add: run_soil_simps loop_soil_fields soil_hot_reading init_soil_def
      BUFFER_SIZE_def numeral_2_eq_2 getFilteredMoisture_def getFilteredTemp_def
      getFilteredHumidity_def buffer_sum_pair MOISTURE_THRESHOLD_LOW_def
      TEMP_HEAT_STRESS_def HUMIDITY_HEAT_STRESS_def PH_MIN_def)

lemma soil_hot_step:
  assumes "moistureBuffer s = [0, 0]" and "tempBuffer s = [40, 40]"
    and "humidityBuffer s = [20, 20]" and "bufferIndex s < 2"
  shows "moistureBuffer (loop_soil soil_hot_pass s) = [0, 0]"
    and "tempBuffer (loop_soil soil_hot_pass s) = [40, 40]"
    and "humidityBuffer (loop_soil soil_hot_pass s) = [20, 20]"
    and "bufferIndex (loop_soil soil_hot_pass s) < 2"
    and "lowMoistureCount (loop_soil soil_hot_pass s) = lowMoistureCount s + 1"
    and "heatStressCount (loop_soil soil_hot_pass s) = heatStressCount s + 1"
    and "phImbalanceCount (loop_soil soil_hot_pass s) = phImbalanceCount s + 1"
proof -
  from assms(4) have i: "bufferIndex s = 0 \<or> bufferIndex s = 1" by auto
  have m: "moistureBuffer (readSensors_soil soil_hot_pass s) = [0, 0]"
    and t: "tempBuffer (readSensors_soil soil_hot_pass s) = [40, 40]"
    and h: "humidityBuffer (readSensors_soil soil_hot_pass s) = [20, 20]"
    using i assms(1,2,3) by (auto simp add: soil_hot_reading)
  show "moistureBuffer (loop_soil soil_hot_pass s) = [0, 0]"
    and "tempBuffer (loop_soil soil_hot_pass s) = [40, 40]"
    and "humidityBuffer (loop_soil soil_hot_pass s) = [20, 20]"
    by (simp_all add: loop_soil_fields m t h)
  show "bufferIndex (loop_soil soil_hot_pass s) < 2"
    by (simp add: loop_soil_fields soil_hot_reading BUFFER_SIZE_def)
  show "lowMoistureCount (loop_soil soil_hot_pass s) = lowMoistureCount s + 1"
    by (simp add: loop_soil_fields getFilteredMoisture_def m buffer_sum_pair
        MOISTURE_THRESHOLD_LOW_def)
  show "heatStressCount (loop_soil soil_hot_pass s) = heatStressCount s + 1"
    by (simp add: loop_soil_fields getFilteredTemp_def getFilteredHumidity_def t h
        buffer_sum_pair BUFFER_SIZE_def TEMP_HEAT_STRESS_def HUMIDITY_HEAT_STRESS_def)
  show "phImbalanceCount (loop_soil soil_hot_pass s) = phImbalanceCount s + 1"
    by (simp add: loop_soil_fields soil_hot_reading PH_MIN_def)
qed

lemma run_soil_snoc: "run_soil (smps @ [smp]) s = loop_soil smp (run_soil smps s)"
  by (simp add: run_soil_def)

lemma soil_counts_grow:
  "moistureBuffer (run_soil (replicate (k + 2) soil_hot_pass) init_soil) = [0, 0]
   \<and> tempBuffer (run_soil (replicate (k + 2) soil_hot_pass) init_soil) = [40, 40]
   \<and> humidityBuffer (run_soil (replicate (k + 2) soil_hot_pass) init_soil) = [20, 20]
   \<and> bufferIndex (run_soil (replicate (k + 2) soil_hot_pass) init_soil) < 2
   \<and> lowMoistureCount (run_soil (replicate (k + 2) soil_hot_pass) init_soil) = of_nat (k + 2)
   \<and> heatStressCount (run_soil (replicate (k + 2) soil_hot_pass) init_soil) = of_nat (k + 1)
   \<and> phImbalanceCount (run_soil (replicate (k + 2) soil_hot_pass) init_soil) = of_nat (k + 2)"
proof (induction k)
  case 0
  have "replicate (0 + 2) soil_hot_pass = [soil_hot_pass, soil_hot_pass]"
    by (simp add: numeral_2_eq_2)
  then show ?case by (simp add: soil_hot_first_two)
next
  case (Suc k)
  let ?s = "run_soil (replicate (k + 2) soil_hot_pass) init_soil"
  have r: "run_soil (replicate (Suc k + 2) soil_hot_pass) init_soil = loop_soil soil_hot_pass ?s"
    by (simp only: add_Suc replicate_snoc run_soil_snoc)
  from Suc have a: "moistureBuffer ?s = [0, 0]" "tempBuffer ?s = [40, 40]"
    "humidityBuffer ?s = [20, 20]" "bufferIndex ?s < 2"
    by simp_all
  from Suc soil_hot_step [OF a] show ?case
    unfolding r by simp
qed
lemma updateBaseline_counts [simp]:
  "cautionAlertCount (updateBaselineCharacterization s) = cautionAlertCount s"
  "criticalAlertCount (updateBaselineCharacterization s) = criticalAlertCount s"
  by (simp_all add: updateBaselineCharacterization_def Let_def)

lemma loop_water_counts:
  "cautionAlertCount (fst (loop_water inp s))
     = (if baselineComplete s
        then (if 1 \<le> water_count (readSensors_water (snd inp) s)
              then cautionAlertCount s + 1 else 0)
        else cautionAlertCount s)"
  "criticalAlertCount (fst (loop_water inp s))
     = (if baselineComplete s
        then (if critical_entry (readSensors_water (snd inp) s)
              then criticalAlertCount s + 1 else 0)
        else criticalAlertCount s)"
  by (simp_all add: loop_water_fields baseline_pass_state)

text \<open>A counter that every qualifying pass increments has grown by the number of passes
  after a sequence of passes that all qualify.\<close>

lemma every_pass_grows:
  fixes cnt :: "'s \<Rightarrow> cint"
  assumes "\<And>x t. q x t \<Longrightarrow> cnt (step x t) = cnt t + 1"
  shows "every_pass q step xs s \<Longrightarrow> cnt (fold step xs s) = cnt s + of_nat (length xs)"
proof (induction xs arbitrary: s)
  case Nil
  then show ?case by simp
next
  case (Cons x xs)
  from Cons.prems have q: "q x s" and r: "every_pass q step xs (step x s)"
    by simp_all
  from Cons.IH [OF r] assms [OF q] show ?case
    by (simp add: add.assoc)
qed

lemma every_pass_water_grows:
  fixes cnt :: "water_state \<Rightarrow> cint"
  assumes "\<And>x t. baselineComplete t \<Longrightarrow> q x t \<Longrightarrow> cnt (fst (loop_water x t)) = cnt t + 1"
  shows "baselineComplete s \<Longrightarrow> every_pass q (\<lambda>x t. fst (loop_water x t)) xs s
         \<Longrightarrow> cnt (run_water xs s) = cnt s + of_nat (length xs)"
proof (induction xs arbitrary: s)
  case Nil
  then show ?case by (simp add: run_water_def)
next
  case (Cons x xs)
  from Cons.prems have q: "q x s"
    and r: "every_pass q (\<lambda>x t. fst (loop_water x t)) xs (fst (loop_water x s))"
    by simp_all
  have b: "baselineComplete (fst (loop_water x s))"
    using Cons.prems(1) by (rule loop_water_fields)
  have "run_water (x # xs) s = run_water xs (fst (loop_water x s))"
    by (simp add: run_water_def)
  with Cons.IH [OF b r] assms [OF Cons.prems(1) q] show ?case
    by (simp add: add.assoc)
qed

lemma every_pass_replicate:
  assumes "good s" and "\<And>t. good t \<Longrightarrow> q x t \<and> good (step x t)"
  shows "every_pass q step (replicate k x) s"
  using assms(1)
proof (induction k arbitrary: s)
  case 0
  then show ?case by simp
next
  case (Suc k)
  from assms(2) [OF Suc.prems] Suc.IH show ?case by simp
qed

lemma loop_soil_lowMoisture:
  "lowMoistureCount (loop_soil smp u)
     = (if getFilteredMoisture (readSensors_soil smp u) > MOISTURE_THRESHOLD_HIGH then 0
        else lowMoistureCount u + 1)"
  by (simp add: loop_soil_fields MOISTURE_THRESHOLD_LOW_def MOISTURE_THRESHOLD_HIGH_def)

text \<open>
  Claim C8, as amended. No alert counter is capped. On every pass each counter of the fire
  and soil sketches is set to its previous value plus one when its condition holds,
  whatever that value, and to 0 when the condition fails (the low-moisture counter of the
  soil sketch is reset only above \<open>MOISTURE_THRESHOLD_HIGH\<close>, and incremented on every
  other pass). The two counters of the water sketch follow the same rule on every pass that
  starts with the baseline complete, and are left unchanged by every pass that starts with
  the baseline incomplete (the first \<open>BASELINE_READINGS\<close> passes after boot).

  Under a persisting condition a counter therefore grows by one per pass without bound:
  after any sequence of passes on each of which the counter's condition holds, started in
  any state (for the water sketch, any state with the baseline complete), the counter is
  its starting value plus the length of the sequence, as a 32-bit value, that is modulo
  \<open>2 ^ 32\<close>. In particular, after \<open>k\<close> passes with all fire indicators active the
  three counters of the fire sketch hold \<open>k\<close>; after \<open>k + 2\<close> dry, hot and acid passes
  the counters of the soil sketch hold \<open>k + 2\<close>, \<open>k + 1\<close> and \<open>k + 2\<close>; after
  \<open>k\<close> critical passes following the baseline the two counters of the water sketch
  hold \<open>k\<close>.
\<close>

theorem counters_not_capped:
  "level1AlertCount (loop_fire fsmp s)
     = (if 2 \<le> fire_count (readSensors_fire fsmp s) then level1AlertCount s + 1 else 0)
   \<and> level2AlertCount (loop_fire fsmp s)
     = (if 3 \<le> fire_count (readSensors_fire fsmp s) then level2AlertCount s + 1 else 0)
   \<and> level3AlertCount (loop_fire fsmp s)
     = (if 4 \<le> fire_count (readSensors_fire fsmp s) then level3AlertCount s + 1 else 0)
   \<and> lowMoistureCount (loop_soil smp u)
     = (if getFilteredMoisture (readSensors_soil smp u) > MOISTURE_THRESHOLD_HIGH then 0
        else lowMoistureCount u + 1)
   \<and> heatStressCount (loop_soil smp u)
     = (if getFilteredTemp (readSensors_soil smp u) > TEMP_HEAT_STRESS
           \<and> getFilteredHumidity (readSensors_soil smp u) < HUMIDITY_HEAT_STRESS
        then heatStressCount u + 1 else 0)
   \<and> phImbalanceCount (loop_soil smp u)
     = (if pH_soil (currentData_soil (readSensors_soil smp u)) < PH_MIN
           \<or> pH_soil (currentData_soil (readSensors_soil smp u)) > PH_MAX
        then phImbalanceCount u + 1 else 0)
   \<and> cautionAlertCount (fst (loop_water winp w))
     = (if baselineComplete w
        then (if 1 \<le> water_count (readSensors_water (snd winp) w)
              then cautionAlertCount w + 1 else 0)
        else cautionAlertCount w)
   \<and> criticalAlertCount (fst (loop_water winp w))
     = (if baselineComplete w
        then (if critical_entry (readSensors_water (snd winp) w)
              then criticalAlertCount w + 1 else 0)
        else criticalAlertCount w)
   \<and> (every_pass (\<lambda>x t. 2 \<le> fire_count (readSensors_fire x t)) loop_fire fsmps s
        \<longrightarrow> level1AlertCount (run_fire fsmps s)
            = level1AlertCount s + of_nat (length fsmps))
   \<and> (every_pass (\<lambda>x t. 3 \<le> fire_count (readSensors_fire x t)) loop_fire fsmps s
        \<longrightarrow> level2AlertCount (run_fire fsmps s)
            = level2AlertCount s + of_nat (length fsmps))
   \<and> (every_pass (\<lambda>x t. 4 \<le> fire_count (readSensors_fire x t)) loop_fire fsmps s
        \<longrightarrow> level3AlertCount (run_fire fsmps s)
            = level3AlertCount s + of_nat (length fsmps))
   \<and> (every_pass (\<lambda>x t. \<not> getFilteredMoisture (readSensors_soil x t)
                              > MOISTURE_THRESHOLD_HIGH) loop_soil smps u
        \<longrightarrow> lowMoistureCount (run_soil smps u)
            = lowMoistureCount u + of_nat (length smps))
   \<and> (every_pass (\<lambda>x t. getFilteredTemp (readSensors_soil x t) > TEMP_HEAT_STRESS
                        \<and> getFilteredHumidity (readSensors_soil x t)
                            < HUMIDITY_HEAT_STRESS) loop_soil smps u
        \<longrightarrow> heatStressCount (run_soil smps u)
            = heatStressCount u + of_nat (length smps))
   \<and> (every_pass (\<lambda>x t. pH_soil (currentData_soil (readSensors_soil x t)) < PH_MIN
                        \<or> pH_soil (currentData_soil (readSensors_soil x t)) > PH_MAX)
          loop_soil smps u
        \<longrightarrow> phImbalanceCount (run_soil smps u)
            = phImbalanceCount u + of_nat (length smps))
   \<and> (baselineComplete w
        \<and> every_pass (\<lambda>x t. 1 \<le> water_count (readSensors_water (snd x) t))
             (\<lambda>x t. fst (loop_water x t)) winps w
        \<longrightarrow> cautionAlertCount (run_water winps w)
            = cautionAlertCount w + of_nat (length winps))
   \<and> (baselineComplete w
        \<and> every_pass (\<lambda>x t. critical_entry (readSensors_water (snd x) t))
             (\<lambda>x t. fst (loop_water x t)) winps w
        \<longrightarrow> criticalAlertCount (run_water winps w)
            = criticalAlertCount w + of_nat (length winps))
   \<and> level1AlertCount (run_fire (replicate k fire_all_indicators) init_fire) = of_nat k
   \<and> level2AlertCount (run_fire (replicate k fire_all_indicators) init_fire) = of_nat k
   \<and> level3AlertCount (run_fire (replicate k fire_all_indicators) init_fire) = of_nat k
   \<and> lowMoistureCount (run_soil (replicate (k + 2) soil_hot_pass) init_soil) = of_nat (k + 2)
   \<and> heatStressCount (run_soil (replicate (k + 2) soil_hot_pass) init_soil) = of_nat (k + 1)
   \<and> phImbalanceCount (run_soil (replicate (k + 2) soil_hot_pass) init_soil) = of_nat (k + 2)
   \<and> cautionAlertCount
       (run_water (replicate BASELINE_READINGS water_critical_pass
                   @ replicate k water_critical_pass) init_water) = of_nat k
   \<and> criticalAlertCount
       (run_water (replicate BASELINE_READINGS water_critical_pass
                   @ replicate k water_critical_pass) init_water) = of_nat k"
proof -
  let ?b = "run_water (replicate BASELINE_READINGS water_critical_pass) init_water"
  have bc: "baselineComplete ?b" and un: "alerts_untouched ?b"
    by (rule baseline_done, simp)+
  from un have z: "cautionAlertCount ?b = 0" "criticalAlertCount ?b = 0"
    by (simp_all add: alerts_untouched_def)
  have water: "cautionAlertCount
       (run_water (replicate BASELINE_READINGS water_critical_pass
                   @ replicate k water_critical_pass) init_water) = of_nat k
     \<and> criticalAlertCount
       (run_water (replicate BASELINE_READINGS water_critical_pass
                   @ replicate k water_critical_pass) init_water) = of_nat k"
    using water_counts_grow [OF bc, of k] by (simp add: run_water_append z)
  have low: "lowMoistureCount (loop_soil smp u)
     = (if getFilteredMoisture (readSensors_soil smp u) > MOISTURE_THRESHOLD_HIGH then 0
        else lowMoistureCount u + 1)"
    by (simp add: loop_soil_fields MOISTURE_THRESHOLD_LOW_def MOISTURE_THRESHOLD_HIGH_def)
  have g1: "every_pass (\<lambda>x t. 2 \<le> fire_count (readSensors_fire x t)) loop_fire fsmps s
        \<longrightarrow> level1AlertCount (run_fire fsmps s)
            = level1AlertCount s + of_nat (length fsmps)"
    unfolding run_fire_def
    by (rule impI, rule every_pass_grows) (simp_all add: loop_fire_fields)
  have g2: "every_pass (\<lambda>x t. 3 \<le> fire_count (readSensors_fire x t)) loop_fire fsmps s
        \<longrightarrow> level2AlertCount (run_fire fsmps s)
            = level2AlertCount s + of_nat (length fsmps)"
    unfolding run_fire_def
    by (rule impI, rule every_pass_grows) (simp_all add: loop_fire_fields)
  have g3: "every_pass (\<lambda>x t. 4 \<le> fire_count (readSensors_fire x t)) loop_fire fsmps s
        \<longrightarrow> level3AlertCount (run_fire fsmps s)
            = level3AlertCount s + of_nat (length fsmps)"
    unfolding run_fire_def
    by (rule impI, rule every_pass_grows) (simp_all add: loop_fire_fields)
  have g4: "every_pass (\<lambda>x t. \<not> getFilteredMoisture (readSensors_soil x t)
                              > MOISTURE_THRESHOLD_HIGH) loop_soil smps u
        \<longrightarrow> lowMoistureCount (run_soil smps u)
            = lowMoistureCount u + of_nat (length smps)"
    unfolding run_soil_def
    by (rule impI, rule every_pass_grows) (simp_all add: loop_soil_lowMoisture)
  have g5: "every_pass (\<lambda>x t. getFilteredTemp (readSensors_soil x t) > TEMP_HEAT_STRESS
                        \<and> getFilteredHumidity (readSensors_soil x t)
                            < HUMIDITY_HEAT_STRESS) loop_soil smps u
        \<longrightarrow> heatStressCount (run_soil smps u)
            = heatStressCount u + of_nat (length smps)"
    unfolding run_soil_def
    by (rule impI, rule every_pass_grows) (simp_all add: loop_soil_fields(3))
  have g6: "every_pass (\<lambda>x t. pH_soil (currentData_soil (readSensors_soil x t)) < PH_MIN
                        \<or> pH_soil (currentData_soil (readSensors_soil x t)) > PH_MAX)
          loop_soil smps u
        \<longrightarrow> phImbalanceCount (run_soil smps u)
            = phImbalanceCount u + of_nat (length smps)"
    unfolding run_soil_def
    by (rule impI, rule every_pass_grows) (simp_all add: loop_soil_fields(5))
  have g7: "baselineComplete w
        \<and> every_pass (\<lambda>x t. 1 \<le> water_count (readSensors_water (snd x) t))
             (\<lambda>x t. fst (loop_water x t)) winps w
        \<longrightarrow> cautionAlertCount (run_water winps w)
            = cautionAlertCount w + of_nat (length winps)"
    by (rule impI, erule conjE, rule every_pass_water_grows) (simp_all add: loop_water_fields)
  have g8: "baselineComplete w
        \<and> every_pass (\<lambda>x t. critical_entry (readSensors_water (snd x) t))
             (\<lambda>x t. fst (loop_water x t)) winps w
        \<longrightarrow> criticalAlertCount (run_water winps w)
            = criticalAlertCount w + of_nat (length winps)"
    by (rule impI, erule conjE, rule every_pass_water_grows) (simp_all add: loop_water_fields)
  have steps: "level1AlertCount (loop_fire fsmp s)
     = (if 2 \<le> fire_count (readSensors_fire fsmp s) then level1AlertCount s + 1 else 0)
   \<and> level2AlertCount (loop_fire fsmp s)
     = (if 3 \<le> fire_count (readSensors_fire fsmp s) then level2AlertCount s + 1 else 0)
   \<and> level3AlertCount (loop_fire fsmp s)
     = (if 4 \<le> fire_count (readSensors_fire fsmp s) then level3AlertCount s + 1 else 0)
   \<and> lowMoistureCount (loop_soil smp u)
     = (if getFilteredMoisture (readSensors_soil smp u) > MOISTURE_THRESHOLD_HIGH then 0
        else lowMoistureCount u + 1)
   \<and> heatStressCount (loop_soil smp u)
     = (if getFilteredTemp (readSensors_soil smp u) > TEMP_HEAT_STRESS
           \<and> getFilteredHumidity (readSensors_soil smp u) < HUMIDITY_HEAT_STRESS
        then heatStressCount u + 1 else 0)
   \<and> phImbalanceCount (loop_soil smp u)
     = (if pH_soil (currentData_soil (readSensors_soil smp u)) < PH_MIN
           \<or> pH_soil (currentData_soil (readSensors_soil smp u)) > PH_MAX
        then phImbalanceCount u + 1 else 0)
   \<and> cautionAlertCount (fst (loop_water winp w))
     = (if baselineComplete w
        then (if 1 \<le> water_count (readSensors_water (snd winp) w)
              then cautionAlertCount w + 1 else 0)
        else cautionAlertCount w)
   \<and> criticalAlertCount (fst (loop_water winp w))
     = (if baselineComplete w
        then (if critical_entry (readSensors_water (snd winp) w)
              then criticalAlertCount w + 1 else 0)
        else criticalAlertCount w)"
    using low
    by (simp only: loop_fire_fields loop_soil_fields(3,5) loop_water_counts simp_thms)
  show ?thesis
    using steps g1 g2 g3 g4 g5 g6 g7 g8 water fire_counts_grow [of k] soil_counts_grow [of k]
    by blast
qed

text \<open>Seven passes with all fire indicators active from boot, three dry, hot and acid passes
  of the soil sketch after two such passes, and three critical passes of the water sketch
  after the baseline: every pass qualifies for every counter, and the counters hold 7, 7
  and 7; 5, 4 and 5; 3 and 3.\<close>

theorem counters_not_capped_witness:
  "every_pass (\<lambda>x t. 2 \<le> fire_count (readSensors_fire x t)) loop_fire
     (replicate 7 fire_all_indicators) init_fire
   \<and> every_pass (\<lambda>x t. 3 \<le> fire_count (readSensors_fire x t)) loop_fire
     (replicate 7 fire_all_indicators) init_fire
   \<and> every_pass (\<lambda>x t. 4 \<le> fire_count (readSensors_fire x t)) loop_fire
     (replicate 7 fire_all_indicators) init_fire
   \<and> level1AlertCount (run_fire (replicate 7 fire_all_indicators) init_fire) = 7
   \<and> level2AlertCount (run_fire (replicate 7 fire_all_indicators) init_fire) = 7
   \<and> level3AlertCount (run_fire (replicate 7 fire_all_indicators) init_fire) = 7
   \<and> every_pass (\<lambda>x t. \<not> getFilteredMoisture (readSensors_soil x t)
                              > MOISTURE_THRESHOLD_HIGH) loop_soil
     (replicate 3 soil_hot_pass) (run_soil [soil_hot_pass, soil_hot_pass] init_soil)
   \<and> every_pass (\<lambda>x t. getFilteredTemp (readSensors_soil x t) > TEMP_HEAT_STRESS
                        \<and> getFilteredHumidity (readSensors_soil x t)
                            < HUMIDITY_HEAT_STRESS) loop_soil
     (replicate 3 soil_hot_pass) (run_soil [soil_hot_pass, soil_hot_pass] init_soil)
   \<and> every_pass (\<lambda>x t. pH_soil (currentData_soil (readSensors_soil x t)) < PH_MIN
                        \<or> pH_soil (currentData_soil (readSensors_soil x t)) > PH_MAX)
     loop_soil
     (replicate 3 soil_hot_pass) (run_soil [soil_hot_pass, soil_hot_pass] init_soil)
   \<and> lowMoistureCount (run_soil (replicate 3 soil_hot_pass)
        (run_soil [soil_hot_pass, soil_hot_pass] init_soil)) = 5
   \<and> heatStressCount (run_soil (replicate 3 soil_hot_pass)
        (run_soil [soil_hot_pass, soil_hot_pass] init_soil)) = 4
   \<and> phImbalanceCount (run_soil (replicate 3 soil_hot_pass)
        (run_soil [soil_hot_pass, soil_hot_pass] init_soil)) = 5
   \<and> baselineComplete (run_water (replicate BASELINE_READINGS water_critical_pass) init_water)
   \<and> every_pass (\<lambda>x t. 1 \<le> water_count (readSensors_water (snd x) t))
        (\<lambda>x t. fst (loop_water x t)) (replicate 3 water_critical_pass)
        (run_water (replicate BASELINE_READINGS water_critical_pass) init_water)
   \<and> every_pass (\<lambda>x t. critical_entry (readSensors_water (snd x) t))
        (\<lambda>x t. fst (loop_water x t)) (replicate 3 water_critical_pass)
        (run_water (replicate BASELINE_READINGS water_critical_pass) init_water)
   \<and> cautionAlertCount (run_water (replicate 3 water_critical_pass)
        (run_water (replicate BASELINE_READINGS water_critical_pass) init_water)) = 3
   \<and> criticalAlertCount (run_water (replicate 3 water_critical_pass)
        (run_water (replicate BASELINE_READINGS water_critical_pass) init_water)) = 3"
proof -
  let ?f = "replicate 7 fire_all_indicators"
  let ?u = "run_soil [soil_hot_pass, soil_hot_pass] init_soil"
  let ?h = "replicate 3 soil_hot_pass"
  let ?b = "run_water (replicate BASELINE_READINGS water_critical_pass) init_water"
  let ?c = "replicate 3 water_critical_pass"
  let ?keeps = "\<lambda>t. moistureBuffer t = [0, 0] \<and> tempBuffer t = [40, 40]
                \<and> humidityBuffer t = [20, 20] \<and> bufferIndex t < 2"
  note t = counters_not_capped [where fsmps = ?f and s = init_fire and smps = ?h and u = ?u
      and winps = ?c and w = ?b]
  have f1: "every_pass (\<lambda>x t. 2 \<le> fire_count (readSensors_fire x t)) loop_fire ?f init_fire"
    by (rule every_pass_replicate [where good = "\<lambda>t. True"]) (simp_all add: fire_count_concrete)
  have f2: "every_pass (\<lambda>x t. 3 \<le> fire_count (readSensors_fire x t)) loop_fire ?f init_fire"
    by (rule every_pass_replicate [where good = "\<lambda>t. True"]) (simp_all add: fire_count_concrete)
  have f3: "every_pass (\<lambda>x t. 4 \<le> fire_count (readSensors_fire x t)) loop_fire ?f init_fire"
    by (rule every_pass_replicate [where good = "\<lambda>t. True"]) (simp_all add: fire_count_concrete)
  have i0: "level1AlertCount init_fire = 0" "level2AlertCount init_fire = 0"
    "level3AlertCount init_fire = 0"
    by (simp_all add: init_fire_def)
  from t f1 have c1: "level1AlertCount (run_fire ?f init_fire)
      = level1AlertCount init_fire + of_nat (length ?f)"
    by blast
  from t f2 have c2: "level2AlertCount (run_fire ?f init_fire)
      = level2AlertCount init_fire + of_nat (length ?f)"
    by blast
  from t f3 have c3: "level3AlertCount (run_fire ?f init_fire)
      = level3AlertCount init_fire + of_nat (length ?f)"
    by blast
  have u0: "?keeps ?u"
    by (simp add: soil_hot_first_two)
  have rd: "moistureBuffer (readSensors_soil soil_hot_pass t) = [0, 0]
      \<and> tempBuffer (readSensors_soil soil_hot_pass t) = [40, 40]
      \<and> humidityBuffer (readSensors_soil soil_hot_pass t) = [20, 20]" if "?keeps t" for t
  proof -
    from that have "bufferIndex t = 0 \<or> bufferIndex t = 1" by auto
    with that show ?thesis by (auto simp add: soil_hot_reading)
  qed
  have keep: "?keeps (loop_soil soil_hot_pass t)" if "?keeps t" for t
    using that soil_hot_step(1-4) [of t] by blast
  have s1: "every_pass (\<lambda>x t. \<not> getFilteredMoisture (readSensors_soil x t)
                              > MOISTURE_THRESHOLD_HIGH) loop_soil ?h ?u"
  proof (rule every_pass_replicate [where good = ?keeps, OF u0], rule conjI)
    fix t :: soil_state
    assume a: "?keeps t"
    from rd [OF a] show "\<not> getFilteredMoisture (readSensors_soil soil_hot_pass t)
                              > MOISTURE_THRESHOLD_HIGH"
      by (simp add: getFilteredMoisture_def buffer_sum_pair MOISTURE_THRESHOLD_HIGH_def)
    from keep [OF a] show "?keeps (loop_soil soil_hot_pass t)" .
  qed
  have s2: "every_pass (\<lambda>x t. getFilteredTemp (readSensors_soil x t) > TEMP_HEAT_STRESS
                        \<and> getFilteredHumidity (readSensors_soil x t)
                            < HUMIDITY_HEAT_STRESS) loop_soil ?h ?u"
  proof (rule every_pass_replicate [where good = ?keeps, OF u0], rule conjI)
    fix t :: soil_state
    assume a: "?keeps t"
    from rd [OF a] show "getFilteredTemp (readSensors_soil soil_hot_pass t) > TEMP_HEAT_STRESS
        \<and> getFilteredHumidity (readSensors_soil soil_hot_pass t) < HUMIDITY_HEAT_STRESS"
      by (simp add: getFilteredTemp_def getFilteredHumidity_def buffer_sum_pair
          BUFFER_SIZE_def TEMP_HEAT_STRESS_def HUMIDITY_HEAT_STRESS_def)
    from keep [OF a] show "?keeps (loop_soil soil_hot_pass t)" .
  qed
  have s3: "every_pass (\<lambda>x t. pH_soil (currentData_soil (readSensors_soil x t)) < PH_MIN
                        \<or> pH_soil (currentData_soil (readSensors_soil x t)) > PH_MAX)
              loop_soil ?h ?u"
    by (rule every_pass_replicate [where good = "\<lambda>t. True"])
      (simp_all add: soil_hot_reading PH_MIN_def)
  from t s1 have d1: "lowMoistureCount (run_soil ?h ?u)
      = lowMoistureCount ?u + of_nat (length ?h)"
    by blast
  from t s2 have d2: "heatStressCount (run_soil ?h ?u)
      = heatStressCount ?u + of_nat (length ?h)"
    by blast
  from t s3 have d3: "phImbalanceCount (run_soil ?h ?u)
      = phImbalanceCount ?u + of_nat (length ?h)"
    by blast
  have bc: "baselineComplete ?b" and un: "alerts_untouched ?b"
    by (rule baseline_done, simp)+
  from un have z: "cautionAlertCount ?b = 0" "criticalAlertCount ?b = 0"
    by (simp_all add: alerts_untouched_def)
  have w2: "every_pass (\<lambda>x t. critical_entry (readSensors_water (snd x) t))
        (\<lambda>x t. fst (loop_water x t)) ?c ?b"
    by (rule every_pass_replicate [where good = "\<lambda>t. True"])
      (simp_all add: water_critical_reading)
  have w1: "every_pass (\<lambda>x t. 1 \<le> water_count (readSensors_water (snd x) t))
        (\<lambda>x t. fst (loop_water x t)) ?c ?b"
    by (rule every_pass_replicate [where good = "\<lambda>t. True"])
      (simp_all add: water_critical_reading critical_is_indicator)
  from t bc w1 have e1: "cautionAlertCount (run_water ?c ?b)
      = cautionAlertCount ?b + of_nat (length ?c)"
    by blast
  from t bc w2 have e2: "criticalAlertCount (run_water ?c ?b)
      = criticalAlertCount ?b + of_nat (length ?c)"
    by blast
  have v1: "level1AlertCount (run_fire ?f init_fire) = 7"
    and v2: "level2AlertCount (run_fire ?f init_fire) = 7"
    and v3: "level3AlertCount (run_fire ?f init_fire) = 7"
    by (simp_all add: c1 c2 c3 i0)
  have v4: "lowMoistureCount (run_soil ?h ?u) = 5"
    and v5: "heatStressCount (run_soil ?h ?u) = 4"
    and v6: "phImbalanceCount (run_soil ?h ?u) = 5"
    by (simp_all add: d1 d2 d3 soil_hot_first_two)
  have v7: "cautionAlertCount (run_water ?c ?b) = 3"
    and v8: "criticalAlertCount (run_water ?c ?b) = 3"
    by (simp_all add: e1 e2 z)
  from f1 f2 f3 v1 v2 v3 s1 s2 s3 v4 v5 v6 bc w1 w2 v7 v8 show ?thesis
    by blast
qed


text \<open>After seven passes with all indicators active, tier 1's counter of the fire sketch
  holds 7, above its debounce threshold plus one.\<close>

theorem counter_exceeds_cap_counterexample:
  "level1AlertCount (run_fire (replicate 7 fire_all_indicators) init_fire) = 7
   \<and> \<not> level1AlertCount (run_fire (replicate 7 fire_all_indicators) init_fire) \<le>s 5 + 1"
  using fire_counts_grow [of 7] by simp

end
